theory Spec2Isabelle
  imports Complex_Main "HOL-Library.Word"
begin

unbundle bit_operations_syntax

section \<open>Go values\<close>

text \<open>
  The validator works on untyped Go values (\<^verbatim>\<open>interface{}\<close>), both for the tool schemas and
  for the arguments of a call. A value is modelled with its dynamic type, because the code
  decides by type assertion (\<^verbatim>\<open>x.([]string)\<close>, \<^verbatim>\<open>x.(int)\<close>) and by reflection kind:
  \<^item> \<open>GInt\<close> is a Go \<^verbatim>\<open>int\<close>, \<open>GFloat\<close> a \<^verbatim>\<open>float64\<close> (what a JSON number decodes to),
    idealised as a real number;
  \<^item> \<open>GStrings\<close> is \<^verbatim>\<open>[]string\<close>, \<open>GSlice\<close> is \<^verbatim>\<open>[]interface{}\<close>, \<open>GMaps\<close> is
    \<^verbatim>\<open>[]map[string]interface{}\<close>: three different dynamic types of kind slice;
  \<^item> \<open>GMap\<close> is \<^verbatim>\<open>map[string]interface{}\<close>, as an association list with distinct keys.
    For the arguments of a call the order of the list is the order in which the runtime
    iterates over the map (Go leaves that order unspecified).
\<close>

datatype gval =
    GNil
  | GBool bool
  | GInt int
  | GFloat real
  | GString string
  | GStrings "string list"
  | GSlice "gval list"
  | GMap "(string \<times> gval) list"
  | GMaps "(string \<times> gval) list list"

type_synonym gmap = "(string \<times> gval) list"

text \<open>
  Formatted messages are kept symbolic: \<open>Sprintf f args\<close> stands for the string that
  \<^verbatim>\<open>fmt.Sprintf(f, args...)\<close> (or \<^verbatim>\<open>fmt.Errorf\<close>) builds, \<open>Lit s\<close> for a string constant.
\<close>

datatype msg = Lit string | Sprintf string "arg list"
  and arg = AS string | AI int | AV gval | AT msg

text \<open>
  Go errors. \<open>ErrorString\<close> is an error made by \<^verbatim>\<open>fmt.Errorf\<close>; \<open>ValidationError\<close> and
  \<open>PermissionError\<close> are the two struct types of the repository. \<open>RuntimePanic\<close> is not an
  error value of the program: it stands for a run-time panic, which leaves every function on
  the call stack at once, exactly like an error that every caller returns unchanged.
\<close>

datatype goerr =
    ErrorString msg
  | ValidationError (vType: string) (vMessage: msg) (vField: "string option")
  | PermissionError (pOperation: string) (pPermission: string) (pResource: msg) (pDescription: string)
  | RuntimePanic string

definition NewValidationError :: "string \<Rightarrow> msg \<Rightarrow> string option \<Rightarrow> goerr" where
  "NewValidationError errorType message field = ValidationError errorType message field"

fun Error :: "goerr \<Rightarrow> msg" where
  "Error (ErrorString t) = t"
| "Error (ValidationError ty msg (Some f)) = Sprintf ''%s: %s (field: %v)'' [AS ty, AT msg, AS f]"
| "Error (ValidationError ty msg None) = Sprintf ''%s: %s'' [AS ty, AT msg]"
| "Error (PermissionError operation permission resource description) =
     Sprintf ''insufficient permissions for %s on %s: missing %s (%s)''
       [AS operation, AT resource, AS permission, AS description]"
| "Error (RuntimePanic s) = Lit s"

section \<open>The schema validator (package validation, validator.go)\<close>

text \<open>
  The two library functions the validator calls: \<^verbatim>\<open>regexp.Compile\<close>, which gives an error
  or a compiled expression (modelled by its \<^verbatim>\<open>MatchString\<close>), and \<^verbatim>\<open>strconv.ParseFloat\<close>.
\<close>

type_synonym regex = "string \<Rightarrow> bool"

record golib =
  Compile :: "string \<Rightarrow> msg + regex"
  ParseFloat :: "string \<Rightarrow> real option"

text \<open>The state of a \<^verbatim>\<open>Validator\<close>: its cache of compiled patterns.\<close>

type_synonym patterns = "string \<rightharpoonup> regex"

definition NewValidator :: patterns where
  "NewValidator = Map.empty"

text \<open>The reflection kinds of the values above. Of the numeric kinds of Go only \<^verbatim>\<open>int\<close> and
  \<^verbatim>\<open>float64\<close> occur: the schemas hold \<^verbatim>\<open>int\<close> constants, and a JSON number decodes to
  \<^verbatim>\<open>float64\<close>.\<close>

datatype kind = KBool | KInt | KFloat64 | KMap | KSlice | KString

fun kindOf :: "gval \<Rightarrow> kind option" where
  "kindOf GNil = None"
| "kindOf (GBool b) = Some KBool"
| "kindOf (GInt i) = Some KInt"
| "kindOf (GFloat r) = Some KFloat64"
| "kindOf (GString s) = Some KString"
| "kindOf (GStrings ss) = Some KSlice"
| "kindOf (GSlice xs) = Some KSlice"
| "kindOf (GMap m) = Some KMap"
| "kindOf (GMaps ms) = Some KSlice"

definition isNumeric :: "gval \<Rightarrow> bool" where
  "isNumeric v = (kindOf v = Some KInt \<or> kindOf v = Some KFloat64)"

definition isInteger :: "gval \<Rightarrow> bool" where
  "isInteger v = (kindOf v = Some KInt)"

fun toFloat64 :: "golib \<Rightarrow> gval \<Rightarrow> real option" where
  "toFloat64 lib (GInt i) = Some (real_of_int i)"
| "toFloat64 lib (GFloat r) = Some r"
| "toFloat64 lib (GString s) = ParseFloat lib s"
| "toFloat64 lib v = None"

definition getNumericValue :: "golib \<Rightarrow> gval \<Rightarrow> real" where
  "getNumericValue lib v = (case toFloat64 lib v of Some f \<Rightarrow> f | None \<Rightarrow> 0)"

definition getCompiledRegex :: "golib \<Rightarrow> patterns \<Rightarrow> string \<Rightarrow> (msg + regex) \<times> patterns" where
  "getCompiledRegex lib pats pattern =
     (case pats pattern of
        Some regex \<Rightarrow> (Inr regex, pats)
      | None \<Rightarrow>
          (case Compile lib pattern of
             Inl err \<Rightarrow> (Inl err, pats)
           | Inr regex \<Rightarrow> (Inr regex, pats(pattern \<mapsto> regex))))"

text \<open>\<^verbatim>\<open>validateRequired\<close>: the first name of the \<^verbatim>\<open>required\<close> list that is no key of the
  arguments is reported; a schema without a \<^verbatim>\<open>[]string\<close> under \<^verbatim>\<open>required\<close> passes.\<close>

fun firstMissing :: "string list \<Rightarrow> gmap \<Rightarrow> string option" where
  "firstMissing [] params = None"
| "firstMissing (reqParam # required) params =
     (if map_of params reqParam = None then Some reqParam else firstMissing required params)"

definition validateRequired :: "gmap \<Rightarrow> gmap \<Rightarrow> goerr option" where
  "validateRequired schema params =
     (case map_of schema ''required'' of
        Some (GStrings required) \<Rightarrow>
          (case firstMissing required params of
             Some reqParam \<Rightarrow>
               Some (ErrorString (Sprintf ''required parameter '%s' is missing'' [AS reqParam]))
           | None \<Rightarrow> None)
      | _ \<Rightarrow> None)"

definition typeMismatch :: "string \<Rightarrow> string \<Rightarrow> gval \<Rightarrow> goerr" where
  "typeMismatch paramName what v =
     NewValidationError ''type mismatch''
       (Sprintf (''parameter '%s' must be '' @ what @ '', got %T'') [AS paramName, AV v])
       (Some paramName)"

definition validateType :: "string \<Rightarrow> gval \<Rightarrow> gmap \<Rightarrow> goerr option" where
  "validateType paramName v schema =
     (case map_of schema ''type'' of
        Some (GString expectedType) \<Rightarrow>
          (if v = GNil then
             Some (NewValidationError ''null value''
                     (Sprintf ''parameter '%s' cannot be null'' [AS paramName]) (Some paramName))
           else if expectedType = ''string'' then
             (if kindOf v \<noteq> Some KString then Some (typeMismatch paramName ''a string'' v) else None)
           else if expectedType = ''integer'' then
             (if \<not> isInteger v then Some (typeMismatch paramName ''an integer'' v) else None)
           else if expectedType = ''number'' then
             (if \<not> isNumeric v then Some (typeMismatch paramName ''a number'' v) else None)
           else if expectedType = ''boolean'' then
             (if kindOf v \<noteq> Some KBool then Some (typeMismatch paramName ''a boolean'' v) else None)
           else if expectedType = ''array'' then
             (if kindOf v \<noteq> Some KSlice then Some (typeMismatch paramName ''an array'' v) else None)
           else if expectedType = ''object'' then
             (if kindOf v \<noteq> Some KMap then Some (typeMismatch paramName ''an object'' v) else None)
           else None)
      | _ \<Rightarrow> None)"

text \<open>\<^verbatim>\<open>validateString\<close>, one definition for each of its four blocks. \<^verbatim>\<open>len\<close> counts bytes,
  as \<open>length\<close> does on a \<open>string\<close>.\<close>

definition minLengthCheck :: "string \<Rightarrow> string \<Rightarrow> gmap \<Rightarrow> goerr option" where
  "minLengthCheck paramName v schema =
     (case map_of schema ''minLength'' of
        Some (GInt minLenInt) \<Rightarrow>
          (if int (length v) < minLenInt then
             Some (NewValidationError ''length constraint''
                     (Sprintf ''parameter '%s' must be at least %d characters, got %d''
                        [AS paramName, AI minLenInt, AI (int (length v))]) (Some paramName))
           else None)
      | _ \<Rightarrow> None)"

definition maxLengthCheck :: "string \<Rightarrow> string \<Rightarrow> gmap \<Rightarrow> goerr option" where
  "maxLengthCheck paramName v schema =
     (case map_of schema ''maxLength'' of
        Some (GInt maxLenInt) \<Rightarrow>
          (if int (length v) > maxLenInt then
             Some (NewValidationError ''length constraint''
                     (Sprintf ''parameter '%s' must be at most %d characters, got %d''
                        [AS paramName, AI maxLenInt, AI (int (length v))]) (Some paramName))
           else None)
      | _ \<Rightarrow> None)"

definition patternCheck ::
  "golib \<Rightarrow> patterns \<Rightarrow> string \<Rightarrow> string \<Rightarrow> gmap \<Rightarrow> goerr option \<times> patterns" where
  "patternCheck lib pats paramName v schema =
     (case map_of schema ''pattern'' of
        Some (GString patternStr) \<Rightarrow>
          (case getCompiledRegex lib pats patternStr of
             (Inl err, pats') \<Rightarrow>
               (Some (NewValidationError ''pattern error''
                        (Sprintf ''invalid regex pattern for parameter '%s': %v'' [AS paramName, AT err])
                        (Some paramName)), pats')
           | (Inr regex, pats') \<Rightarrow>
               (if \<not> regex v then
                  (Some (NewValidationError ''pattern mismatch''
                           (Sprintf ''parameter '%s' does not match required pattern: %s''
                              [AS paramName, AS patternStr]) (Some paramName)), pats')
                else (None, pats')))
      | _ \<Rightarrow> (None, pats))"

definition enumCheck :: "string \<Rightarrow> string \<Rightarrow> gmap \<Rightarrow> goerr option" where
  "enumCheck paramName v schema =
     (case map_of schema ''enum'' of
        Some (GStrings enumSlice) \<Rightarrow>
          (if \<not> List.member enumSlice v then
             Some (NewValidationError ''enum constraint''
                     (Sprintf (''parameter '%s' must be one of: %v, got '%s'' @ [CHR 0x27])
                        [AS paramName, AV (GStrings enumSlice), AS v]) (Some paramName))
           else None)
      | _ \<Rightarrow> None)"

definition validateString ::
  "golib \<Rightarrow> patterns \<Rightarrow> string \<Rightarrow> string \<Rightarrow> gmap \<Rightarrow> goerr option \<times> patterns" where
  "validateString lib pats paramName v schema =
     (case minLengthCheck paramName v schema of
        Some err \<Rightarrow> (Some err, pats)
      | None \<Rightarrow>
          (case maxLengthCheck paramName v schema of
             Some err \<Rightarrow> (Some err, pats)
           | None \<Rightarrow>
               (case patternCheck lib pats paramName v schema of
                  (Some err, pats') \<Rightarrow> (Some err, pats')
                | (None, pats') \<Rightarrow> (enumCheck paramName v schema, pats'))))"

text \<open>\<^verbatim>\<open>validateNumeric\<close>: both bounds are compared as \<^verbatim>\<open>float64\<close>. Here they are compared
  as real numbers: the rounding of the conversion of an \<^verbatim>\<open>int\<close> beyond \<open>2 ^ 53\<close> is not
  modelled.\<close>

definition minimumCheck :: "golib \<Rightarrow> string \<Rightarrow> gval \<Rightarrow> gmap \<Rightarrow> goerr option" where
  "minimumCheck lib paramName v schema =
     (case map_of schema ''minimum'' of
        Some minV \<Rightarrow>
          (case toFloat64 lib minV of
             Some minFloat \<Rightarrow>
               (if getNumericValue lib v < minFloat then
                  Some (NewValidationError ''range constraint''
                          (Sprintf ''parameter '%s' must be at least %v, got %v''
                             [AS paramName, AV minV, AV v]) (Some paramName))
                else None)
           | None \<Rightarrow> None)
      | None \<Rightarrow> None)"

definition maximumCheck :: "golib \<Rightarrow> string \<Rightarrow> gval \<Rightarrow> gmap \<Rightarrow> goerr option" where
  "maximumCheck lib paramName v schema =
     (case map_of schema ''maximum'' of
        Some maxV \<Rightarrow>
          (case toFloat64 lib maxV of
             Some maxFloat \<Rightarrow>
               (if getNumericValue lib v > maxFloat then
                  Some (NewValidationError ''range constraint''
                          (Sprintf ''parameter '%s' must be at most %v, got %v''
                             [AS paramName, AV maxV, AV v]) (Some paramName))
                else None)
           | None \<Rightarrow> None)
      | None \<Rightarrow> None)"

definition validateNumeric :: "golib \<Rightarrow> string \<Rightarrow> gval \<Rightarrow> gmap \<Rightarrow> goerr option" where
  "validateNumeric lib paramName v schema =
     (case minimumCheck lib paramName v schema of
        Some err \<Rightarrow> Some err
      | None \<Rightarrow> maximumCheck lib paramName v schema)"

text \<open>
  \<^verbatim>\<open>validateArray\<close>. \<open>items v\<close> are the elements that \<^verbatim>\<open>rv.Index(i).Interface()\<close> reads from a
  value of kind slice. The uniqueness loop stores each element as a key of a Go map: an
  element that is itself a slice or a map cannot be hashed, and the look-up panics.
\<close>

fun items :: "gval \<Rightarrow> gval list" where
  "items (GStrings ss) = map GString ss"
| "items (GSlice xs) = xs"
| "items (GMaps ms) = map GMap ms"
| "items v = []"

definition hashable :: "gval \<Rightarrow> bool" where
  "hashable v = (kindOf v \<noteq> Some KSlice \<and> kindOf v \<noteq> Some KMap)"

text \<open>The name of the dynamic type of a value, as the run-time system prints it in the
  message of that panic.\<close>

fun typeName :: "gval \<Rightarrow> string" where
  "typeName GNil = ''<nil>''"
| "typeName (GBool b) = ''bool''"
| "typeName (GInt i) = ''int''"
| "typeName (GFloat r) = ''float64''"
| "typeName (GString s) = ''string''"
| "typeName (GStrings ss) = ''[]string''"
| "typeName (GSlice xs) = ''[]interface {}''"
| "typeName (GMap m) = ''map[string]interface {}''"
| "typeName (GMaps ms) = ''[]map[string]interface {}''"

fun uniqueLoop :: "string \<Rightarrow> gval list \<Rightarrow> gval list \<Rightarrow> goerr option" where
  "uniqueLoop paramName seen [] = None"
| "uniqueLoop paramName seen (item # rest) =
     (if \<not> hashable item then
        Some (RuntimePanic (''runtime error: hash of unhashable type '' @ typeName item))
      else if List.member seen item then
        Some (NewValidationError ''uniqueness constraint''
                (Sprintf ''parameter '%s' contains duplicate items'' [AS paramName]) (Some paramName))
      else uniqueLoop paramName (item # seen) rest)"

definition minItemsCheck :: "string \<Rightarrow> gval \<Rightarrow> gmap \<Rightarrow> goerr option" where
  "minItemsCheck paramName v schema =
     (case map_of schema ''minItems'' of
        Some (GInt minInt) \<Rightarrow>
          (if int (length (items v)) < minInt then
             Some (NewValidationError ''array constraint''
                     (Sprintf ''parameter '%s' must have at least %d items, got %d''
                        [AS paramName, AI minInt, AI (int (length (items v)))]) (Some paramName))
           else None)
      | _ \<Rightarrow> None)"

definition maxItemsCheck :: "string \<Rightarrow> gval \<Rightarrow> gmap \<Rightarrow> goerr option" where
  "maxItemsCheck paramName v schema =
     (case map_of schema ''maxItems'' of
        Some (GInt maxInt) \<Rightarrow>
          (if int (length (items v)) > maxInt then
             Some (NewValidationError ''array constraint''
                     (Sprintf ''parameter '%s' must have at most %d items, got %d''
                        [AS paramName, AI maxInt, AI (int (length (items v)))]) (Some paramName))
           else None)
      | _ \<Rightarrow> None)"

definition uniqueItemsCheck :: "string \<Rightarrow> gval \<Rightarrow> gmap \<Rightarrow> goerr option" where
  "uniqueItemsCheck paramName v schema =
     (case map_of schema ''uniqueItems'' of
        Some (GBool uniqueBool) \<Rightarrow> (if uniqueBool then uniqueLoop paramName [] (items v) else None)
      | _ \<Rightarrow> None)"

definition validateObject :: "string \<Rightarrow> gval \<Rightarrow> gmap \<Rightarrow> goerr option" where
  "validateObject paramName v schema =
     (if kindOf v \<noteq> Some KMap then
        Some (NewValidationError ''type mismatch''
                (Sprintf ''parameter '%s' must be an object'' [AS paramName]) (Some paramName))
      else None)"

text \<open>Decimal digits of a natural number, for the \<^verbatim>\<open>%d\<close> of an element's name \<^verbatim>\<open>field[i]\<close>.\<close>

fun itoa :: "nat \<Rightarrow> string" where
  "itoa n = (if n < 10 then [char_of (48 + n)] else itoa (n div 10) @ [char_of (48 + n mod 10)])"

declare itoa.simps [simp del]

definition itemParamName :: "string \<Rightarrow> nat \<Rightarrow> string" where
  "itemParamName paramName i = paramName @ ''['' @ itoa i @ '']''"

text \<open>
  \<^verbatim>\<open>validateParameter\<close> and \<^verbatim>\<open>validateArray\<close> call each other; \<open>validateItems\<close> is the
  loop of \<^verbatim>\<open>validateArray\<close> over the elements, from index \<open>i\<close> on. The recursion follows the
  nesting of the value.
\<close>

primrec gsize :: "gval \<Rightarrow> nat" where
  "gsize GNil = 1"
| "gsize (GBool b) = 1"
| "gsize (GInt i) = 1"
| "gsize (GFloat r) = 1"
| "gsize (GString s) = 1"
| "gsize (GStrings ss) = 1 + length ss"
| "gsize (GSlice xs) = 1 + sum_list (map gsize xs)"
| "gsize (GMap m) = 1"
| "gsize (GMaps ms) = 1 + length ms"

lemma gsize_pos: "0 < gsize v"
  by (cases v) simp_all

lemma gsize_items: "sum_list (map gsize (items v)) < gsize v"
  by (cases v) (simp_all add: comp_def sum_list_triv)

lemma gsize_items3: "Suc (Suc (3 * sum_list (map gsize (items v)))) < 3 * gsize v"
  using gsize_items [of v] by linarith

function validateParameter ::
    "golib \<Rightarrow> patterns \<Rightarrow> string \<Rightarrow> gval \<Rightarrow> gval \<Rightarrow> goerr option \<times> patterns"
  and validateArray ::
    "golib \<Rightarrow> patterns \<Rightarrow> string \<Rightarrow> gval \<Rightarrow> gmap \<Rightarrow> goerr option \<times> patterns"
  and validateItems ::
    "golib \<Rightarrow> patterns \<Rightarrow> string \<Rightarrow> nat \<Rightarrow> gval list \<Rightarrow> gval \<Rightarrow> goerr option \<times> patterns"
where
  "validateParameter lib pats paramName v propSchema =
     (case propSchema of
        GMap schema \<Rightarrow>
          (case validateType paramName v schema of
             Some err \<Rightarrow> (Some err, pats)
           | None \<Rightarrow>
               (case (case v of GString s \<Rightarrow> validateString lib pats paramName s schema
                              | _ \<Rightarrow> (None, pats)) of
                  (Some err, pats1) \<Rightarrow> (Some err, pats1)
                | (None, pats1) \<Rightarrow>
                    (case (if v \<noteq> GNil \<and> isNumeric v then validateNumeric lib paramName v schema
                           else None) of
                       Some err \<Rightarrow> (Some err, pats1)
                     | None \<Rightarrow>
                         (case (if kindOf v = Some KSlice
                                then validateArray lib pats1 paramName v schema
                                else (None, pats1)) of
                            (Some err, pats2) \<Rightarrow> (Some err, pats2)
                          | (None, pats2) \<Rightarrow>
                              ((if kindOf v = Some KMap then validateObject paramName v schema
                                else None), pats2)))))
      | _ \<Rightarrow>
          (Some (NewValidationError ''invalid schema''
                   (Sprintf (''invalid schema for parameter '%s'' @ [CHR 0x27]) [AS paramName])
                   (Some paramName)),
           pats))"
| "validateArray lib pats paramName v schema =
     (case minItemsCheck paramName v schema of
        Some err \<Rightarrow> (Some err, pats)
      | None \<Rightarrow>
          (case maxItemsCheck paramName v schema of
             Some err \<Rightarrow> (Some err, pats)
           | None \<Rightarrow>
               (case uniqueItemsCheck paramName v schema of
                  Some err \<Rightarrow> (Some err, pats)
                | None \<Rightarrow>
                    (case map_of schema ''items'' of
                       Some itemSchema \<Rightarrow> validateItems lib pats paramName 0 (items v) itemSchema
                     | None \<Rightarrow> (None, pats)))))"
| "validateItems lib pats paramName i [] itemSchema = (None, pats)"
| "validateItems lib pats paramName i (item # rest) itemSchema =
     (case validateParameter lib pats (itemParamName paramName i) item itemSchema of
        (Some err, pats') \<Rightarrow> (Some err, pats')
      | (None, pats') \<Rightarrow> validateItems lib pats' paramName (Suc i) rest itemSchema)"
  by pat_completeness auto
termination
  by (relation "measure (\<lambda>x. case x of
          Inl (lib, pats, paramName, v, propSchema) \<Rightarrow> 3 * gsize v + 2
        | Inr (Inl (lib, pats, paramName, v, schema)) \<Rightarrow> 3 * gsize v + 1
        | Inr (Inr (lib, pats, paramName, i, xs, itemSchema)) \<Rightarrow> 3 * sum_list (map gsize xs) + 3)")
     (auto simp: gsize_items3 gsize_pos)

text \<open>
  \<^verbatim>\<open>validateConditionals\<close>. The \<^verbatim>\<open>anyOf\<close> loop stops at the first condition whose
  \<^verbatim>\<open>validateRequired\<close> succeeds; \<^verbatim>\<open>not\<close> calls \<^verbatim>\<open>validateConditionals\<close> on the nested schema.
\<close>

fun anySatisfied :: "gmap list \<Rightarrow> gmap \<Rightarrow> bool" where
  "anySatisfied [] params = False"
| "anySatisfied (condition # conditions) params =
     (if validateRequired condition params = None then True else anySatisfied conditions params)"

definition anyOfCheck :: "gmap \<Rightarrow> gmap \<Rightarrow> goerr option" where
  "anyOfCheck schema params =
     (case map_of schema ''anyOf'' of
        Some (GMaps conditions) \<Rightarrow>
          (if \<not> anySatisfied conditions params then
             Some (NewValidationError ''conditional constraint''
                     (Lit ''at least one of the specified conditions must be met'') None)
           else None)
      | _ \<Rightarrow> None)"

lemma size_map_of:
  fixes m :: gmap
  shows "map_of m k = Some v \<Longrightarrow> size v < Suc (size_list (size_prod (\<lambda>x. 0) size) m)"
  by (induction m) (auto split: if_splits)

function validateConditionals :: "gmap \<Rightarrow> gmap \<Rightarrow> goerr option" where
  "validateConditionals schema params =
     (case anyOfCheck schema params of
        Some err \<Rightarrow> Some err
      | None \<Rightarrow>
          (case map_of schema ''not'' of
             Some (GMap notSchema) \<Rightarrow>
               (if validateConditionals notSchema params = None then
                  Some (NewValidationError ''conditional constraint''
                          (Lit ''the specified condition must not be satisfied'') None)
                else None)
           | _ \<Rightarrow> None))"
  by pat_completeness auto
termination
proof (relation "measure (\<lambda>(schema, params). size_list (size_prod (\<lambda>x. 0) size) schema)")
  show "wf (measure (\<lambda>(schema, params). size_list (size_prod (\<lambda>x. 0) size) schema))"
    by simp
next
  fix schema params :: gmap and x2 :: gval and notSchema :: gmap
  assume "map_of schema ''not'' = Some x2" and "x2 = GMap notSchema"
  then have "size (GMap notSchema) < Suc (size_list (size_prod (\<lambda>x. 0) size) schema)"
    using size_map_of [of schema "''not''" "GMap notSchema"] by simp
  then show "((notSchema, params), (schema, params))
      \<in> measure (\<lambda>(schema, params). size_list (size_prod (\<lambda>x. 0) size) schema)"
    by simp
qed

declare validateConditionals.simps [simp del]

text \<open>
  \<^verbatim>\<open>ValidateToolParams\<close>. \<open>validateParams\<close> is its loop over the arguments, in the order of the
  iteration: each argument is first looked up in \<^verbatim>\<open>properties\<close> and then validated, before the
  next one is visited. \<open>schemas\<close> is the value of the global variable \<^verbatim>\<open>ToolSchemas\<close>.
\<close>

fun validateParams :: "golib \<Rightarrow> patterns \<Rightarrow> gmap \<Rightarrow> gmap \<Rightarrow> goerr option \<times> patterns" where
  "validateParams lib pats properties [] = (None, pats)"
| "validateParams lib pats properties ((paramName, v) # rest) =
     (case map_of properties paramName of
        None \<Rightarrow>
          (Some (NewValidationError ''unknown parameter''
                   (Sprintf ''parameter '%s' is not defined'' [AS paramName]) (Some paramName)), pats)
      | Some propSchema \<Rightarrow>
          (case validateParameter lib pats paramName v propSchema of
             (Some err, pats') \<Rightarrow> (Some err, pats')
           | (None, pats') \<Rightarrow> validateParams lib pats' properties rest))"

definition ValidateToolParams ::
  "golib \<Rightarrow> gmap \<Rightarrow> patterns \<Rightarrow> string \<Rightarrow> gmap \<Rightarrow> goerr option \<times> patterns" where
  "ValidateToolParams lib schemas pats toolName params =
     (case map_of schemas toolName of
        None \<Rightarrow> (Some (ErrorString (Sprintf ''no schema found for tool: %s'' [AS toolName])), pats)
      | Some (GMap schemaMap) \<Rightarrow>
          (case validateRequired schemaMap params of
             Some err \<Rightarrow>
               (Some (NewValidationError ''missing required parameter'' (Error err) None), pats)
           | None \<Rightarrow>
               (case (case map_of schemaMap ''properties'' of
                        Some (GMap properties) \<Rightarrow> validateParams lib pats properties params
                      | _ \<Rightarrow> (None, pats)) of
                  (Some err, pats') \<Rightarrow> (Some err, pats')
                | (None, pats') \<Rightarrow> (validateConditionals schemaMap params, pats')))
      | Some _ \<Rightarrow>
          (Some (ErrorString (Sprintf ''invalid schema format for tool: %s'' [AS toolName])), pats))"

section \<open>The tool schemas (package validation, the table ToolSchemas)\<close>

text \<open>The entries of the table \<^verbatim>\<open>ToolSchemas\<close>, one definition for each tool.\<close>

definition send_message_schema :: gval where
  "send_message_schema = GMap [
      (''type'', GString ''object''),
      (''properties'', GMap [
        (''channel_id'', GMap [
          (''type'', GString ''string''),
          (''pattern'', GString ''^[0-9]+$''),
          (''minLength'', GInt 1),
          (''description'', GString ''Discord channel ID (snowflake)'')]),
        (''content'', GMap [
          (''type'', GString ''string''),
          (''minLength'', GInt 1),
          (''maxLength'', GInt 2000),
          (''description'', GString ''Message content (Discord markdown supported)'')]),
        (''tts'', GMap [
          (''type'', GString ''boolean''),
          (''default'', GBool False),
          (''description'', GString ''Whether message should be read aloud using TTS'')]),
        (''reply_to'', GMap [
          (''type'', GString ''string''),
          (''pattern'', GString ''^[0-9]+$''),
          (''description'', GString ''Message ID to reply to'')]),
        (''embeds'', GMap [
          (''type'', GString ''array''),
          (''maxItems'', GInt 10),
          (''description'', GString ''Array of embed objects''),
          (''items'', GMap [
            (''type'', GString ''object''),
            (''properties'', GMap [
              (''title'', GMap [
                (''type'', GString ''string''),
                (''maxLength'', GInt 256)]),
              (''description'', GMap [
                (''type'', GString ''string''),
                (''maxLength'', GInt 4096)]),
              (''color'', GMap [
                (''type'', GString ''integer''),
                (''minimum'', GInt 0),
                (''maximum'', GInt 16777215)]),
              (''url'', GMap [
                (''type'', GString ''string''),
                (''format'', GString ''uri'')]),
              (''thumbnail'', GMap [
                (''type'', GString ''object''),
                (''properties'', GMap [
                  (''url'', GMap [
                    (''type'', GString ''string''),
                    (''format'', GString ''uri'')])]),
                (''required'', GStrings [''url''])]),
              (''image'', GMap [
                (''type'', GString ''object''),
                (''properties'', GMap [
                  (''url'', GMap [
                    (''type'', GString ''string''),
                    (''format'', GString ''uri'')])]),
                (''required'', GStrings [''url''])]),
              (''fields'', GMap [
                (''type'', GString ''array''),
                (''maxItems'', GInt 25),
                (''items'', GMap [
                  (''type'', GString ''object''),
                  (''properties'', GMap [
                    (''name'', GMap [
                      (''type'', GString ''string''),
                      (''maxLength'', GInt 256)]),
                    (''value'', GMap [
                      (''type'', GString ''string''),
                      (''maxLength'', GInt 1024)]),
                    (''inline'', GMap [
                      (''type'', GString ''boolean''),
                      (''default'', GBool False)])]),
                  (''required'', GStrings [''name'', ''value''])])])])])])]),
      (''required'', GStrings [''channel_id'', ''content''])]"

definition get_channel_messages_schema :: gval where
  "get_channel_messages_schema = GMap [
      (''type'', GString ''object''),
      (''properties'', GMap [
        (''channel_id'', GMap [
          (''type'', GString ''string''),
          (''pattern'', GString ''^[0-9]+$''),
          (''description'', GString ''Discord channel ID (snowflake)'')]),
        (''limit'', GMap [
          (''type'', GString ''integer''),
          (''minimum'', GInt 1),
          (''maximum'', GInt 100),
          (''default'', GInt 50),
          (''description'', GString ''Number of messages to retrieve (1-100)'')]),
        (''before'', GMap [
          (''type'', GString ''string''),
          (''pattern'', GString ''^[0-9]+$''),
          (''description'', GString ''Get messages before this message ID'')]),
        (''after'', GMap [
          (''type'', GString ''string''),
          (''pattern'', GString ''^[0-9]+$''),
          (''description'', GString ''Get messages after this message ID'')]),
        (''around'', GMap [
          (''type'', GString ''string''),
          (''pattern'', GString ''^[0-9]+$''),
          (''description'', GString ''Get messages around this message ID'')])]),
      (''required'', GStrings [''channel_id'']),
      (''not'', GMap [
        (''anyOf'', GMaps [
          [
            (''allOf'', GMaps [
              [
                (''required'', GStrings [''before''])],
              [
                (''required'', GStrings [''after''])]])],
          [
            (''allOf'', GMaps [
              [
                (''required'', GStrings [''before''])],
              [
                (''required'', GStrings [''around''])]])],
          [
            (''allOf'', GMaps [
              [
                (''required'', GStrings [''after''])],
              [
                (''required'', GStrings [''around''])]])]])])]"

definition edit_message_schema :: gval where
  "edit_message_schema = GMap [
      (''type'', GString ''object''),
      (''properties'', GMap [
        (''channel_id'', GMap [
          (''type'', GString ''string''),
          (''pattern'', GString ''^[0-9]+$''),
          (''description'', GString ''Discord channel ID (snowflake)'')]),
        (''message_id'', GMap [
          (''type'', GString ''string''),
          (''pattern'', GString ''^[0-9]+$''),
          (''description'', GString ''Message ID to edit'')]),
        (''content'', GMap [
          (''type'', GString ''string''),
          (''maxLength'', GInt 2000),
          (''description'', GString ''New message content'')]),
        (''embeds'', GMap [
          (''type'', GString ''array''),
          (''maxItems'', GInt 10),
          (''description'', GString ''New embed objects'')])]),
      (''required'', GStrings [''channel_id'', ''message_id'']),
      (''anyOf'', GMaps [
        [
          (''required'', GStrings [''content''])],
        [
          (''required'', GStrings [''embeds''])]])]"

definition delete_message_schema :: gval where
  "delete_message_schema = GMap [
      (''type'', GString ''object''),
      (''properties'', GMap [
        (''channel_id'', GMap [
          (''type'', GString ''string''),
          (''pattern'', GString ''^[0-9]+$''),
          (''description'', GString ''Discord channel ID (snowflake)'')]),
        (''message_id'', GMap [
          (''type'', GString ''string''),
          (''pattern'', GString ''^[0-9]+$''),
          (''description'', GString ''Message ID to delete'')]),
        (''reason'', GMap [
          (''type'', GString ''string''),
          (''maxLength'', GInt 512),
          (''description'', GString ''Reason for deletion (appears in audit log)'')])]),
      (''required'', GStrings [''channel_id'', ''message_id''])]"

definition add_reaction_schema :: gval where
  "add_reaction_schema = GMap [
      (''type'', GString ''object''),
      (''properties'', GMap [
        (''channel_id'', GMap [
          (''type'', GString ''string''),
          (''pattern'', GString ''^[0-9]+$''),
          (''description'', GString ''Discord channel ID (snowflake)'')]),
        (''message_id'', GMap [
          (''type'', GString ''string''),
          (''pattern'', GString ''^[0-9]+$''),
          (''description'', GString ''Message ID to react to'')]),
        (''emoji'', GMap [
          (''type'', GString ''string''),
          (''description'', GString ''Emoji to add (Unicode emoji or custom emoji format)'')])]),
      (''required'', GStrings [''channel_id'', ''message_id'', ''emoji''])]"

definition list_channels_schema :: gval where
  "list_channels_schema = GMap [
      (''type'', GString ''object''),
      (''properties'', GMap [
        (''guild_id'', GMap [
          (''type'', GString ''string''),
          (''pattern'', GString ''^[0-9]+$''),
          (''description'', GString ''Guild (server) ID to list channels from'')]),
        (''type_filter'', GMap [
          (''type'', GString ''array''),
          (''description'', GString ''Filter channels by type''),
          (''items'', GMap [
            (''type'', GString ''string''),
            (''enum'', GStrings [''text'', ''voice'', ''category'', ''announcement'', ''stage'', ''forum'', ''media''])]),
          (''uniqueItems'', GBool True)]),
        (''include_permissions'', GMap [
          (''type'', GString ''boolean''),
          (''default'', GBool False),
          (''description'', GString ''Include bot permissions for each channel'')])]),
      (''required'', GStrings [''guild_id''])]"

definition get_channel_info_schema :: gval where
  "get_channel_info_schema = GMap [
      (''type'', GString ''object''),
      (''properties'', GMap [
        (''channel_id'', GMap [
          (''type'', GString ''string''),
          (''pattern'', GString ''^[0-9]+$''),
          (''description'', GString ''Discord channel ID (snowflake)'')]),
        (''include_permissions'', GMap [
          (''type'', GString ''boolean''),
          (''default'', GBool True),
          (''description'', GString ''Include bot permissions for this channel'')])]),
      (''required'', GStrings [''channel_id''])]"

definition get_guild_info_schema :: gval where
  "get_guild_info_schema = GMap [
      (''type'', GString ''object''),
      (''properties'', GMap [
        (''guild_id'', GMap [
          (''type'', GString ''string''),
          (''pattern'', GString ''^[0-9]+$''),
          (''description'', GString ''Guild (server) ID'')]),
        (''include_counts'', GMap [
          (''type'', GString ''boolean''),
          (''default'', GBool True),
          (''description'', GString ''Include member and channel counts'')])]),
      (''required'', GStrings [''guild_id''])]"

definition list_guild_members_schema :: gval where
  "list_guild_members_schema = GMap [
      (''type'', GString ''object''),
      (''properties'', GMap [
        (''guild_id'', GMap [
          (''type'', GString ''string''),
          (''pattern'', GString ''^[0-9]+$''),
          (''description'', GString ''Guild (server) ID'')])]),
      (''required'', GStrings [''guild_id''])]"

definition get_role_info_schema :: gval where
  "get_role_info_schema = GMap [
      (''type'', GString ''object''),
      (''properties'', GMap [
        (''guild_id'', GMap [
          (''type'', GString ''string''),
          (''pattern'', GString ''^[0-9]+$''),
          (''description'', GString ''Guild (server) ID'')]),
        (''role_id'', GMap [
          (''type'', GString ''string''),
          (''pattern'', GString ''^[0-9]+$''),
          (''description'', GString ''Role ID'')])]),
      (''required'', GStrings [''guild_id'', ''role_id''])]"

definition create_role_schema :: gval where
  "create_role_schema = GMap [
      (''type'', GString ''object''),
      (''properties'', GMap [
        (''guild_id'', GMap [
          (''type'', GString ''string''),
          (''pattern'', GString ''^[0-9]+$''),
          (''description'', GString ''Guild (server) ID'')]),
        (''name'', GMap [
          (''type'', GString ''string''),
          (''description'', GString ''Name of the new role'')])]),
      (''required'', GStrings [''guild_id'', ''name''])]"

definition delete_role_schema :: gval where
  "delete_role_schema = GMap [
      (''type'', GString ''object''),
      (''properties'', GMap [
        (''guild_id'', GMap [
          (''type'', GString ''string''),
          (''pattern'', GString ''^[0-9]+$''),
          (''description'', GString ''Guild (server) ID'')]),
        (''role_id'', GMap [
          (''type'', GString ''string''),
          (''pattern'', GString ''^[0-9]+$''),
          (''description'', GString ''Role ID to delete'')])]),
      (''required'', GStrings [''guild_id'', ''role_id''])]"

definition assign_role_schema :: gval where
  "assign_role_schema = GMap [
      (''type'', GString ''object''),
      (''properties'', GMap [
        (''guild_id'', GMap [
          (''type'', GString ''string''),
          (''pattern'', GString ''^[0-9]+$''),
          (''description'', GString ''Guild (server) ID'')]),
        (''role_id'', GMap [
          (''type'', GString ''string''),
          (''pattern'', GString ''^[0-9]+$''),
          (''description'', GString ''Role ID to assign'')]),
        (''user_id'', GMap [
          (''type'', GString ''string''),
          (''pattern'', GString ''^[0-9]+$''),
          (''description'', GString ''User ID to assign the role to'')])]),
      (''required'', GStrings [''guild_id'', ''role_id'', ''user_id''])]"

definition unassign_role_schema :: gval where
  "unassign_role_schema = GMap [
      (''type'', GString ''object''),
      (''properties'', GMap [
        (''guild_id'', GMap [
          (''type'', GString ''string''),
          (''pattern'', GString ''^[0-9]+$''),
          (''description'', GString ''Guild (server) ID'')]),
        (''role_id'', GMap [
          (''type'', GString ''string''),
          (''pattern'', GString ''^[0-9]+$''),
          (''description'', GString ''Role ID to unassign'')]),
        (''user_id'', GMap [
          (''type'', GString ''string''),
          (''pattern'', GString ''^[0-9]+$''),
          (''description'', GString ''User ID to unassign the role from'')])]),
      (''required'', GStrings [''guild_id'', ''role_id'', ''user_id''])]"

definition list_roles_schema :: gval where
  "list_roles_schema = GMap [
      (''type'', GString ''object''),
      (''properties'', GMap [
        (''guild_id'', GMap [
          (''type'', GString ''string''),
          (''pattern'', GString ''^[0-9]+$''),
          (''description'', GString ''Guild (server) ID to list roles from'')])]),
      (''required'', GStrings [''guild_id''])]"

definition ToolSchemas :: gmap where
  "ToolSchemas = [
     (''send_message'', send_message_schema),
     (''get_channel_messages'', get_channel_messages_schema),
     (''edit_message'', edit_message_schema),
     (''delete_message'', delete_message_schema),
     (''add_reaction'', add_reaction_schema),
     (''list_channels'', list_channels_schema),
     (''get_channel_info'', get_channel_info_schema),
     (''get_guild_info'', get_guild_info_schema),
     (''list_guild_members'', list_guild_members_schema),
     (''get_role_info'', get_role_info_schema),
     (''create_role'', create_role_schema),
     (''delete_role'', delete_role_schema),
     (''assign_role'', assign_role_schema),
     (''unassign_role'', unassign_role_schema),
     (''list_roles'', list_roles_schema)]"


definition GetToolSchema :: "string \<Rightarrow> gval option" where
  "GetToolSchema toolName = map_of ToolSchemas toolName"

section \<open>Tool results (package types, package validation, package permissions)\<close>

text \<open>The \<^verbatim>\<open>Data\<close> of a content block is an untyped map or \<^verbatim>\<open>nil\<close>; its values are the
  arguments the code puts there.\<close>

record Content =
  cType :: string
  cText :: msg
  cData :: "(string \<times> arg) list option"

record CallToolResult =
  rContent :: "Content list"
  rIsError :: bool

record CallToolParams =
  Name :: string
  Arguments :: gmap

text \<open>\<^verbatim>\<open>FormatValidationError\<close>: an error that is no \<^verbatim>\<open>*ValidationError\<close> is wrapped into one of
  type \<^verbatim>\<open>validation\<close>. The text starts with the four bytes that the source file has before
  \<^verbatim>\<open>Validation Error\<close>.\<close>

definition asValidationError :: "goerr \<Rightarrow> goerr" where
  "asValidationError err =
     (case err of
        ValidationError ty m f \<Rightarrow> err
      | _ \<Rightarrow> ValidationError ''validation'' (Error err) None)"

definition fieldValue :: "string option \<Rightarrow> arg" where
  "fieldValue f = (case f of None \<Rightarrow> AV GNil | Some name \<Rightarrow> AS name)"

definition FormatValidationError :: "goerr \<Rightarrow> CallToolResult" where
  "FormatValidationError err =
     (let validationErr = asValidationError err in
      \<lparr>rContent = [\<lparr>cType = ''text'',
           cText = Sprintf ([CHR 0xC3, CHR 0xA2, CHR 0xC5, CHR 0x92] @ '' Validation Error: %s'')
                     [AT (vMessage validationErr)],
           cData = Some [(''error_type'', AS (vType validationErr)),
                         (''message'', AT (vMessage validationErr)),
                         (''field'', fieldValue (vField validationErr))]\<rparr>],
       rIsError = True\<rparr>)"

text \<open>\<^verbatim>\<open>FormatPermissionError\<close> takes a \<^verbatim>\<open>*PermissionError\<close>: its four fields.\<close>

definition FormatPermissionError :: "string \<Rightarrow> string \<Rightarrow> msg \<Rightarrow> string \<Rightarrow> CallToolResult" where
  "FormatPermissionError operation permission resource description =
     \<lparr>rContent = [\<lparr>cType = ''text'',
          cText = Sprintf ([CHR 0xC3, CHR 0xB0, CHR 0xC5, CHR 0xB8, CHR 0xE2, CHR 0x80, CHR 0x9D,
                            CHR 0xE2, CHR 0x80, CHR 0x99] @ '' Permission Error: %s'')
                    [AS description],
          cData = Some [(''error_type'', AS ''permission''),
                        (''operation'', AS operation),
                        (''permission'', AS permission),
                        (''resource'', AT resource),
                        (''description'', AS description)]\<rparr>],
      rIsError = True\<rparr>"

text \<open>\<^verbatim>\<open>formatError\<close>, which every tool has in the same words (the call of the logger is left
  out). The text starts with the bytes of the cross mark.\<close>

definition formatError :: "string \<Rightarrow> goerr \<Rightarrow> CallToolResult" where
  "formatError message err =
     \<lparr>rContent = [\<lparr>cType = ''text'',
          cText = Sprintf ([CHR 0xE2, CHR 0x9D, CHR 0x8C] @ '' %s: %v'') [AS message, AT (Error err)],
          cData = Some [(''error_type'', AS ''discord_api''),
                        (''message'', AS message),
                        (''details'', AT (Error err))]\<rparr>],
      rIsError = True\<rparr>"

section \<open>The Discord client\<close>

text \<open>
  The remote service is outside the program. Each call of the client is recorded in a trace,
  and what a call returns is given by an oracle that sees the calls made so far, so that a
  call may answer differently the second time (the client limits its rate). An oracle gives
  the error of the call or the part of the answer that the program reads: of the bot user its
  ID, of a channel its guild ID, of a message the ID of its author, of a guild whether the
  pointer is not \<^verbatim>\<open>nil\<close>, of a member its role IDs, of a role its permission bits.
  \<open>Remote\<close> stands for the last phase of a tool, after validation and permission check: the
  calls that read or change the remote data and the formatting of their answer.
\<close>

datatype api_call =
    CGetBotUser
  | CChannel string
  | CUserChannelPermissions string string
  | CChannelMessage string string
  | CGetGuild string
  | CStateMember string string
  | CGuildMember string string
  | CStateRole string string
  | CRemote string gmap

type_synonym trace = "api_call list"

record discord =
  GetBotUser :: "trace \<Rightarrow> msg + string"
  SessionChannel :: "trace \<Rightarrow> string \<Rightarrow> msg + string"
  SessionUserChannelPermissions :: "trace \<Rightarrow> string \<Rightarrow> string \<Rightarrow> msg + 64 word"
  SessionChannelMessage :: "trace \<Rightarrow> string \<Rightarrow> string \<Rightarrow> msg + string"
  GetGuild :: "trace \<Rightarrow> string \<Rightarrow> msg + bool"
  StateMember :: "trace \<Rightarrow> string \<Rightarrow> string \<Rightarrow> msg + string list"
  SessionGuildMember :: "trace \<Rightarrow> string \<Rightarrow> string \<Rightarrow> msg + string list"
  StateRole :: "trace \<Rightarrow> string \<Rightarrow> string \<Rightarrow> msg + 64 word"
  Remote :: "trace \<Rightarrow> string \<Rightarrow> gmap \<Rightarrow> CallToolResult"

definition callGetBotUser :: "discord \<Rightarrow> trace \<Rightarrow> (msg + string) \<times> trace" where
  "callGetBotUser d tr = (GetBotUser d tr, tr @ [CGetBotUser])"

definition callChannel :: "discord \<Rightarrow> trace \<Rightarrow> string \<Rightarrow> (msg + string) \<times> trace" where
  "callChannel d tr channelID = (SessionChannel d tr channelID, tr @ [CChannel channelID])"

definition callUserChannelPermissions ::
  "discord \<Rightarrow> trace \<Rightarrow> string \<Rightarrow> string \<Rightarrow> (msg + 64 word) \<times> trace" where
  "callUserChannelPermissions d tr userID channelID =
     (SessionUserChannelPermissions d tr userID channelID,
      tr @ [CUserChannelPermissions userID channelID])"

definition callChannelMessage ::
  "discord \<Rightarrow> trace \<Rightarrow> string \<Rightarrow> string \<Rightarrow> (msg + string) \<times> trace" where
  "callChannelMessage d tr channelID messageID =
     (SessionChannelMessage d tr channelID messageID, tr @ [CChannelMessage channelID messageID])"

definition callGetGuild :: "discord \<Rightarrow> trace \<Rightarrow> string \<Rightarrow> (msg + bool) \<times> trace" where
  "callGetGuild d tr guildID = (GetGuild d tr guildID, tr @ [CGetGuild guildID])"

definition callStateMember ::
  "discord \<Rightarrow> trace \<Rightarrow> string \<Rightarrow> string \<Rightarrow> (msg + string list) \<times> trace" where
  "callStateMember d tr guildID userID =
     (StateMember d tr guildID userID, tr @ [CStateMember guildID userID])"

definition callGuildMember ::
  "discord \<Rightarrow> trace \<Rightarrow> string \<Rightarrow> string \<Rightarrow> (msg + string list) \<times> trace" where
  "callGuildMember d tr guildID userID =
     (SessionGuildMember d tr guildID userID, tr @ [CGuildMember guildID userID])"

definition callStateRole ::
  "discord \<Rightarrow> trace \<Rightarrow> string \<Rightarrow> string \<Rightarrow> (msg + 64 word) \<times> trace" where
  "callStateRole d tr guildID roleID =
     (StateRole d tr guildID roleID, tr @ [CStateRole guildID roleID])"

definition callRemote :: "discord \<Rightarrow> trace \<Rightarrow> string \<Rightarrow> gmap \<Rightarrow> CallToolResult \<times> trace" where
  "callRemote d tr toolName args = (Remote d tr toolName args, tr @ [CRemote toolName args])"

section \<open>The permission checker (package permissions, checker.go)\<close>

text \<open>The permission bits of the discordgo library, as \<^verbatim>\<open>int64\<close>.\<close>

definition PermissionAddReactions :: "64 word" where "PermissionAddReactions = 0x40"
definition PermissionViewChannel :: "64 word" where "PermissionViewChannel = 0x400"
definition PermissionSendMessages :: "64 word" where "PermissionSendMessages = 0x800"
definition PermissionSendTTSMessages :: "64 word" where "PermissionSendTTSMessages = 0x1000"
definition PermissionManageMessages :: "64 word" where "PermissionManageMessages = 0x2000"
definition PermissionReadMessageHistory :: "64 word" where "PermissionReadMessageHistory = 0x10000"
definition PermissionUseExternalEmojis :: "64 word" where "PermissionUseExternalEmojis = 0x40000"
definition PermissionManageRoles :: "64 word" where "PermissionManageRoles = 0x10000000"

definition NewPermissionError :: "string \<Rightarrow> string \<Rightarrow> msg \<Rightarrow> string \<Rightarrow> goerr" where
  "NewPermissionError operation permission resource description =
     PermissionError operation permission resource description"

definition getChannelInfo :: "discord \<Rightarrow> trace \<Rightarrow> string \<Rightarrow> (goerr + string) \<times> trace" where
  "getChannelInfo d tr channelID =
     (case callChannel d tr channelID of
        (Inl err, tr') \<Rightarrow> (Inl (ErrorString (Sprintf ''failed to get channel info: %w'' [AT err])), tr')
      | (Inr guildID, tr') \<Rightarrow> (Inr guildID, tr'))"

definition getMessageInfo ::
  "discord \<Rightarrow> trace \<Rightarrow> string \<Rightarrow> string \<Rightarrow> (goerr + string) \<times> trace" where
  "getMessageInfo d tr channelID messageID =
     (case callChannelMessage d tr channelID messageID of
        (Inl err, tr') \<Rightarrow> (Inl (ErrorString (Sprintf ''failed to get message info: %w'' [AT err])), tr')
      | (Inr authorID, tr') \<Rightarrow> (Inr authorID, tr'))"

definition getUserChannelPermissions ::
  "discord \<Rightarrow> trace \<Rightarrow> string \<Rightarrow> (goerr + 64 word) \<times> trace" where
  "getUserChannelPermissions d tr channelID =
     (case callGetBotUser d tr of
        (Inl err, tr1) \<Rightarrow> (Inl (ErrorString (Sprintf ''failed to get bot user: %w'' [AT err])), tr1)
      | (Inr botUserID, tr1) \<Rightarrow>
          (case getChannelInfo d tr1 channelID of
             (Inl err, tr2) \<Rightarrow> (Inl err, tr2)
           | (Inr guildID, tr2) \<Rightarrow>
               (if guildID = [] then
                  (Inr (PermissionSendMessages OR PermissionReadMessageHistory OR PermissionAddReactions),
                   tr2)
                else
                  (case callUserChannelPermissions d tr2 botUserID channelID of
                     (Inl err, tr3) \<Rightarrow>
                       (Inl (ErrorString (Sprintf ''failed to get channel permissions: %w'' [AT err])), tr3)
                   | (Inr permissions, tr3) \<Rightarrow> (Inr permissions, tr3)))))"

text \<open>The seven checks of one bit have the same shape; \<open>requireBit\<close> is that shape, with the
  bit and the four strings of the error.\<close>

definition requireBit ::
  "(goerr + 64 word) \<times> trace \<Rightarrow> 64 word \<Rightarrow> string \<Rightarrow> string \<Rightarrow> msg \<Rightarrow> string
     \<Rightarrow> goerr option \<times> trace" where
  "requireBit got required operation permission resource description =
     (case got of
        (Inl err, tr') \<Rightarrow> (Some err, tr')
      | (Inr permissions, tr') \<Rightarrow>
          (if permissions AND required = 0 then
             (Some (NewPermissionError operation permission resource description), tr')
           else (None, tr')))"

definition channelResource :: "string \<Rightarrow> msg" where
  "channelResource channelID = Sprintf ''channel:%s'' [AS channelID]"

definition CanSendMessages :: "discord \<Rightarrow> trace \<Rightarrow> string \<Rightarrow> goerr option \<times> trace" where
  "CanSendMessages d tr channelID =
     requireBit (getUserChannelPermissions d tr channelID) PermissionSendMessages
       ''send_message'' ''SEND_MESSAGES'' (channelResource channelID)
       ''Bot cannot send messages to this channel''"

definition CanSendTTSMessages :: "discord \<Rightarrow> trace \<Rightarrow> string \<Rightarrow> goerr option \<times> trace" where
  "CanSendTTSMessages d tr channelID =
     requireBit (getUserChannelPermissions d tr channelID) PermissionSendTTSMessages
       ''send_tts_message'' ''SEND_TTS_MESSAGES'' (channelResource channelID)
       ''Bot cannot send TTS messages to this channel''"

definition CanReadMessageHistory :: "discord \<Rightarrow> trace \<Rightarrow> string \<Rightarrow> goerr option \<times> trace" where
  "CanReadMessageHistory d tr channelID =
     requireBit (getUserChannelPermissions d tr channelID) PermissionReadMessageHistory
       ''read_messages'' ''READ_MESSAGE_HISTORY'' (channelResource channelID)
       ''Bot cannot read message history in this channel''"

definition CanManageMessages :: "discord \<Rightarrow> trace \<Rightarrow> string \<Rightarrow> goerr option \<times> trace" where
  "CanManageMessages d tr channelID =
     requireBit (getUserChannelPermissions d tr channelID) PermissionManageMessages
       ''manage_messages'' ''MANAGE_MESSAGES'' (channelResource channelID)
       ''Bot cannot manage messages in this channel''"

definition CanAddReactions :: "discord \<Rightarrow> trace \<Rightarrow> string \<Rightarrow> goerr option \<times> trace" where
  "CanAddReactions d tr channelID =
     requireBit (getUserChannelPermissions d tr channelID) PermissionAddReactions
       ''add_reaction'' ''ADD_REACTIONS'' (channelResource channelID)
       ''Bot cannot add reactions in this channel''"

definition CanUseExternalEmojis :: "discord \<Rightarrow> trace \<Rightarrow> string \<Rightarrow> goerr option \<times> trace" where
  "CanUseExternalEmojis d tr channelID =
     requireBit (getUserChannelPermissions d tr channelID) PermissionUseExternalEmojis
       ''use_external_emoji'' ''USE_EXTERNAL_EMOJIS'' (channelResource channelID)
       ''Bot cannot use external emojis in this channel''"

definition CanViewChannel :: "discord \<Rightarrow> trace \<Rightarrow> string \<Rightarrow> goerr option \<times> trace" where
  "CanViewChannel d tr channelID =
     requireBit (getUserChannelPermissions d tr channelID) PermissionViewChannel
       ''view_channel'' ''VIEW_CHANNEL'' (channelResource channelID)
       ''Bot cannot view this channel''"

definition guildResource :: "string \<Rightarrow> msg" where
  "guildResource guildID = Sprintf ''guild:%s'' [AS guildID]"

definition CanViewGuild :: "discord \<Rightarrow> trace \<Rightarrow> string \<Rightarrow> goerr option \<times> trace" where
  "CanViewGuild d tr guildID =
     (case callGetGuild d tr guildID of
        (Inl err, tr') \<Rightarrow>
          (Some (NewPermissionError ''view_guild'' ''GUILD_ACCESS'' (guildResource guildID)
                   ''Bot does not have access to this guild''), tr')
      | (Inr notNil, tr') \<Rightarrow>
          (if \<not> notNil then
             (Some (NewPermissionError ''view_guild'' ''GUILD_ACCESS'' (guildResource guildID)
                      ''Guild not found or bot not a member''), tr')
           else (None, tr')))"

text \<open>\<^verbatim>\<open>getBotGuildPermissions\<close>: the union of the bits of the roles of the bot.\<close>

fun rolePermissions ::
  "discord \<Rightarrow> trace \<Rightarrow> string \<Rightarrow> 64 word \<Rightarrow> string list \<Rightarrow> (goerr + 64 word) \<times> trace" where
  "rolePermissions d tr guildID permissions [] = (Inr permissions, tr)"
| "rolePermissions d tr guildID permissions (roleID # roles) =
     (case callStateRole d tr guildID roleID of
        (Inl err, tr') \<Rightarrow> (Inl (ErrorString (Sprintf ''failed to get role info: %w'' [AT err])), tr')
      | (Inr bits, tr') \<Rightarrow> rolePermissions d tr' guildID (permissions OR bits) roles)"

definition getBotGuildPermissions ::
  "discord \<Rightarrow> trace \<Rightarrow> string \<Rightarrow> (goerr + 64 word) \<times> trace" where
  "getBotGuildPermissions d tr guildID =
     (case callGetBotUser d tr of
        (Inl err, tr1) \<Rightarrow> (Inl (ErrorString (Sprintf ''failed to get bot user: %w'' [AT err])), tr1)
      | (Inr botUserID, tr1) \<Rightarrow>
          (case callGetGuild d tr1 guildID of
             (Inl err, tr2) \<Rightarrow> (Inl (ErrorString err), tr2)
           | (Inr notNil, tr2) \<Rightarrow>
               (case callStateMember d tr2 guildID botUserID of
                  (Inr roles, tr3) \<Rightarrow> rolePermissions d tr3 guildID 0 roles
                | (Inl err, tr3) \<Rightarrow>
                    (case callGuildMember d tr3 guildID botUserID of
                       (Inl err', tr4) \<Rightarrow>
                         (Inl (ErrorString (Sprintf ''failed to get bot member info: %w'' [AT err'])), tr4)
                     | (Inr roles, tr4) \<Rightarrow> rolePermissions d tr4 guildID 0 roles))))"

definition CanManageRoles :: "discord \<Rightarrow> trace \<Rightarrow> string \<Rightarrow> goerr option \<times> trace" where
  "CanManageRoles d tr guildID =
     requireBit (getBotGuildPermissions d tr guildID) PermissionManageRoles
       ''manage_roles'' ''MANAGE_ROLES'' (guildResource guildID)
       ''Bot cannot manage roles in this guild''"

definition messageResource :: "string \<Rightarrow> msg" where
  "messageResource messageID = Sprintf ''message:%s'' [AS messageID]"

text \<open>\<^verbatim>\<open>CanEditMessage\<close>: the bits of the channel, then the message, then the bot user; the
  author of the message decides which bit is required.\<close>

definition CanEditMessage ::
  "discord \<Rightarrow> trace \<Rightarrow> string \<Rightarrow> string \<Rightarrow> goerr option \<times> trace" where
  "CanEditMessage d tr channelID messageID =
     (case getUserChannelPermissions d tr channelID of
        (Inl err, tr1) \<Rightarrow> (Some err, tr1)
      | (Inr permissions, tr1) \<Rightarrow>
          (case getMessageInfo d tr1 channelID messageID of
             (Inl err, tr2) \<Rightarrow> (Some err, tr2)
           | (Inr authorID, tr2) \<Rightarrow>
               (case callGetBotUser d tr2 of
                  (Inl err, tr3) \<Rightarrow>
                    (Some (ErrorString (Sprintf ''failed to get bot user info: %w'' [AT err])), tr3)
                | (Inr botUserID, tr3) \<Rightarrow>
                    (if authorID = botUserID then
                       (if permissions AND PermissionSendMessages = 0 then
                          (Some (NewPermissionError ''edit_own_message'' ''SEND_MESSAGES''
                                   (messageResource messageID)
                                   ''Bot cannot edit its own messages without SEND_MESSAGES permission''),
                           tr3)
                        else (None, tr3))
                     else if permissions AND PermissionManageMessages = 0 then
                       (Some (NewPermissionError ''edit_others_message'' ''MANAGE_MESSAGES''
                                (messageResource messageID)
                                (''Bot cannot edit other users'' @ [CHR 0x27]
                                   @ '' messages without MANAGE_MESSAGES permission'')),
                        tr3)
                     else (None, tr3)))))"

definition CanDeleteMessage ::
  "discord \<Rightarrow> trace \<Rightarrow> string \<Rightarrow> string \<Rightarrow> goerr option \<times> trace" where
  "CanDeleteMessage d tr channelID messageID =
     (case getUserChannelPermissions d tr channelID of
        (Inl err, tr1) \<Rightarrow> (Some err, tr1)
      | (Inr permissions, tr1) \<Rightarrow>
          (case getMessageInfo d tr1 channelID messageID of
             (Inl err, tr2) \<Rightarrow> (Some err, tr2)
           | (Inr authorID, tr2) \<Rightarrow>
               (case callGetBotUser d tr2 of
                  (Inl err, tr3) \<Rightarrow>
                    (Some (ErrorString (Sprintf ''failed to get bot user info: %w'' [AT err])), tr3)
                | (Inr botUserID, tr3) \<Rightarrow>
                    (if authorID = botUserID then (None, tr3)
                     else if permissions AND PermissionManageMessages = 0 then
                       (Some (NewPermissionError ''delete_others_message'' ''MANAGE_MESSAGES''
                                (messageResource messageID)
                                (''Bot cannot delete other users'' @ [CHR 0x27]
                                   @ '' messages without MANAGE_MESSAGES permission'')),
                        tr3)
                     else (None, tr3)))))"

definition isExternalEmoji :: "string \<Rightarrow> bool" where
  "isExternalEmoji emoji = (length emoji > 2 \<and> hd emoji = CHR ''<'' \<and> last emoji = CHR ''>'')"

text \<open>\<^verbatim>\<open>ValidateMessageOperation\<close> (the calls of the logger are left out).\<close>

definition ValidateMessageOperation ::
  "discord \<Rightarrow> trace \<Rightarrow> string \<Rightarrow> string \<Rightarrow> gmap \<Rightarrow> goerr option \<times> trace" where
  "ValidateMessageOperation d tr operation channelID extraData =
     (case CanViewChannel d tr channelID of
        (Some err, tr1) \<Rightarrow> (Some err, tr1)
      | (None, tr1) \<Rightarrow>
          (if operation = ''send_message'' then
             (case CanSendMessages d tr1 channelID of
                (Some err, tr2) \<Rightarrow> (Some err, tr2)
              | (None, tr2) \<Rightarrow>
                  (case map_of extraData ''tts'' of
                     Some (GBool True) \<Rightarrow> CanSendTTSMessages d tr2 channelID
                   | _ \<Rightarrow> (None, tr2)))
           else if operation = ''get_messages'' then CanReadMessageHistory d tr1 channelID
           else if operation = ''edit_message'' then
             (case map_of extraData ''message_id'' of
                Some (GString messageID) \<Rightarrow> CanEditMessage d tr1 channelID messageID
              | _ \<Rightarrow>
                  (Some (NewPermissionError ''edit_message'' ''MESSAGE_ID_REQUIRED'' (Lit channelID)
                           ''Message ID is required for edit operations''), tr1))
           else if operation = ''delete_message'' then
             (case map_of extraData ''message_id'' of
                Some (GString messageID) \<Rightarrow> CanDeleteMessage d tr1 channelID messageID
              | _ \<Rightarrow>
                  (Some (NewPermissionError ''delete_message'' ''MESSAGE_ID_REQUIRED'' (Lit channelID)
                           ''Message ID is required for delete operations''), tr1))
           else if operation = ''add_reaction'' then
             (case CanAddReactions d tr1 channelID of
                (Some err, tr2) \<Rightarrow> (Some err, tr2)
              | (None, tr2) \<Rightarrow>
                  (case map_of extraData ''emoji'' of
                     Some (GString emoji) \<Rightarrow>
                       (if isExternalEmoji emoji then CanUseExternalEmojis d tr2 channelID
                        else (None, tr2))
                   | _ \<Rightarrow> (None, tr2)))
           else (None, tr1)))"

section \<open>The tools (package handlers)\<close>

text \<open>
  What a tool works on besides its arguments: the pattern cache of the validator and the
  calls made to the Discord client so far.
\<close>

record world =
  pats :: patterns
  calls :: trace

text \<open>\<^verbatim>\<open>Execute\<close> returns a result and an error, or it panics.\<close>

datatype exec = Return CallToolResult "goerr option" | Panicked string

text \<open>
  Every \<^verbatim>\<open>Execute\<close> that validates has the same steps in the same order:
  \<^enum> \<^verbatim>\<open>ValidateToolParams\<close> under the name of the tool; an error is returned through
    \<^verbatim>\<open>FormatValidationError\<close> with a \<^verbatim>\<open>nil\<close> error;
  \<^enum> the arguments are read by unchecked type assertions, which panic on another type:
    \<open>tsStrings\<close> are read as \<^verbatim>\<open>Arguments[k].(string)\<close>, \<open>tsOptional\<close> only when present;
  \<^enum> \<open>tsBefore\<close>: checks before the permission check whose error is returned through
    \<^verbatim>\<open>FormatValidationError\<close> (the embeds of \<^verbatim>\<open>send_message\<close> and \<^verbatim>\<open>edit_message\<close>);
  \<^enum> \<open>tsPermission\<close>: the permission check; a \<^verbatim>\<open>*PermissionError\<close> is returned through
    \<^verbatim>\<open>FormatPermissionError\<close>, another error through \<^verbatim>\<open>formatError\<close>;
  \<^enum> \<open>tsAfter\<close>: checks after the permission check (the emoji of \<^verbatim>\<open>add_reaction\<close>);
  \<^enum> the remote phase.
  \<open>runTool\<close> is these steps; each tool below gives what is its own.
\<close>

record toolSpec =
  tsName :: string
  tsDescription :: string
  tsStrings :: "string list"
  tsOptional :: "(string \<times> kind) list"
  tsBefore :: "gmap \<Rightarrow> goerr option"
  tsPermission :: "discord \<Rightarrow> trace \<Rightarrow> gmap \<Rightarrow> goerr option \<times> trace"
  tsAfter :: "gmap \<Rightarrow> goerr option"

definition assertionsHold :: "toolSpec \<Rightarrow> gmap \<Rightarrow> bool" where
  "assertionsHold spec args =
     (list_all (\<lambda>k. case map_of args k of Some (GString s) \<Rightarrow> True | _ \<Rightarrow> False) (tsStrings spec)
      \<and> list_all (\<lambda>(k, t). case map_of args k of None \<Rightarrow> True | Some v \<Rightarrow> kindOf v = Some t)
            (tsOptional spec))"

definition strArg :: "gmap \<Rightarrow> string \<Rightarrow> string" where
  "strArg args k = (case map_of args k of Some (GString s) \<Rightarrow> s | _ \<Rightarrow> [])"

definition boolArg :: "gmap \<Rightarrow> string \<Rightarrow> bool" where
  "boolArg args k = (case map_of args k of Some (GBool b) \<Rightarrow> b | _ \<Rightarrow> False)"

definition remotePhase :: "discord \<Rightarrow> world \<Rightarrow> string \<Rightarrow> gmap \<Rightarrow> exec \<times> world" where
  "remotePhase d w toolName args =
     (case callRemote d (calls w) toolName args of
        (res, tr) \<Rightarrow> (Return res None, w\<lparr>calls := tr\<rparr>))"

definition permissionFailed :: "goerr \<Rightarrow> exec" where
  "permissionFailed err =
     (case err of
        PermissionError operation permission resource description \<Rightarrow>
          Return (FormatPermissionError operation permission resource description) None
      | _ \<Rightarrow> Return (formatError ''Permission check failed'' err) None)"

definition runTool :: "toolSpec \<Rightarrow> golib \<Rightarrow> discord \<Rightarrow> world \<Rightarrow> CallToolParams \<Rightarrow> exec \<times> world" where
  "runTool spec lib d w params =
     (case ValidateToolParams lib ToolSchemas (pats w) (tsName spec) (Arguments params) of
        (Some (RuntimePanic s), pats') \<Rightarrow> (Panicked s, w\<lparr>pats := pats'\<rparr>)
      | (Some err, pats') \<Rightarrow> (Return (FormatValidationError err) None, w\<lparr>pats := pats'\<rparr>)
      | (None, pats') \<Rightarrow>
          (if \<not> assertionsHold spec (Arguments params) then
             (Panicked ''interface conversion'', w\<lparr>pats := pats'\<rparr>)
           else
             (case tsBefore spec (Arguments params) of
                Some err \<Rightarrow> (Return (FormatValidationError err) None, w\<lparr>pats := pats'\<rparr>)
              | None \<Rightarrow>
                  (case tsPermission spec d (calls w) (Arguments params) of
                     (Some err, tr) \<Rightarrow> (permissionFailed err, w\<lparr>pats := pats', calls := tr\<rparr>)
                   | (None, tr) \<Rightarrow>
                       (case tsAfter spec (Arguments params) of
                          Some err \<Rightarrow>
                            (Return (FormatValidationError err) None, w\<lparr>pats := pats', calls := tr\<rparr>)
                        | None \<Rightarrow>
                            remotePhase d (w\<lparr>pats := pats', calls := tr\<rparr>) (tsName spec)
                              (Arguments params))))))"

text \<open>\<^verbatim>\<open>parseEmbed\<close>, as far as it fails, and the loop over the embeds in \<^verbatim>\<open>Execute\<close>.\<close>

fun fieldsCheck :: "nat \<Rightarrow> gval list \<Rightarrow> goerr option" where
  "fieldsCheck i [] = None"
| "fieldsCheck i (fieldData # rest) =
     (case fieldData of
        GMap fieldMap \<Rightarrow> fieldsCheck (Suc i) rest
      | _ \<Rightarrow> Some (ErrorString (Sprintf ''field at index %d must be an object'' [AI (int i)])))"

definition parseEmbed :: "gval \<Rightarrow> goerr option" where
  "parseEmbed embedData =
     (case embedData of
        GMap embedMap \<Rightarrow>
          (case map_of embedMap ''fields'' of
             Some (GSlice fieldList) \<Rightarrow> fieldsCheck 0 fieldList
           | _ \<Rightarrow> None)
      | _ \<Rightarrow> Some (ErrorString (Lit ''embed must be an object'')))"

fun embedsLoop :: "nat \<Rightarrow> gval list \<Rightarrow> goerr option" where
  "embedsLoop i [] = None"
| "embedsLoop i (embedData # rest) =
     (case parseEmbed embedData of
        Some err \<Rightarrow>
          Some (ErrorString (Sprintf ''invalid embed at index %d: %w'' [AI (int i), AT (Error err)]))
      | None \<Rightarrow> embedsLoop (Suc i) rest)"

definition embedsCheck :: "gmap \<Rightarrow> goerr option" where
  "embedsCheck args =
     (case map_of args ''embeds'' of
        None \<Rightarrow> None
      | Some (GSlice embedsSlice) \<Rightarrow> embedsLoop 0 embedsSlice
      | Some _ \<Rightarrow> Some (ErrorString (Lit ''embeds must be an array'')))"

text \<open>\<^verbatim>\<open>isCustomEmoji\<close> and \<^verbatim>\<open>formatEmoji\<close> of \<^verbatim>\<open>add_reaction\<close>.\<close>

definition HasPrefix :: "string \<Rightarrow> string \<Rightarrow> bool" where
  "HasPrefix s p = (take (length p) s = p)"

definition isCustomEmoji :: "string \<Rightarrow> bool" where
  "isCustomEmoji emoji =
     (length emoji > 2 \<and> hd emoji = CHR ''<'' \<and> last emoji = CHR ''>''
      \<and> (HasPrefix emoji ''<:'' \<or> HasPrefix emoji ''<a:''))"

definition formatEmoji :: "string \<Rightarrow> string" where
  "formatEmoji emoji =
     (if isCustomEmoji emoji then
        (if HasPrefix emoji ''<a:'' then drop 3 (butlast emoji)
         else if HasPrefix emoji ''<:'' then drop 2 (butlast emoji)
         else emoji)
      else emoji)"

definition emojiCheck :: "gmap \<Rightarrow> goerr option" where
  "emojiCheck args =
     (if formatEmoji (strArg args ''emoji'') = [] then
        Some (ErrorString (Sprintf ''invalid emoji format: %s'' [AS (strArg args ''emoji'')]))
      else None)"

definition noCheck :: "gmap \<Rightarrow> goerr option" where
  "noCheck args = None"

definition SendMessageTool :: toolSpec where
  "SendMessageTool =
     \<lparr>tsName = ''send_message'',
      tsDescription = ''Send a message to a Discord channel with support for embeds, replies, and TTS'',
      tsStrings = [''channel_id'', ''content''],
      tsOptional = [(''tts'', KBool), (''reply_to'', KString)],
      tsBefore = embedsCheck,
      tsPermission = (\<lambda>d tr args. ValidateMessageOperation d tr ''send_message''
                        (strArg args ''channel_id'') [(''tts'', GBool (boolArg args ''tts''))]),
      tsAfter = noCheck\<rparr>"

definition GetChannelMessagesTool :: toolSpec where
  "GetChannelMessagesTool =
     \<lparr>tsName = ''get_channel_messages'',
      tsDescription = ''Retrieve message history from a Discord channel with pagination support'',
      tsStrings = [''channel_id''],
      tsOptional = [],
      tsBefore = noCheck,
      tsPermission = (\<lambda>d tr args. ValidateMessageOperation d tr ''get_messages''
                        (strArg args ''channel_id'') []),
      tsAfter = noCheck\<rparr>"

definition EditMessageTool :: toolSpec where
  "EditMessageTool =
     \<lparr>tsName = ''edit_message'',
      tsDescription = ''Edit a Discord message's content or embeds'',
      tsStrings = [''channel_id'', ''message_id''],
      tsOptional = [(''content'', KString)],
      tsBefore = embedsCheck,
      tsPermission = (\<lambda>d tr args. ValidateMessageOperation d tr ''edit_message''
                        (strArg args ''channel_id'')
                        [(''message_id'', GString (strArg args ''message_id''))]),
      tsAfter = noCheck\<rparr>"

definition DeleteMessageTool :: toolSpec where
  "DeleteMessageTool =
     \<lparr>tsName = ''delete_message'',
      tsDescription = ''Delete a Discord message'',
      tsStrings = [''channel_id'', ''message_id''],
      tsOptional = [(''reason'', KString)],
      tsBefore = noCheck,
      tsPermission = (\<lambda>d tr args. ValidateMessageOperation d tr ''delete_message''
                        (strArg args ''channel_id'')
                        [(''message_id'', GString (strArg args ''message_id''))]),
      tsAfter = noCheck\<rparr>"

definition AddReactionTool :: toolSpec where
  "AddReactionTool =
     \<lparr>tsName = ''add_reaction'',
      tsDescription = ''Add an emoji reaction to a Discord message'',
      tsStrings = [''channel_id'', ''message_id'', ''emoji''],
      tsOptional = [],
      tsBefore = noCheck,
      tsPermission = (\<lambda>d tr args. ValidateMessageOperation d tr ''add_reaction''
                        (strArg args ''channel_id'') [(''emoji'', GString (strArg args ''emoji''))]),
      tsAfter = emojiCheck\<rparr>"

definition ListChannelsTool :: toolSpec where
  "ListChannelsTool =
     \<lparr>tsName = ''list_channels'',
      tsDescription = ''List channels in a Discord server (guild)'',
      tsStrings = [''guild_id''],
      tsOptional = [(''type'', KString), (''include_permissions'', KBool)],
      tsBefore = noCheck,
      tsPermission = (\<lambda>d tr args. CanViewGuild d tr (strArg args ''guild_id'')),
      tsAfter = noCheck\<rparr>"

definition GetChannelInfoTool :: toolSpec where
  "GetChannelInfoTool =
     \<lparr>tsName = ''get_channel_info'',
      tsDescription = ''Get information about a specific Discord channel'',
      tsStrings = [''channel_id''],
      tsOptional = [(''include_permissions'', KBool)],
      tsBefore = noCheck,
      tsPermission = (\<lambda>d tr args. CanViewChannel d tr (strArg args ''channel_id'')),
      tsAfter = noCheck\<rparr>"

definition GetGuildInfoTool :: toolSpec where
  "GetGuildInfoTool =
     \<lparr>tsName = ''get_guild_info'',
      tsDescription = ''Get information about a specific Discord server (guild)'',
      tsStrings = [''guild_id''],
      tsOptional = [],
      tsBefore = noCheck,
      tsPermission = (\<lambda>d tr args. CanViewGuild d tr (strArg args ''guild_id'')),
      tsAfter = noCheck\<rparr>"

definition ListGuildMembersTool :: toolSpec where
  "ListGuildMembersTool =
     \<lparr>tsName = ''list_guild_members'',
      tsDescription = ''List all members in a Discord server (guild)'',
      tsStrings = [''guild_id''],
      tsOptional = [],
      tsBefore = noCheck,
      tsPermission = (\<lambda>d tr args. CanViewGuild d tr (strArg args ''guild_id'')),
      tsAfter = noCheck\<rparr>"

text \<open>The six role tools differ in their name and in the arguments they read.\<close>

definition roleTool :: "string \<Rightarrow> string \<Rightarrow> string list \<Rightarrow> toolSpec" where
  "roleTool toolName description strings =
     \<lparr>tsName = toolName,
      tsDescription = description,
      tsStrings = strings,
      tsOptional = [],
      tsBefore = noCheck,
      tsPermission = (\<lambda>d tr args. CanManageRoles d tr (strArg args ''guild_id'')),
      tsAfter = noCheck\<rparr>"

definition ListRolesTool :: toolSpec where
  "ListRolesTool = roleTool ''list_roles''
       ''List all roles in a Discord server (guild)''
       [''guild_id'']"

definition GetRoleInfoTool :: toolSpec where
  "GetRoleInfoTool = roleTool ''get_role_info''
       ''Get information about a specific Discord role''
       [''guild_id'', ''role_id'']"

definition CreateRoleTool :: toolSpec where
  "CreateRoleTool = roleTool ''create_role''
       ''Create a new role in a Discord server (guild)''
       [''guild_id'', ''name'']"

definition DeleteRoleTool :: toolSpec where
  "DeleteRoleTool = roleTool ''delete_role''
       ''Delete a role in a Discord server (guild)''
       [''guild_id'', ''role_id'']"

definition AssignRoleTool :: toolSpec where
  "AssignRoleTool = roleTool ''assign_role''
       ''Assign a role to a user in a Discord server (guild)''
       [''guild_id'', ''role_id'', ''user_id'']"

definition UnassignRoleTool :: toolSpec where
  "UnassignRoleTool = roleTool ''unassign_role''
       ''Unassign a role from a user in a Discord server (guild)''
       [''guild_id'', ''role_id'', ''user_id'']"

text \<open>
  The implementations of the interface \<^verbatim>\<open>ToolHandler\<close>. \<^verbatim>\<open>PingTool\<close> validates nothing and
  checks no permission: all it does is remote.
\<close>

datatype ToolHandler = Validating toolSpec | PingTool

fun Execute :: "ToolHandler \<Rightarrow> golib \<Rightarrow> discord \<Rightarrow> world \<Rightarrow> CallToolParams \<Rightarrow> exec \<times> world" where
  "Execute (Validating spec) lib d w params = runTool spec lib d w params"
| "Execute PingTool lib d w params = remotePhase d w ''ping'' (Arguments params)"

definition handlers :: "ToolHandler list" where
  "handlers =
     [Validating SendMessageTool, Validating GetChannelMessagesTool, Validating EditMessageTool,
      Validating DeleteMessageTool, Validating AddReactionTool, Validating ListChannelsTool,
      Validating GetChannelInfoTool, Validating GetGuildInfoTool, Validating ListGuildMembersTool,
      Validating ListRolesTool, Validating GetRoleInfoTool, Validating CreateRoleTool,
      Validating DeleteRoleTool, Validating AssignRoleTool, Validating UnassignRoleTool, PingTool]"

section \<open>The MCP server (package mcp)\<close>

definition ProtocolVersion :: string where "ProtocolVersion = ''2024-11-05''"
definition JSONRPCVersion :: string where "JSONRPCVersion = ''2.0''"

definition ParseError :: int where "ParseError = - 32700"
definition InvalidRequest :: int where "InvalidRequest = - 32600"
definition MethodNotFound :: int where "MethodNotFound = - 32601"
definition InvalidParams :: int where "InvalidParams = - 32602"
definition InternalError :: int where "InternalError = - 32603"

text \<open>
  A request as \<^verbatim>\<open>json.Unmarshal\<close> fills it: \<open>qID\<close> is \<open>GNil\<close> when the line has no \<^verbatim>\<open>id\<close>, and
  \<open>qParams\<close>, the raw bytes of \<^verbatim>\<open>params\<close>, is \<open>None\<close> (\<^verbatim>\<open>nil\<close>) when the line has no \<^verbatim>\<open>params\<close>.
\<close>

record Request =
  qJSONRPC :: string
  qID :: gval
  qMethod :: string
  qParams :: "string option"

record RPCError =
  eCode :: int
  eMessage :: msg
  eData :: "msg option"

record Tool =
  tName :: string
  tDescription :: string
  tInputSchema :: gval

record ServerCapabilities =
  capToolsListChanged :: "bool option"
  capResources :: "(bool \<times> bool) option"
  capPromptsListChanged :: "bool option"

record InitializeResult =
  iProtocolVersion :: string
  iCapabilities :: ServerCapabilities
  iServerName :: string
  iServerVersion :: string

datatype result =
    ResInitialize InitializeResult
  | ResToolsList "Tool list"
  | ResCallTool CallToolResult
  | ResStrings "(string \<times> string) list"

record Response =
  sJSONRPC :: string
  sID :: gval
  sResult :: "result option"
  sError :: "RPCError option"

text \<open>
  The decoder of \<^verbatim>\<open>encoding/json\<close> at the three types the server decodes into. Of the decoded
  \<^verbatim>\<open>InitializeParams\<close> the server only logs the client's name, so that decoder is modelled by
  its error.
\<close>

record jsonlib =
  UnmarshalRequest :: "string \<Rightarrow> msg + Request"
  UnmarshalInitializeParams :: "string \<Rightarrow> msg option"
  UnmarshalCallToolParams :: "string \<Rightarrow> msg + CallToolParams"

text \<open>\<^verbatim>\<open>GetToolDefinition\<close> and the two kinds of \<^verbatim>\<open>GetDefinition\<close>.\<close>

definition GetToolDefinition :: "string \<Rightarrow> string \<Rightarrow> Tool" where
  "GetToolDefinition toolName description =
     \<lparr>tName = toolName, tDescription = description,
      tInputSchema =
        (case GetToolSchema toolName of
           Some schema \<Rightarrow> schema
         | None \<Rightarrow> GMap [(''type'', GString ''object''), (''properties'', GMap []),
                           (''required'', GStrings [])])\<rparr>"

fun GetDefinition :: "ToolHandler \<Rightarrow> Tool" where
  "GetDefinition (Validating spec) = GetToolDefinition (tsName spec) (tsDescription spec)"
| "GetDefinition PingTool =
     \<lparr>tName = ''ping'',
      tDescription = ''Ping the Discord connection to verify server health and bot status'',
      tInputSchema = GMap [(''type'', GString ''object''), (''properties'', GMap []),
                           (''required'', GStrings [])]\<rparr>"

text \<open>
  The server: the two strings of its configuration that it reads, the registry and the flag
  of the handshake. The registry is a Go map; the order of the list is the order in which
  \<^verbatim>\<open>handleToolsList\<close> iterates over it.
\<close>

record Server =
  ServerName :: string
  Version :: string
  tools :: "(string \<times> ToolHandler) list"
  initialized :: bool

definition NewServer :: "string \<Rightarrow> string \<Rightarrow> Server" where
  "NewServer name version = \<lparr>ServerName = name, Version = version, tools = [], initialized = False\<rparr>"

fun assign :: "string \<Rightarrow> ToolHandler \<Rightarrow> (string \<times> ToolHandler) list \<Rightarrow> (string \<times> ToolHandler) list" where
  "assign k h [] = [(k, h)]"
| "assign k h ((k', h') # rest) = (if k' = k then (k, h) # rest else (k', h') # assign k h rest)"

definition RegisterTool :: "Server \<Rightarrow> ToolHandler \<Rightarrow> Server" where
  "RegisterTool s handler = s\<lparr>tools := assign (tName (GetDefinition handler)) handler (tools s)\<rparr>"

text \<open>What \<^verbatim>\<open>processMessage\<close> gives: \<^verbatim>\<open>nil\<close>, a response, or no return because of a panic.\<close>

datatype reply = NoResponse | Respond Response | Crash string

definition errorResponse :: "gval \<Rightarrow> int \<Rightarrow> msg \<Rightarrow> msg option \<Rightarrow> Response" where
  "errorResponse ident code message dat =
     \<lparr>sJSONRPC = JSONRPCVersion, sID = ident, sResult = None,
      sError = Some \<lparr>eCode = code, eMessage = message, eData = dat\<rparr>\<rparr>"

definition resultResponse :: "gval \<Rightarrow> result \<Rightarrow> Response" where
  "resultResponse ident res =
     \<lparr>sJSONRPC = JSONRPCVersion, sID = ident, sResult = Some res, sError = None\<rparr>"

definition handleInitialize :: "jsonlib \<Rightarrow> Server \<Rightarrow> Request \<Rightarrow> Response" where
  "handleInitialize jl s req =
     (case (case qParams req of
              Some raw \<Rightarrow> UnmarshalInitializeParams jl raw
            | None \<Rightarrow> None) of
        Some err \<Rightarrow> errorResponse (qID req) InvalidParams (Lit ''Invalid parameters'') (Some err)
      | None \<Rightarrow>
          resultResponse (qID req)
            (ResInitialize
               \<lparr>iProtocolVersion = ProtocolVersion,
                iCapabilities = \<lparr>capToolsListChanged = Some False, capResources = None,
                                 capPromptsListChanged = None\<rparr>,
                iServerName = ServerName s, iServerVersion = Version s\<rparr>))"

definition handleInitialized :: "Server \<Rightarrow> Request \<Rightarrow> reply \<times> Server" where
  "handleInitialized s req = (NoResponse, s\<lparr>initialized := True\<rparr>)"

definition handleToolsList :: "Server \<Rightarrow> Request \<Rightarrow> Response" where
  "handleToolsList s req =
     (if \<not> initialized s then
        errorResponse (qID req) InvalidRequest (Lit ''Server not initialized'') None
      else resultResponse (qID req) (ResToolsList (map (\<lambda>(name, handler). GetDefinition handler) (tools s))))"

definition handleToolCall ::
  "jsonlib \<Rightarrow> golib \<Rightarrow> discord \<Rightarrow> Server \<Rightarrow> world \<Rightarrow> Request \<Rightarrow> reply \<times> world" where
  "handleToolCall jl lib d s w req =
     (if \<not> initialized s then
        (Respond (errorResponse (qID req) InvalidRequest (Lit ''Server not initialized'') None), w)
      else
        (case UnmarshalCallToolParams jl (case qParams req of Some raw \<Rightarrow> raw | None \<Rightarrow> []) of
           Inl err \<Rightarrow>
             (Respond (errorResponse (qID req) InvalidParams (Lit ''Invalid parameters'') (Some err)), w)
         | Inr params \<Rightarrow>
             (case map_of (tools s) (Name params) of
                None \<Rightarrow>
                  (Respond (errorResponse (qID req) MethodNotFound
                              (Sprintf ''Tool not found: %s'' [AS (Name params)]) None), w)
              | Some handler \<Rightarrow>
                  (case Execute handler lib d w params of
                     (Panicked p, w') \<Rightarrow> (Crash p, w')
                   | (Return res (Some err), w') \<Rightarrow>
                       (Respond (errorResponse (qID req) InternalError
                                   (Sprintf ''Tool execution failed: %v'' [AT (Error err)]) None), w')
                   | (Return res None, w') \<Rightarrow>
                       (Respond (resultResponse (qID req) (ResCallTool res)), w')))))"

definition handlePing :: "Request \<Rightarrow> Response" where
  "handlePing req = resultResponse (qID req) (ResStrings [(''status'', ''pong'')])"

definition dispatch ::
  "jsonlib \<Rightarrow> golib \<Rightarrow> discord \<Rightarrow> Server \<times> world \<Rightarrow> Request \<Rightarrow> reply \<times> Server \<times> world" where
  "dispatch jl lib d sw req =
     (case sw of (s, w) \<Rightarrow>
        (if qMethod req = ''initialize'' then (Respond (handleInitialize jl s req), s, w)
         else if qMethod req = ''initialized'' then
           (case handleInitialized s req of (r, s') \<Rightarrow> (r, s', w))
         else if qMethod req = ''tools/list'' then (Respond (handleToolsList s req), s, w)
         else if qMethod req = ''tools/call'' then
           (case handleToolCall jl lib d s w req of (r, w') \<Rightarrow> (r, s, w'))
         else if qMethod req = ''ping'' then (Respond (handlePing req), s, w)
         else
           (Respond (errorResponse (qID req) MethodNotFound
                       (Sprintf ''Method not found: %s'' [AS (qMethod req)]) None), s, w)))"

text \<open>\<^verbatim>\<open>processMessage\<close>: the line is decoded, and \<open>dispatch\<close> is the \<^verbatim>\<open>switch\<close> on the method.
  The response to a line that does not decode has no \<^verbatim>\<open>id\<close>.\<close>

definition processMessage ::
  "jsonlib \<Rightarrow> golib \<Rightarrow> discord \<Rightarrow> Server \<times> world \<Rightarrow> string \<Rightarrow> reply \<times> Server \<times> world" where
  "processMessage jl lib d sw message =
     (case UnmarshalRequest jl message of
        Inl err \<Rightarrow>
          (Respond (errorResponse GNil ParseError (Lit ''Parse error'') (Some err)), fst sw, snd sw)
      | Inr req \<Rightarrow> dispatch jl lib d sw req)"

section \<open>Notifications (package notifications, service.go; package discord, dispatcher.go)\<close>

text \<open>
  \<^verbatim>\<open>EventsConfig\<close> is declared outside the files at hand; the dispatcher reads its two fields
  \<^verbatim>\<open>Enabled\<close> and \<^verbatim>\<open>AllowedEvents\<close>.
\<close>

record EventsConfig =
  Enabled :: bool
  AllowedEvents :: "string list"

record Notification =
  nJSONRPC :: string
  nMethod :: string
  nParams :: string

text \<open>
  The output: an \<^verbatim>\<open>io.Writer\<close> is a function that takes the bytes and the state \<open>'w\<close> of the
  sink and gives an error or none and the new state. The service has a writer or \<^verbatim>\<open>nil\<close>.
  The log is the list of the messages logged, with their level.
\<close>

datatype level = LDebug | LError

type_synonym 'w writer = "string \<Rightarrow> 'w \<Rightarrow> msg option \<times> 'w"

record 'w outside =
  sink :: 'w
  logged :: "(level \<times> msg) list"

text \<open>
  \<^verbatim>\<open>json.Marshal\<close> at the two types it is called on. Marshalling the parameters of an event, a
  map of strings, cannot fail (the source panics if it does) and is a total function here.
\<close>

record marshaller =
  MarshalParams :: "gmap \<Rightarrow> string"
  MarshalNotification :: "Notification \<Rightarrow> msg + string"

definition Fprintln :: "'w writer \<Rightarrow> string \<Rightarrow> 'w \<Rightarrow> msg option \<times> 'w" where
  "Fprintln wr line w = wr (line @ [CHR 0x0A]) w"

definition Send ::
  "marshaller \<Rightarrow> 'w writer option \<Rightarrow> Notification \<Rightarrow> 'w outside \<Rightarrow> goerr option \<times> 'w outside" where
  "Send m wr notification st =
     (case wr of
        None \<Rightarrow> (Some (ErrorString (Lit ''notification writer not configured'')), st)
      | Some write \<Rightarrow>
          (case MarshalNotification m (notification\<lparr>nJSONRPC := JSONRPCVersion\<rparr>) of
             Inl err \<Rightarrow>
               (Some (ErrorString (Sprintf ''failed to marshal notification: %w'' [AT err])), st)
           | Inr responseJSON \<Rightarrow>
               (let st1 = st\<lparr>logged := logged st
                              @ [(LDebug, Sprintf ''Sending notification: %s'' [AS responseJSON])]\<rparr>
                in case Fprintln write responseJSON (sink st1) of
                     (Some err, w') \<Rightarrow>
                       (Some (ErrorString (Sprintf ''failed to write notification: %w'' [AT err])),
                        st1\<lparr>sink := w'\<rparr>)
                   | (None, w') \<Rightarrow> (None, st1\<lparr>sink := w'\<rparr>))))"

definition createNotification :: "marshaller \<Rightarrow> string \<Rightarrow> gmap \<Rightarrow> Notification" where
  "createNotification m method params =
     \<lparr>nJSONRPC = JSONRPCVersion, nMethod = method, nParams = MarshalParams m params\<rparr>"

definition isEventAllowed :: "EventsConfig \<Rightarrow> string \<Rightarrow> bool" where
  "isEventAllowed config event = List.member (AllowedEvents config) event"

text \<open>The event dispatcher: its configuration and the writer of its notification service.\<close>

record 'w EventDispatcher =
  config :: EventsConfig
  notificationSvc :: "'w writer option"

text \<open>The fields of the three Discord events that the handlers read.\<close>

record MessageCreate =
  mcID :: string
  mcGuildID :: string
  mcChannelID :: string
  mcAuthorID :: string
  mcContent :: string

record GuildMemberAdd =
  gmGuildID :: string
  gmUserID :: string
  gmUsername :: string

record MessageReactionAdd =
  raGuildID :: string
  raChannelID :: string
  raMessageID :: string
  raUserID :: string
  raEmojiID :: string
  raEmojiName :: string

text \<open>The three handlers have one body; \<open>handleEvent\<close> is that body, with the name of the
  event, the line for the debug log, the parameters and the name in the error log.\<close>

definition handleEvent ::
  "marshaller \<Rightarrow> 'w EventDispatcher \<Rightarrow> string \<Rightarrow> msg \<Rightarrow> gmap \<Rightarrow> string \<Rightarrow> 'w outside \<Rightarrow> 'w outside" where
  "handleEvent m d event debugLine params failure st =
     (if \<not> Enabled (config d) \<or> \<not> isEventAllowed (config d) event then st
      else
        (case Send m (notificationSvc d) (createNotification m event params)
                (st\<lparr>logged := logged st @ [(LDebug, debugLine)]\<rparr>) of
           (Some err, st') \<Rightarrow>
             st'\<lparr>logged := logged st' @ [(LError, Sprintf failure [AT (Error err)])]\<rparr>
         | (None, st') \<Rightarrow> st'))"

definition messageCreateParams :: "MessageCreate \<Rightarrow> gmap" where
  "messageCreateParams ev =
     [(''guild_id'', GString (mcGuildID ev)),
      (''channel_id'', GString (mcChannelID ev)),
      (''message_id'', GString (mcID ev)),
      (''author_id'', GString (mcAuthorID ev)),
      (''content'', GString (mcContent ev))]"

definition HandleMessageCreate ::
  "marshaller \<Rightarrow> 'w EventDispatcher \<Rightarrow> MessageCreate \<Rightarrow> 'w outside \<Rightarrow> 'w outside" where
  "HandleMessageCreate m d ev st =
     handleEvent m d ''discord/messageCreated''
       (Sprintf ''Handling MessageCreate event for message ID: %s'' [AS (mcID ev)])
       (messageCreateParams ev)
       ''Failed to send messageCreated notification: %v'' st"

definition guildMemberAddParams :: "GuildMemberAdd \<Rightarrow> gmap" where
  "guildMemberAddParams ev =
     [(''guild_id'', GString (gmGuildID ev)),
      (''user'', GMap [(''id'', GString (gmUserID ev)), (''username'', GString (gmUsername ev))])]"

definition HandleGuildMemberAdd ::
  "marshaller \<Rightarrow> 'w EventDispatcher \<Rightarrow> GuildMemberAdd \<Rightarrow> 'w outside \<Rightarrow> 'w outside" where
  "HandleGuildMemberAdd m d ev st =
     handleEvent m d ''discord/guildMemberAdded''
       (Sprintf ''Handling GuildMemberAdd event for user ID: %s'' [AS (gmUserID ev)])
       (guildMemberAddParams ev)
       ''Failed to send guildMemberAdded notification: %v'' st"

definition messageReactionAddParams :: "MessageReactionAdd \<Rightarrow> gmap" where
  "messageReactionAddParams ev =
     [(''guild_id'', GString (raGuildID ev)),
      (''channel_id'', GString (raChannelID ev)),
      (''message_id'', GString (raMessageID ev)),
      (''user_id'', GString (raUserID ev)),
      (''emoji'', GMap [(''id'', GString (raEmojiID ev)), (''name'', GString (raEmojiName ev))])]"

definition HandleMessageReactionAdd ::
  "marshaller \<Rightarrow> 'w EventDispatcher \<Rightarrow> MessageReactionAdd \<Rightarrow> 'w outside \<Rightarrow> 'w outside" where
  "HandleMessageReactionAdd m d ev st =
     handleEvent m d ''discord/messageReactionAdded''
       (Sprintf ''Handling MessageReactionAdd event for message ID: %s'' [AS (raMessageID ev)])
       (messageReactionAddParams ev)
       ''Failed to send messageReactionAdded notification: %v'' st"

text \<open>
  The Discord session calls the handler registered for the type of an event
  (\<^verbatim>\<open>SetupEventHandlers\<close>). \<open>eventName\<close> and \<open>eventParams\<close> are the name and the parameters
  that the handler of the event gives to \<^verbatim>\<open>createNotification\<close>.
\<close>

datatype event =
    MessageCreateEvent MessageCreate
  | GuildMemberAddEvent GuildMemberAdd
  | MessageReactionAddEvent MessageReactionAdd

fun onEvent :: "marshaller \<Rightarrow> 'w EventDispatcher \<Rightarrow> event \<Rightarrow> 'w outside \<Rightarrow> 'w outside" where
  "onEvent m d (MessageCreateEvent ev) st = HandleMessageCreate m d ev st"
| "onEvent m d (GuildMemberAddEvent ev) st = HandleGuildMemberAdd m d ev st"
| "onEvent m d (MessageReactionAddEvent ev) st = HandleMessageReactionAdd m d ev st"

fun eventName :: "event \<Rightarrow> string" where
  "eventName (MessageCreateEvent ev) = ''discord/messageCreated''"
| "eventName (GuildMemberAddEvent ev) = ''discord/guildMemberAdded''"
| "eventName (MessageReactionAddEvent ev) = ''discord/messageReactionAdded''"

fun eventParams :: "event \<Rightarrow> gmap" where
  "eventParams (MessageCreateEvent ev) = messageCreateParams ev"
| "eventParams (GuildMemberAddEvent ev) = guildMemberAddParams ev"
| "eventParams (MessageReactionAddEvent ev) = messageReactionAddParams ev"

fun failureFormat :: "event \<Rightarrow> string" where
  "failureFormat (MessageCreateEvent ev) = ''Failed to send messageCreated notification: %v''"
| "failureFormat (GuildMemberAddEvent ev) = ''Failed to send guildMemberAdded notification: %v''"
| "failureFormat (MessageReactionAddEvent ev) = ''Failed to send messageReactionAdded notification: %v''"

section \<open>The serving loop and the locks of the two writing paths (package mcp, package notifications)\<close>

text \<open>
  Two mutexes lie on the paths that write to the client: the field \<^verbatim>\<open>mutex\<close> of the \<^verbatim>\<open>Server\<close>
  (a \<^verbatim>\<open>sync.RWMutex\<close>) and the field \<^verbatim>\<open>mutex\<close> of the notification \<^verbatim>\<open>Service\<close> (a
  \<^verbatim>\<open>sync.Mutex\<close>). An effect is one operation on one of them, one call of \<^verbatim>\<open>json.Marshal\<close> on
  an envelope, or one call of the \<^verbatim>\<open>Write\<close> of the output with the bytes it is given
  (\<^verbatim>\<open>fmt.Fprintln\<close> formats into a buffer and calls \<^verbatim>\<open>Write\<close> once).
  The Discord client has two more mutexes, its own and that of its rate limiter. Its
  methods \<^verbatim>\<open>IsConnected\<close> and \<^verbatim>\<open>Allow\<close> lock and, by \<^verbatim>\<open>defer\<close>, unlock them within one call of the
  client, which is one entry of the trace of calls: they are free again when the call
  returns, and their operations are not among the effects.
\<close>

datatype mutex = ServerMutex | ServiceMutex

datatype effect =
    Lock mutex
  | Unlock mutex
  | RLock mutex
  | RUnlock mutex
  | Marshal
  | Write string

text \<open>
  The effects of \<^verbatim>\<open>Send\<close>, in the order of its statements. The mutex of the service is locked
  by the first statement and unlocked, by \<^verbatim>\<open>defer\<close>, when \<^verbatim>\<open>Send\<close> returns on any of its paths.
\<close>

definition SendEffects :: "marshaller \<Rightarrow> 'w writer option \<Rightarrow> Notification \<Rightarrow> effect list" where
  "SendEffects m wr notification =
     Lock ServiceMutex #
     (case wr of
        None \<Rightarrow> []
      | Some write \<Rightarrow>
          (case MarshalNotification m (notification\<lparr>nJSONRPC := JSONRPCVersion\<rparr>) of
             Inl err \<Rightarrow> [Marshal]
           | Inr responseJSON \<Rightarrow> [Marshal, Write (responseJSON @ [CHR 0x0A])]))
     @ [Unlock ServiceMutex]"

text \<open>
  The operations of \<^verbatim>\<open>processMessage\<close> on a mutex: \<^verbatim>\<open>handleInitialized\<close> locks the mutex of the
  server around its assignment; \<^verbatim>\<open>handleToolsList\<close> and \<^verbatim>\<open>handleToolCall\<close> take its read lock
  in their first statement and release it, by \<^verbatim>\<open>defer\<close>, when they return or panic. The other
  handlers and the other branches of \<^verbatim>\<open>processMessage\<close> touch no mutex.
\<close>

definition processLocks :: "jsonlib \<Rightarrow> string \<Rightarrow> effect list" where
  "processLocks jl message =
     (case UnmarshalRequest jl message of
        Inl err \<Rightarrow> []
      | Inr req \<Rightarrow>
          (if qMethod req = ''initialized'' then [Lock ServerMutex, Unlock ServerMutex]
           else if qMethod req = ''tools/list'' \<or> qMethod req = ''tools/call'' then
             [RLock ServerMutex, RUnlock ServerMutex]
           else []))"

text \<open>
  \<^verbatim>\<open>handleCommunication\<close>. The scanner gives the lines of the input and, after the last, an
  error or none. The state of the loop is the server, what the tools work on, the output
  with the log, and the effects so far. The loop ends when it returns, with an error or
  \<^verbatim>\<open>nil\<close>, or when \<^verbatim>\<open>processMessage\<close> panics: nothing on the call stack recovers.
\<close>

record 'w session =
  theServer :: Server
  theWorld :: world
  theOutside :: "'w outside"
  theEffects :: "effect list"

datatype ended = Returns "goerr option" | Panics string

definition logf :: "level \<Rightarrow> msg \<Rightarrow> 'w session \<Rightarrow> 'w session" where
  "logf l line st = st\<lparr>theOutside := (theOutside st)\<lparr>logged := logged (theOutside st) @ [(l, line)]\<rparr>\<rparr>"

definition did :: "effect list \<Rightarrow> 'w session \<Rightarrow> 'w session" where
  "did es st = st\<lparr>theEffects := theEffects st @ es\<rparr>"

fun handleCommunication ::
  "jsonlib \<Rightarrow> golib \<Rightarrow> discord \<Rightarrow> (Response \<Rightarrow> msg + string) \<Rightarrow> 'w writer \<Rightarrow>
   string list \<Rightarrow> msg option \<Rightarrow> 'w session \<Rightarrow> ended \<times> 'w session" where
  "handleCommunication jl lib d marshal output [] scanErr st =
     (Returns (case scanErr of
                 Some err \<Rightarrow> Some (ErrorString (Sprintf ''error reading input: %w'' [AT err]))
               | None \<Rightarrow> None), st)"
| "handleCommunication jl lib d marshal output (line # rest) scanErr st =
     (if line = [] then handleCommunication jl lib d marshal output rest scanErr st
      else
        (case processMessage jl lib d (theServer st, theWorld st) line of
           (r, s', w') \<Rightarrow>
             (let st1 = did (processLocks jl line)
                          ((logf LDebug (Sprintf ''Received: %s'' [AS line]) st)
                             \<lparr>theServer := s', theWorld := w'\<rparr>)
              in case r of
                   Crash p \<Rightarrow> (Panics p, st1)
                 | NoResponse \<Rightarrow> handleCommunication jl lib d marshal output rest scanErr st1
                 | Respond response \<Rightarrow>
                     (case marshal response of
                        Inl err \<Rightarrow>
                          handleCommunication jl lib d marshal output rest scanErr
                            (logf LError (Sprintf ''Failed to marshal response: %v'' [AT err])
                               (did [Marshal] st1))
                      | Inr responseJSON \<Rightarrow>
                          (let st2 = did [Marshal, Write (responseJSON @ [CHR 0x0A])]
                                       (logf LDebug (Sprintf ''Sending: %s'' [AS responseJSON]) st1)
                           in case Fprintln output responseJSON (sink (theOutside st2)) of
                                (Some err, sink') \<Rightarrow>
                                  (Returns (Some (ErrorString err)),
                                   logf LError (Sprintf ''Failed to write response: %v'' [AT err])
                                     (st2\<lparr>theOutside := (theOutside st2)\<lparr>sink := sink'\<rparr>\<rparr>))
                              | (None, sink') \<Rightarrow>
                                  handleCommunication jl lib d marshal output rest scanErr
                                    (st2\<lparr>theOutside := (theOutside st2)\<lparr>sink := sink'\<rparr>\<rparr>))))))"

text \<open>What the \<^verbatim>\<open>Write\<close> effects of a list do to the output, one call after the other.\<close>

fun perform :: "'w writer \<Rightarrow> effect list \<Rightarrow> 'w \<Rightarrow> 'w" where
  "perform wr [] w = w"
| "perform wr (Write bytes # es) w = perform wr es (snd (wr bytes w))"
| "perform wr (e # es) w = perform wr es w"

text \<open>
  The locks that a goroutine holds while it runs its effects: \<open>holding held es\<close> pairs each
  effect of \<open>es\<close> with the locks held when it starts. Marshalling and writing are the two
  effects of the output.
\<close>

datatype hold = Excl mutex | Shared mutex

fun after :: "hold list \<Rightarrow> effect \<Rightarrow> hold list" where
  "after held (Lock m) = Excl m # held"
| "after held (RLock m) = Shared m # held"
| "after held (Unlock m) = remove1 (Excl m) held"
| "after held (RUnlock m) = remove1 (Shared m) held"
| "after held e = held"

fun holding :: "hold list \<Rightarrow> effect list \<Rightarrow> (effect \<times> hold list) list" where
  "holding held [] = []"
| "holding held (e # es) = (e, held) # holding (after held e) es"

fun isOutput :: "effect \<Rightarrow> bool" where
  "isOutput Marshal = True"
| "isOutput (Write bytes) = True"
| "isOutput e = False"

text \<open>
  A goroutine that runs \<open>es\<close> from a state without locks is \<open>unlocked\<close> when it ends without
  locks, holds none whenever it marshals or writes, and never locks the mutex of the
  notification service.
\<close>

definition unlocked :: "effect list \<Rightarrow> bool" where
  "unlocked es =
     (foldl after [] es = []
      \<and> list_all (\<lambda>(e, held). isOutput e \<longrightarrow> held = []) (holding [] es)
      \<and> \<not> List.member es (Lock ServiceMutex))"

text \<open>
  Two goroutines side by side. The loop of \<^verbatim>\<open>handleCommunication\<close> runs in one goroutine, and
  the Discord session calls the handler of an event in another. A run of two goroutines
  is a list of their effects, each marked with its goroutine (\<open>False\<close> the first, \<open>True\<close> the
  second), in an order in which every goroutine keeps its own order and takes a lock only
  when the mutex allows it: \<^verbatim>\<open>Lock\<close> waits while the mutex is held in any way, \<^verbatim>\<open>RLock\<close> while
  it is held by \<^verbatim>\<open>Lock\<close>. \<open>runs held xs ys\<close> are all the runs of \<open>xs\<close> and \<open>ys\<close> to their ends.
\<close>

fun enabled :: "hold list \<Rightarrow> effect \<Rightarrow> bool" where
  "enabled held (Lock m) = (\<not> List.member held (Excl m) \<and> \<not> List.member held (Shared m))"
| "enabled held (RLock m) = (\<not> List.member held (Excl m))"
| "enabled held e = True"

fun runs :: "hold list \<Rightarrow> effect list \<Rightarrow> effect list \<Rightarrow> (bool \<times> effect) list list" where
  "runs held [] [] = [[]]"
| "runs held (x # xs) [] =
     (if enabled held x then map ((#) (False, x)) (runs (after held x) xs []) else [])"
| "runs held [] (y # ys) =
     (if enabled held y then map ((#) (True, y)) (runs (after held y) [] ys) else [])"
| "runs held (x # xs) (y # ys) =
     (if enabled held x then map ((#) (False, x)) (runs (after held x) xs (y # ys)) else [])
     @ (if enabled held y then map ((#) (True, y)) (runs (after held y) (x # xs) ys) else [])"

section \<open>The order of the checks as the specification words it\<close>

text \<open>
  The specification puts the check for unknown fields, over the whole payload, before the
  validation of any field. \<open>ValidateToolParams_as_specified\<close> follows these words;
  it is compared with \<open>ValidateToolParams\<close>, which follows the source.
\<close>

definition unknownParameter :: "string \<Rightarrow> goerr" where
  "unknownParameter paramName =
     ValidationError ''unknown parameter''
       (Sprintf ''parameter '%s' is not defined'' [AS paramName]) (Some paramName)"

fun firstUnknown :: "gmap \<Rightarrow> gmap \<Rightarrow> string option" where
  "firstUnknown properties [] = None"
| "firstUnknown properties ((paramName, v) # rest) =
     (if map_of properties paramName = None then Some paramName else firstUnknown properties rest)"

definition ValidateToolParams_as_specified ::
  "golib \<Rightarrow> gmap \<Rightarrow> patterns \<Rightarrow> string \<Rightarrow> gmap \<Rightarrow> goerr option \<times> patterns" where
  "ValidateToolParams_as_specified lib schemas cache toolName params =
     (case map_of schemas toolName of
        None \<Rightarrow> (Some (ErrorString (Sprintf ''no schema found for tool: %s'' [AS toolName])), cache)
      | Some (GMap schemaMap) \<Rightarrow>
          (case validateRequired schemaMap params of
             Some err \<Rightarrow>
               (Some (NewValidationError ''missing required parameter'' (Error err) None), cache)
           | None \<Rightarrow>
               (case map_of schemaMap ''properties'' of
                  Some (GMap properties) \<Rightarrow>
                    (case firstUnknown properties params of
                       Some paramName \<Rightarrow> (Some (unknownParameter paramName), cache)
                     | None \<Rightarrow>
                         (case validateParams lib cache properties params of
                            (Some err, cache') \<Rightarrow> (Some err, cache')
                          | (None, cache') \<Rightarrow> (validateConditionals schemaMap params, cache')))
                | _ \<Rightarrow> (validateConditionals schemaMap params, cache)))
      | Some _ \<Rightarrow>
          (Some (ErrorString (Sprintf ''invalid schema format for tool: %s'' [AS toolName])), cache))"

section \<open>Instances for evaluation\<close>

text \<open>
  The closed theorems below evaluate the model on concrete inputs. They need instances of
  what the model takes as a parameter: each instance gives, on the inputs used, what the
  library or the remote service gives there.
  \<open>stdlib0\<close> knows the one pattern of the tool schemas, \<^verbatim>\<open>^[0-9]+$\<close>.
\<close>

definition snowflake :: regex where
  "snowflake s = (s \<noteq> [] \<and> list_all (\<lambda>c. List.member ''0123456789'' c) s)"

definition stdlib0 :: golib where
  "stdlib0 =
     \<lparr>Compile = (\<lambda>p. if p = ''^[0-9]+$'' then Inr snowflake else Inl (Lit ''unsupported pattern'')),
      ParseFloat = (\<lambda>s. None)\<rparr>"

text \<open>The schema of the specification's concrete case, and the same schema with \<open>b\<close>
  declared; a schema with one declared field.\<close>

definition exampleSchemas :: gmap where
  "exampleSchemas =
     [(''example'', GMap [
        (''required'', GStrings [''a'', ''b'']),
        (''properties'', GMap [
          (''a'', GMap [(''type'', GString ''string''), (''maxLength'', GInt 3)])])])]"

definition exampleSchemasDeclared :: gmap where
  "exampleSchemasDeclared =
     [(''example'', GMap [
        (''required'', GStrings [''a'', ''b'']),
        (''properties'', GMap [
          (''a'', GMap [(''type'', GString ''string''), (''maxLength'', GInt 3)]),
          (''b'', GMap [(''type'', GString ''string'')])])])]"

definition orderSchemas :: gmap where
  "orderSchemas =
     [(''example'', GMap [
        (''properties'', GMap [(''a'', GMap [(''type'', GString ''string'')])])])]"

definition tooLong :: "string \<Rightarrow> int \<Rightarrow> int \<Rightarrow> goerr" where
  "tooLong paramName bound n =
     ValidationError ''length constraint''
       (Sprintf ''parameter '%s' must be at most %d characters, got %d''
          [AS paramName, AI bound, AI n]) (Some paramName)"

definition conditionalFailure :: goerr where
  "conditionalFailure =
     ValidationError ''conditional constraint''
       (Lit ''the specified condition must not be satisfied'') None"

text \<open>Lines and documents as the client sends them, with what \<^verbatim>\<open>encoding/json\<close> decodes
  them to.\<close>

definition initializedLine :: string where
  \<open>initializedLine = ''{"jsonrpc":"2.0","method":"initialized"}''\<close>

definition toolsListLine :: string where
  \<open>toolsListLine = ''{"jsonrpc":"2.0","id":1,"method":"tools/list"}''\<close>

definition pingLine :: string where
  \<open>pingLine = ''{"jsonrpc":"2.0","id":2,"method":"ping"}''\<close>

definition emptyCall :: string where
  \<open>emptyCall = ''{"name":"list_roles","arguments":{}}''\<close>

definition guildCall :: string where
  \<open>guildCall = ''{"name":"list_roles","arguments":{"guild_id":"1"}}''\<close>

definition sampleLines :: "(string \<times> Request) list" where
  "sampleLines =
     [(initializedLine, \<lparr>qJSONRPC = ''2.0'', qID = GNil, qMethod = ''initialized'', qParams = None\<rparr>),
      (toolsListLine, \<lparr>qJSONRPC = ''2.0'', qID = GFloat 1, qMethod = ''tools/list'', qParams = None\<rparr>),
      (pingLine, \<lparr>qJSONRPC = ''2.0'', qID = GFloat 2, qMethod = ''ping'', qParams = None\<rparr>)]"

definition sampleCalls :: "(string \<times> CallToolParams) list" where
  "sampleCalls =
     [(emptyCall, \<lparr>Name = ''list_roles'', Arguments = []\<rparr>),
      (guildCall, \<lparr>Name = ''list_roles'', Arguments = [(''guild_id'', GString ''1'')]\<rparr>)]"

definition sampleJson :: jsonlib where
  "sampleJson =
     \<lparr>UnmarshalRequest =
        (\<lambda>line. case map_of sampleLines line of
                   Some req \<Rightarrow> Inr req
                 | None \<Rightarrow> Inl (Lit ''invalid character'')),
      UnmarshalInitializeParams =
        (\<lambda>raw. if raw = ''{}'' then None
                else if raw = ''[]'' then
                  Some (Lit ''json: cannot unmarshal array into Go value of type types.InitializeParams'')
                else Some (Lit ''unexpected end of JSON input'')),
      UnmarshalCallToolParams =
        (\<lambda>raw. case map_of sampleCalls raw of
                  Some params \<Rightarrow> Inr params
                | None \<Rightarrow> Inl (Lit ''unexpected end of JSON input''))\<rparr>"

text \<open>A remote service in which the bot is user 42 and has, in every channel, the bits to
  view and to send, and in every guild one role with the bit to send; message 100 is the
  bot's own, every other message is user 7's.\<close>

definition sampleDiscord :: discord where
  "sampleDiscord =
     \<lparr>GetBotUser = (\<lambda>tr. Inr ''42''),
      SessionChannel = (\<lambda>tr channelID. Inr ''900''),
      SessionUserChannelPermissions =
        (\<lambda>tr userID channelID. Inr (PermissionViewChannel OR PermissionSendMessages)),
      SessionChannelMessage = (\<lambda>tr channelID messageID. Inr (if messageID = ''100'' then ''42'' else ''7'')),
      GetGuild = (\<lambda>tr guildID. Inr True),
      StateMember = (\<lambda>tr guildID userID. Inr [''5'']),
      SessionGuildMember = (\<lambda>tr guildID userID. Inr [''5'']),
      StateRole = (\<lambda>tr guildID roleID. Inr PermissionSendMessages),
      Remote = (\<lambda>tr toolName args. \<lparr>rContent = [], rIsError = False\<rparr>)\<rparr>"

definition sampleServer :: Server where
  "sampleServer = RegisterTool (NewServer ''discord-mcp'' ''1.0.0'') (Validating ListRolesTool)"

definition freshWorld :: world where
  "freshWorld = \<lparr>pats = NewValidator, calls = []\<rparr>"

text \<open>The marshaller of the examples writes a notification as its method; of the two
  writers, on a sink that is the list of the lines written, one appends and one fails.\<close>

definition sampleMarshaller :: marshaller where
  "sampleMarshaller =
     \<lparr>MarshalParams = (\<lambda>params. ''{}''),
      MarshalNotification = (\<lambda>n. Inr (nMethod n))\<rparr>"

definition appending :: "string list writer" where
  "appending bytes w = (None, w @ [bytes])"

definition broken :: "string list writer" where
  "broken bytes w = (Some (Lit ''broken pipe''), w)"

definition sampleEvent :: event where
  "sampleEvent =
     MessageCreateEvent
       \<lparr>mcID = ''100'', mcGuildID = ''900'', mcChannelID = ''1'', mcAuthorID = ''7'',
        mcContent = ''hello''\<rparr>"

definition quiet :: "string list outside" where
  "quiet = \<lparr>sink = [], logged = []\<rparr>"

text \<open>
  A call of \<^verbatim>\<open>list_channels\<close> whose \<^verbatim>\<open>type_filter\<close> holds a list where the schema asks for a
  string, as the line of the client and as \<^verbatim>\<open>encoding/json\<close> decodes it; a server that has
  \<^verbatim>\<open>list_channels\<close> registered and is initialized. \<open>sampleResponses\<close> marshals the response
  to the ping of \<open>pingLine\<close>, the only response that the examples marshal.
\<close>

definition filterCall :: string where
  \<open>filterCall = ''{"name":"list_channels","arguments":{"guild_id":"1","type_filter":[["text"]]}}''\<close>

definition filterLine :: string where
  \<open>filterLine = ''{"jsonrpc":"2.0","id":3,"method":"tools/call","params":{"name":"list_channels","arguments":{"guild_id":"1","type_filter":[["text"]]}}}''\<close>

definition filterArguments :: gmap where
  "filterArguments =
     [(''guild_id'', GString ''1''), (''type_filter'', GSlice [GSlice [GString ''text'']])]"

definition channelsJson :: jsonlib where
  "channelsJson =
     sampleJson
       \<lparr>UnmarshalRequest :=
          (\<lambda>line. if line = filterLine then
                     Inr \<lparr>qJSONRPC = ''2.0'', qID = GFloat 3, qMethod = ''tools/call'',
                          qParams = Some filterCall\<rparr>
                   else UnmarshalRequest sampleJson line),
        UnmarshalCallToolParams :=
          (\<lambda>raw. if raw = filterCall then
                    Inr \<lparr>Name = ''list_channels'', Arguments = filterArguments\<rparr>
                  else UnmarshalCallToolParams sampleJson raw)\<rparr>"

definition channelsServer :: Server where
  "channelsServer = (RegisterTool sampleServer (Validating ListChannelsTool))\<lparr>initialized := True\<rparr>"

definition pongJSON :: string where
  \<open>pongJSON = ''{"jsonrpc":"2.0","id":2,"result":{"status":"pong"}}''\<close>

definition sampleResponses :: "Response \<Rightarrow> msg + string" where
  "sampleResponses response =
     (if sResult response = Some (ResStrings [(''status'', ''pong'')]) then Inr pongJSON
      else Inl (Lit ''json: unsupported value''))"

definition session0 :: "string list session" where
  "session0 =
     \<lparr>theServer = channelsServer, theWorld = freshWorld, theOutside = quiet, theEffects = []\<rparr>"

section \<open>Values that the statements name\<close>

text \<open>The response of the two gated methods before the handshake, with the message as the
  source has it.\<close>

definition notInitialized :: "gval \<Rightarrow> Response" where
  "notInitialized ident = errorResponse ident InvalidRequest (Lit ''Server not initialized'') None"

text \<open>The result of \<^verbatim>\<open>initialize\<close>, and when the parameters of a request count as decoded:
  they are absent, or the decoder gives no error.\<close>

definition serverInfo :: "Server \<Rightarrow> result" where
  "serverInfo s =
     ResInitialize
       \<lparr>iProtocolVersion = ProtocolVersion,
        iCapabilities = \<lparr>capToolsListChanged = Some False, capResources = None,
                         capPromptsListChanged = None\<rparr>,
        iServerName = ServerName s, iServerVersion = Version s\<rparr>"

definition decodes :: "jsonlib \<Rightarrow> Request \<Rightarrow> bool" where
  "decodes jl req =
     (case qParams req of None \<Rightarrow> True | Some raw \<Rightarrow> UnmarshalInitializeParams jl raw = None)"



definition missingParameter :: "string \<Rightarrow> goerr" where
  "missingParameter reqParam =
     ValidationError ''missing required parameter''
       (Sprintf ''required parameter '%s' is missing'' [AS reqParam]) None"

text \<open>The response that carries a tool result: no JSON-RPC error, and the result of the tool
  as its result. The keys of the \<^verbatim>\<open>Data\<close> of each content block of a result.\<close>

definition answered :: "gval \<Rightarrow> CallToolResult \<Rightarrow> Response" where
  "answered ident res =
     \<lparr>sJSONRPC = ''2.0'', sID = ident, sResult = Some (ResCallTool res), sError = None\<rparr>"


definition dataKeys :: "CallToolResult \<Rightarrow> string list option list" where
  "dataKeys res = map (\<lambda>c. map_option (map fst) (cData c)) (rContent res)"

text \<open>The notification that the handler of an event hands to \<^verbatim>\<open>Send\<close>, and the line of its
  debug log.\<close>

definition emitted :: "marshaller \<Rightarrow> event \<Rightarrow> Notification" where
  "emitted m ev =
     \<lparr>nJSONRPC = JSONRPCVersion, nMethod = eventName ev, nParams = MarshalParams m (eventParams ev)\<rparr>"

fun debugLine :: "event \<Rightarrow> msg" where
  "debugLine (MessageCreateEvent ev) =
     Sprintf ''Handling MessageCreate event for message ID: %s'' [AS (mcID ev)]"
| "debugLine (GuildMemberAddEvent ev) =
     Sprintf ''Handling GuildMemberAdd event for user ID: %s'' [AS (gmUserID ev)]"
| "debugLine (MessageReactionAddEvent ev) =
     Sprintf ''Handling MessageReactionAdd event for message ID: %s'' [AS (raMessageID ev)]"

section \<open>Properties of the validator\<close>

lemmas validator_defs =
  ValidateToolParams_def validateRequired_def validateType_def validateString_def
  minLengthCheck_def maxLengthCheck_def patternCheck_def enumCheck_def getCompiledRegex_def
  validateObject_def validateNumeric_def minimumCheck_def maximumCheck_def
  NewValidationError_def typeMismatch_def isNumeric_def isInteger_def anyOfCheck_def
  validateConditionals.simps NewValidator_def

text \<open>
  In the schema of \<^verbatim>\<open>get_channel_messages\<close> each condition under \<^verbatim>\<open>anyOf\<close> is a map with the
  one key \<^verbatim>\<open>allOf\<close>. \<^verbatim>\<open>validateConditionals\<close> checks a condition with \<^verbatim>\<open>validateRequired\<close>,
  which finds no \<^verbatim>\<open>required\<close> list in such a map and succeeds: the \<^verbatim>\<open>anyOf\<close> is satisfied by
  every payload, and the \<^verbatim>\<open>not\<close> around it fails for every payload.
\<close>

lemma get_channel_messages_conditionals:
  "validateConditionals
     [(''anyOf'', GMaps [
        [(''allOf'', GMaps [[(''required'', GStrings [''before''])],
                            [(''required'', GStrings [''after''])]])],
        [(''allOf'', GMaps [[(''required'', GStrings [''before''])],
                            [(''required'', GStrings [''around''])]])],
        [(''allOf'', GMaps [[(''required'', GStrings [''after''])],
                            [(''required'', GStrings [''around''])]])]])] params = None"
  by (simp add: validateConditionals.simps anyOfCheck_def validateRequired_def)

lemma get_channel_messages_never_valid:
  "fst (ValidateToolParams lib ToolSchemas cache ''get_channel_messages'' params) \<noteq> None"
  by (simp add: ValidateToolParams_def ToolSchemas_def get_channel_messages_schema_def
      validateConditionals.simps [of "(''type'', GString ''object'') # _"] anyOfCheck_def
      get_channel_messages_conditionals NewValidationError_def
      split: option.splits prod.splits)

text \<open>
  C2 (the code differs from the claim). With \<^verbatim>\<open>channel_id\<close> and none, one or two of
  \<^verbatim>\<open>before\<close>, \<^verbatim>\<open>after\<close>, \<^verbatim>\<open>around\<close>, the validation of \<^verbatim>\<open>get_channel_messages\<close> ends in the
  same failure of the \<^verbatim>\<open>not\<close> condition: it also fails where the claim says it succeeds,
  with none and with exactly one of the three fields.
\<close>

theorem get_channel_messages_rejected:
  "fst (ValidateToolParams stdlib0 ToolSchemas NewValidator ''get_channel_messages''
          [(''channel_id'', GString ''123'')]) = Some conditionalFailure
   \<and> fst (ValidateToolParams stdlib0 ToolSchemas NewValidator ''get_channel_messages''
          [(''channel_id'', GString ''123''), (''before'', GString ''5'')]) = Some conditionalFailure
   \<and> fst (ValidateToolParams stdlib0 ToolSchemas NewValidator ''get_channel_messages''
          [(''channel_id'', GString ''123''), (''before'', GString ''5''), (''after'', GString ''9'')])
       = Some conditionalFailure"
  by (simp add: validator_defs ToolSchemas_def get_channel_messages_schema_def stdlib0_def
      snowflake_def conditionalFailure_def)

text \<open>
  C3, as the claim states it, fails: with the field \<open>a\<close> declared as a string, the payload
  that holds the number 1 under \<open>a\<close> and an undeclared field \<open>z\<close>, visited in this order,
  is rejected for the type of \<open>a\<close> by the code and for the unknown field \<open>z\<close> by the order of
  the specification.
\<close>

theorem validation_order_counterexample:
  "ValidateToolParams stdlib0 orderSchemas NewValidator ''example''
       [(''a'', GFloat 1), (''z'', GString ''x'')]
     \<noteq> ValidateToolParams_as_specified stdlib0 orderSchemas NewValidator ''example''
         [(''a'', GFloat 1), (''z'', GString ''x'')]"
  by (simp add: validator_defs ValidateToolParams_as_specified_def orderSchemas_def
      unknownParameter_def)

lemma validateParams_append:
  "validateParams lib cache properties (pre @ rest) =
     (case validateParams lib cache properties pre of
        (Some err, cache') \<Rightarrow> (Some err, cache')
      | (None, cache') \<Rightarrow> validateParams lib cache' properties rest)"
  by (induction pre arbitrary: cache) (auto split: option.splits prod.splits)

text \<open>
  C3, amended. A missing required field fails at once, and the pattern cache shows that
  nothing else has run. Otherwise the fields of the payload are visited one after the other;
  each is first looked up among the declared properties and then validated, before the next
  is visited. The first field that is undeclared or invalid ends the validation with its
  failure, whatever follows it (\<open>post\<close>): an invalid field hides an undeclared one behind it.
\<close>

theorem validation_order:
  assumes "map_of schemas toolName = Some (GMap schemaMap)"
  shows "(\<forall>e. validateRequired schemaMap params = Some e \<longrightarrow>
            ValidateToolParams lib schemas cache toolName params
              = (Some (ValidationError ''missing required parameter'' (Error e) None), cache))
    \<and> (\<forall>properties pre k v post cache1.
          validateRequired schemaMap params = None \<longrightarrow>
          map_of schemaMap ''properties'' = Some (GMap properties) \<longrightarrow>
          params = pre @ (k, v) # post \<longrightarrow>
          validateParams lib cache properties pre = (None, cache1) \<longrightarrow>
            (map_of properties k = None \<longrightarrow>
               ValidateToolParams lib schemas cache toolName params
                 = (Some (unknownParameter k), cache1))
          \<and> (\<forall>propSchema err cache2.
                map_of properties k = Some propSchema \<longrightarrow>
                validateParameter lib cache1 k v propSchema = (Some err, cache2) \<longrightarrow>
                ValidateToolParams lib schemas cache toolName params = (Some err, cache2)))"
  using assms
  by (auto simp: ValidateToolParams_def NewValidationError_def validateParams_append
      unknownParameter_def simp del: validateParameter.simps)

theorem validation_order_witness:
  "ValidateToolParams stdlib0 orderSchemas NewValidator ''example''
       [(''a'', GFloat 1), (''z'', GString ''x'')]
     = (Some (ValidationError ''type mismatch''
                (Sprintf ''parameter '%s' must be a string, got %T'' [AS ''a'', AV (GFloat 1)])
                (Some ''a'')), NewValidator)
   \<and> ValidateToolParams stdlib0 orderSchemas NewValidator ''example''
       [(''z'', GString ''x''), (''a'', GFloat 1)]
     = (Some (unknownParameter ''z''), NewValidator)"
proof -
  have s: "map_of orderSchemas ''example''
      = Some (GMap [(''properties'', GMap [(''a'', GMap [(''type'', GString ''string'')])])])"
    by (simp add: orderSchemas_def)
  note invalid_first =
    validation_order [OF s, of "[(''a'', GFloat 1), (''z'', GString ''x'')]" stdlib0 NewValidator,
      THEN conjunct2, rule_format,
      of "[(''a'', GMap [(''type'', GString ''string'')])]" "[]" "''a''" "GFloat 1"
         "[(''z'', GString ''x'')]" NewValidator,
      THEN conjunct2, rule_format, of "GMap [(''type'', GString ''string'')]"]
  note unknown_first =
    validation_order [OF s, of "[(''z'', GString ''x''), (''a'', GFloat 1)]" stdlib0 NewValidator,
      THEN conjunct2, rule_format,
      of "[(''a'', GMap [(''type'', GString ''string'')])]" "[]" "''z''" "GString ''x''"
         "[(''a'', GFloat 1)]" NewValidator,
      THEN conjunct1, rule_format]
  have a: "ValidateToolParams stdlib0 orderSchemas NewValidator ''example''
       [(''a'', GFloat 1), (''z'', GString ''x'')]
     = (Some (ValidationError ''type mismatch''
                (Sprintf ''parameter '%s' must be a string, got %T'' [AS ''a'', AV (GFloat 1)])
                (Some ''a'')), NewValidator)"
    by (rule invalid_first) (simp_all add: validator_defs)
  have b: "ValidateToolParams stdlib0 orderSchemas NewValidator ''example''
       [(''z'', GString ''x''), (''a'', GFloat 1)]
     = (Some (unknownParameter ''z''), NewValidator)"
    by (rule unknown_first) (simp_all add: validator_defs)
  show ?thesis using a b by simp
qed

text \<open>Where every field of the payload is declared, the two orders give the same.\<close>

lemma validation_order_agrees:
  assumes "\<And>schemaMap properties.
      map_of schemas toolName = Some (GMap schemaMap) \<Longrightarrow>
      map_of schemaMap ''properties'' = Some (GMap properties) \<Longrightarrow>
      firstUnknown properties params = None"
  shows "ValidateToolParams lib schemas cache toolName params
     = ValidateToolParams_as_specified lib schemas cache toolName params"
  using assms
  by (auto simp: ValidateToolParams_def ValidateToolParams_as_specified_def
      split: option.splits gval.splits prod.splits)

text \<open>
  C4, as the claim states it, fails: the schema does not declare \<open>b\<close>, and the payload with
  \<open>a\<close> of length 2 and \<open>b\<close> is rejected.
\<close>

theorem example_schema_counterexample:
  "fst (ValidateToolParams stdlib0 exampleSchemas NewValidator ''example''
          [(''a'', GString ''ab''), (''b'', GString ''x'')]) \<noteq> None"
  by (simp add: validator_defs exampleSchemas_def)

text \<open>
  C4, amended. Under the schema of the claim the payload with \<open>a\<close> of length 4 fails for the
  length of \<open>a\<close> when \<open>a\<close> is visited first and for the undeclared \<open>b\<close> when \<open>b\<close> is visited
  first, and the payload with \<open>a\<close> of length 2 fails for the undeclared \<open>b\<close> in both orders.
  Once \<open>b\<close> is declared as well, the first payload fails for the length of \<open>a\<close> and the
  second passes, in both orders.
\<close>

theorem example_schema:
  "ValidateToolParams lib exampleSchemas cache ''example''
       [(''a'', GString ''abcd''), (''b'', GString ''x'')] = (Some (tooLong ''a'' 3 4), cache)
   \<and> ValidateToolParams lib exampleSchemas cache ''example''
       [(''b'', GString ''x''), (''a'', GString ''abcd'')] = (Some (unknownParameter ''b''), cache)
   \<and> ValidateToolParams lib exampleSchemas cache ''example''
       [(''a'', GString ''ab''), (''b'', GString ''x'')] = (Some (unknownParameter ''b''), cache)
   \<and> ValidateToolParams lib exampleSchemas cache ''example''
       [(''b'', GString ''x''), (''a'', GString ''ab'')] = (Some (unknownParameter ''b''), cache)
   \<and> ValidateToolParams lib exampleSchemasDeclared cache ''example''
       [(''a'', GString ''abcd''), (''b'', GString ''x'')] = (Some (tooLong ''a'' 3 4), cache)
   \<and> ValidateToolParams lib exampleSchemasDeclared cache ''example''
       [(''b'', GString ''x''), (''a'', GString ''abcd'')] = (Some (tooLong ''a'' 3 4), cache)
   \<and> ValidateToolParams lib exampleSchemasDeclared cache ''example''
       [(''a'', GString ''ab''), (''b'', GString ''x'')] = (None, cache)
   \<and> ValidateToolParams lib exampleSchemasDeclared cache ''example''
       [(''b'', GString ''x''), (''a'', GString ''ab'')] = (None, cache)"
  by (simp add: validator_defs exampleSchemas_def exampleSchemasDeclared_def
      unknownParameter_def tooLong_def)

section \<open>Properties of the session\<close>

text \<open>
  C1, as the claim states it, fails: the message of the error is \<^verbatim>\<open>Server not initialized\<close>,
  with a capital letter, not \<^verbatim>\<open>server not initialized\<close>.
\<close>

theorem not_initialized_counterexample:
  "handleToolsList (NewServer ''discord-mcp'' ''1.0.0'')
      \<lparr>qJSONRPC = ''2.0'', qID = GFloat 1, qMethod = ''tools/list'', qParams = None\<rparr>
    \<noteq> errorResponse (GFloat 1) InvalidRequest (Lit ''server not initialized'') None"
  by (simp add: handleToolsList_def NewServer_def errorResponse_def)

text \<open>
  C1, amended in the message only. While the server is not initialized, \<^verbatim>\<open>tools/list\<close> and
  \<^verbatim>\<open>tools/call\<close> are answered by the InvalidRequest error \<^verbatim>\<open>Server not initialized\<close> with the
  id of the request, whatever the registry holds and whatever the parameters name, and
  nothing else happens. A line with the method \<^verbatim>\<open>initialized\<close> gets no response and sets the
  flag. Once the flag is set, \<^verbatim>\<open>tools/list\<close> gives the definitions of the registered tools
  and \<^verbatim>\<open>tools/call\<close> decodes its parameters, looks the tool up and executes it.
\<close>

theorem not_initialized:
  "(\<not> initialized s \<longrightarrow>
      handleToolsList s req = notInitialized (qID req)
      \<and> handleToolCall jl lib d s w req = (Respond (notInitialized (qID req)), w)
      \<and> (UnmarshalRequest jl line = Inr req \<longrightarrow>
           (qMethod req = ''tools/list'' \<or> qMethod req = ''tools/call'') \<longrightarrow>
           processMessage jl lib d (s, w) line = (Respond (notInitialized (qID req)), s, w)))
   \<and> (UnmarshalRequest jl line = Inr req \<longrightarrow> qMethod req = ''initialized'' \<longrightarrow>
        processMessage jl lib d (s, w) line = (NoResponse, s\<lparr>initialized := True\<rparr>, w))
   \<and> (initialized s \<longrightarrow>
        handleToolsList s req
          = resultResponse (qID req)
              (ResToolsList (map (\<lambda>(name, handler). GetDefinition handler) (tools s)))
        \<and> handleToolCall jl lib d s w req =
           (case UnmarshalCallToolParams jl (case qParams req of Some raw \<Rightarrow> raw | None \<Rightarrow> []) of
              Inl err \<Rightarrow>
                (Respond (errorResponse (qID req) InvalidParams (Lit ''Invalid parameters'') (Some err)),
                 w)
            | Inr params \<Rightarrow>
                (case map_of (tools s) (Name params) of
                   None \<Rightarrow>
                     (Respond (errorResponse (qID req) MethodNotFound
                                 (Sprintf ''Tool not found: %s'' [AS (Name params)]) None), w)
                 | Some handler \<Rightarrow>
                     (case Execute handler lib d w params of
                        (Panicked p, w') \<Rightarrow> (Crash p, w')
                      | (Return res (Some err), w') \<Rightarrow>
                          (Respond (errorResponse (qID req) InternalError
                                      (Sprintf ''Tool execution failed: %v'' [AT (Error err)]) None),
                           w')
                      | (Return res None, w') \<Rightarrow>
                          (Respond (resultResponse (qID req) (ResCallTool res)), w')))))"
  by (auto simp: handleToolsList_def handleToolCall_def processMessage_def dispatch_def
      handleInitialized_def notInitialized_def)

theorem not_initialized_witness:
  "processMessage sampleJson stdlib0 sampleDiscord (sampleServer, freshWorld) toolsListLine
     = (Respond (notInitialized (GFloat 1)), sampleServer, freshWorld)
   \<and> processMessage sampleJson stdlib0 sampleDiscord (sampleServer, freshWorld) initializedLine
     = (NoResponse, sampleServer\<lparr>initialized := True\<rparr>, freshWorld)
   \<and> handleToolsList (sampleServer\<lparr>initialized := True\<rparr>)
        \<lparr>qJSONRPC = ''2.0'', qID = GFloat 1, qMethod = ''tools/list'', qParams = None\<rparr>
     = resultResponse (GFloat 1) (ResToolsList [GetDefinition (Validating ListRolesTool)])"
proof -
  let ?req = "\<lparr>qJSONRPC = ''2.0'', qID = GFloat 1, qMethod = ''tools/list'', qParams = None\<rparr>"
  let ?ini = "\<lparr>qJSONRPC = ''2.0'', qID = GNil, qMethod = ''initialized'', qParams = None\<rparr>"
  have u: "\<not> initialized sampleServer"
    by (simp add: sampleServer_def RegisterTool_def NewServer_def)
  have l: "UnmarshalRequest sampleJson toolsListLine = Inr ?req"
    by (simp add: sampleJson_def sampleLines_def initializedLine_def toolsListLine_def)
  have i: "UnmarshalRequest sampleJson initializedLine = Inr ?ini"
    by (simp add: sampleJson_def sampleLines_def)
  have t: "tools sampleServer = [(''list_roles'', Validating ListRolesTool)]"
    by (simp add: sampleServer_def RegisterTool_def NewServer_def ListRolesTool_def roleTool_def
        GetToolDefinition_def)
  have a: "processMessage sampleJson stdlib0 sampleDiscord (sampleServer, freshWorld) toolsListLine
     = (Respond (notInitialized (GFloat 1)), sampleServer, freshWorld)"
    using not_initialized [of sampleServer ?req sampleJson stdlib0 sampleDiscord freshWorld
        toolsListLine] u l
    by simp
  have b: "processMessage sampleJson stdlib0 sampleDiscord (sampleServer, freshWorld) initializedLine
     = (NoResponse, sampleServer\<lparr>initialized := True\<rparr>, freshWorld)"
    using not_initialized [of sampleServer ?ini sampleJson stdlib0 sampleDiscord freshWorld
        initializedLine] i
    by simp
  have c: "handleToolsList (sampleServer\<lparr>initialized := True\<rparr>) ?req
     = resultResponse (GFloat 1) (ResToolsList [GetDefinition (Validating ListRolesTool)])"
    using not_initialized [of "sampleServer\<lparr>initialized := True\<rparr>" ?req sampleJson stdlib0
        sampleDiscord freshWorld toolsListLine] t
    by simp
  show ?thesis using a b c by simp
qed

text \<open>
  C10, as the claim states it, fails: an \<^verbatim>\<open>initialize\<close> request whose parameters are the
  JSON array \<^verbatim>\<open>[]\<close>, which does not decode into \<^verbatim>\<open>InitializeParams\<close>, is answered by an
  InvalidParams error and not by the capabilities of the server.
\<close>

theorem initialize_counterexample:
  "handleInitialize sampleJson sampleServer
      \<lparr>qJSONRPC = ''2.0'', qID = GFloat 1, qMethod = ''initialize'', qParams = Some ''[]''\<rparr>
    = errorResponse (GFloat 1) InvalidParams (Lit ''Invalid parameters'')
        (Some (Lit ''json: cannot unmarshal array into Go value of type types.InitializeParams''))
   \<and> handleInitialize sampleJson sampleServer
      \<lparr>qJSONRPC = ''2.0'', qID = GFloat 1, qMethod = ''initialize'', qParams = Some ''[]''\<rparr>
    \<noteq> resultResponse (GFloat 1) (serverInfo sampleServer)"
  by (simp add: handleInitialize_def sampleJson_def errorResponse_def resultResponse_def)

text \<open>
  C10, amended. In every state of the session \<^verbatim>\<open>ping\<close> is answered by the result
  \<^verbatim>\<open>{"status":"pong"}\<close> with the id of the request, and \<^verbatim>\<open>initialize\<close> by \<^verbatim>\<open>handleInitialize\<close>,
  which does not read the flag of the handshake: it gives the capabilities and the
  information of the server when the parameters are absent or decode, and an InvalidParams
  error with the error of the decoder otherwise. Neither is ever answered by the error
  \<^verbatim>\<open>Server not initialized\<close>.
\<close>

theorem ping_and_initialize:
  "handlePing req = resultResponse (qID req) (ResStrings [(''status'', ''pong'')])
   \<and> (qMethod req = ''ping'' \<longrightarrow>
        dispatch jl lib d (s, w) req = (Respond (handlePing req), s, w))
   \<and> (qMethod req = ''initialize'' \<longrightarrow>
        dispatch jl lib d (s, w) req = (Respond (handleInitialize jl s req), s, w))
   \<and> handleInitialize jl (s\<lparr>initialized := b\<rparr>) req = handleInitialize jl s req
   \<and> (decodes jl req \<longrightarrow> handleInitialize jl s req = resultResponse (qID req) (serverInfo s))
   \<and> (\<forall>raw err. qParams req = Some raw \<longrightarrow> UnmarshalInitializeParams jl raw = Some err \<longrightarrow>
        handleInitialize jl s req
          = errorResponse (qID req) InvalidParams (Lit ''Invalid parameters'') (Some err))
   \<and> handlePing req \<noteq> notInitialized (qID req)
   \<and> handleInitialize jl s req \<noteq> notInitialized (qID req)"
  by (auto simp: handlePing_def dispatch_def handleInitialize_def decodes_def serverInfo_def
      notInitialized_def resultResponse_def errorResponse_def InvalidParams_def InvalidRequest_def
      split: option.splits)

theorem ping_and_initialize_witness:
  "dispatch sampleJson stdlib0 sampleDiscord (sampleServer, freshWorld)
       \<lparr>qJSONRPC = ''2.0'', qID = GFloat 2, qMethod = ''ping'', qParams = None\<rparr>
     = (Respond (resultResponse (GFloat 2) (ResStrings [(''status'', ''pong'')])),
        sampleServer, freshWorld)
   \<and> handleInitialize sampleJson sampleServer
       \<lparr>qJSONRPC = ''2.0'', qID = GFloat 1, qMethod = ''initialize'', qParams = Some ''{}''\<rparr>
     = resultResponse (GFloat 1) (serverInfo sampleServer)
   \<and> handleInitialize sampleJson sampleServer
       \<lparr>qJSONRPC = ''2.0'', qID = GFloat 1, qMethod = ''initialize'', qParams = Some ''[]''\<rparr>
     = errorResponse (GFloat 1) InvalidParams (Lit ''Invalid parameters'')
         (Some (Lit ''json: cannot unmarshal array into Go value of type types.InitializeParams''))"
proof -
  let ?ping = "\<lparr>qJSONRPC = ''2.0'', qID = GFloat 2, qMethod = ''ping'', qParams = None\<rparr>"
  let ?good = "\<lparr>qJSONRPC = ''2.0'', qID = GFloat 1, qMethod = ''initialize'', qParams = Some ''{}''\<rparr>"
  let ?bad = "\<lparr>qJSONRPC = ''2.0'', qID = GFloat 1, qMethod = ''initialize'', qParams = Some ''[]''\<rparr>"
  have g: "decodes sampleJson ?good"
    by (simp add: decodes_def sampleJson_def)
  have e: "UnmarshalInitializeParams sampleJson ''[]''
      = Some (Lit ''json: cannot unmarshal array into Go value of type types.InitializeParams'')"
    by (simp add: sampleJson_def)
  have a: "dispatch sampleJson stdlib0 sampleDiscord (sampleServer, freshWorld) ?ping
     = (Respond (resultResponse (GFloat 2) (ResStrings [(''status'', ''pong'')])),
        sampleServer, freshWorld)"
    using ping_and_initialize [of ?ping sampleJson stdlib0 sampleDiscord sampleServer freshWorld]
    by simp
  have b: "handleInitialize sampleJson sampleServer ?good
     = resultResponse (GFloat 1) (serverInfo sampleServer)"
    using ping_and_initialize [of ?good sampleJson stdlib0 sampleDiscord sampleServer freshWorld] g
    by simp
  have c: "handleInitialize sampleJson sampleServer ?bad
     = errorResponse (GFloat 1) InvalidParams (Lit ''Invalid parameters'')
         (Some (Lit ''json: cannot unmarshal array into Go value of type types.InitializeParams''))"
    using ping_and_initialize [of ?bad sampleJson stdlib0 sampleDiscord sampleServer freshWorld] e
    by simp
  show ?thesis using a b c by simp
qed

section \<open>Properties of the permission gate and of the tools\<close>

lemmas permission_bits =
  PermissionAddReactions_def PermissionViewChannel_def PermissionSendMessages_def
  PermissionSendTTSMessages_def PermissionManageMessages_def PermissionReadMessageHistory_def
  PermissionUseExternalEmojis_def PermissionManageRoles_def



lemma firstMissing_Some:
  "X \<in> set required \<Longrightarrow> map_of params X = None \<Longrightarrow> firstMissing required params \<noteq> None"
  by (induction required) auto

lemma runTool_invalid:
  assumes "ValidateToolParams lib ToolSchemas (pats w) (tsName spec) (Arguments params)
      = (Some err, cache')"
  shows "calls (snd (runTool spec lib d w params)) = calls w"
  using assms by (simp add: runTool_def split: goerr.splits)

text \<open>
  C7. Let the schema of a tool list the field \<open>X\<close> as required, and let the arguments of a
  call not hold \<open>X\<close>. Then \<^verbatim>\<open>Execute\<close> returns the validation failure of the first missing
  required field, with a \<^verbatim>\<open>nil\<close> error, and leaves the world as it was: no call of the
  Discord client has been made, so no permission has been checked. The server answers with
  that result.
\<close>

theorem validation_before_permission:
  assumes "map_of ToolSchemas (tsName spec) = Some (GMap schemaMap)"
    and "map_of schemaMap ''required'' = Some (GStrings required)"
    and "X \<in> set required"
    and "map_of (Arguments params) X = None"
  shows "firstMissing required (Arguments params) \<noteq> None
    \<and> Execute (Validating spec) lib d w params
        = (Return (FormatValidationError
                     (missingParameter (the (firstMissing required (Arguments params))))) None, w)
    \<and> (initialized s \<longrightarrow>
        UnmarshalCallToolParams jl (case qParams req of Some raw \<Rightarrow> raw | None \<Rightarrow> [])
          = Inr params \<longrightarrow>
        map_of (tools s) (Name params) = Some (Validating spec) \<longrightarrow>
        handleToolCall jl lib d s w req
          = (Respond (resultResponse (qID req)
               (ResCallTool (FormatValidationError
                  (missingParameter (the (firstMissing required (Arguments params))))))), w))"
proof -
  from firstMissing_Some [OF assms(3,4)]
  obtain Y where y: "firstMissing required (Arguments params) = Some Y"
    by auto
  have v: "ValidateToolParams lib ToolSchemas (pats w) (tsName spec) (Arguments params)
      = (Some (missingParameter Y), pats w)"
    using assms(1,2) y
    by (simp add: ValidateToolParams_def validateRequired_def missingParameter_def
        NewValidationError_def)
  have r: "runTool spec lib d w params
      = (Return (FormatValidationError (missingParameter Y)) None, w)"
    using v by (simp add: runTool_def missingParameter_def)
  show ?thesis
    using y r by (simp add: handleToolCall_def)
qed

theorem validation_before_permission_witness:
  "Execute (Validating ListRolesTool) stdlib0 sampleDiscord freshWorld
       \<lparr>Name = ''list_roles'', Arguments = []\<rparr>
     = (Return (FormatValidationError (missingParameter ''guild_id'')) None, freshWorld)
   \<and> Execute (Validating SendMessageTool) stdlib0 sampleDiscord freshWorld
       \<lparr>Name = ''send_message'', Arguments = [(''channel_id'', GString ''1'')]\<rparr>
     = (Return (FormatValidationError (missingParameter ''content'')) None, freshWorld)"
proof -
  have n: "tsName ListRolesTool = ''list_roles''"
    by (simp add: ListRolesTool_def roleTool_def)
  have s: "map_of ToolSchemas (tsName ListRolesTool) = Some (GMap
      [(''type'', GString ''object''),
       (''properties'', GMap [
         (''guild_id'', GMap [
           (''type'', GString ''string''),
           (''pattern'', GString ''^[0-9]+$''),
           (''description'', GString ''Guild (server) ID to list roles from'')])]),
       (''required'', GStrings [''guild_id''])])"
    by (simp add: n ToolSchemas_def list_roles_schema_def)
  from validation_before_permission [OF s, of "[''guild_id'']" "''guild_id''"
      "\<lparr>Name = ''list_roles'', Arguments = []\<rparr>" stdlib0 sampleDiscord freshWorld]
  have a: "Execute (Validating ListRolesTool) stdlib0 sampleDiscord freshWorld
       \<lparr>Name = ''list_roles'', Arguments = []\<rparr>
     = (Return (FormatValidationError (missingParameter ''guild_id'')) None, freshWorld)"
    by simp
  have "\<exists>schemaMap. send_message_schema = GMap schemaMap
      \<and> map_of schemaMap ''required'' = Some (GStrings [''channel_id'', ''content''])"
    by (simp add: send_message_schema_def)
  then obtain schemaMap where m: "send_message_schema = GMap schemaMap"
    and r: "map_of schemaMap ''required'' = Some (GStrings [''channel_id'', ''content''])"
    by blast
  have t: "map_of ToolSchemas (tsName SendMessageTool) = Some (GMap schemaMap)"
    by (simp add: SendMessageTool_def ToolSchemas_def m)
  from validation_before_permission [OF t r, of "''content''"
      "\<lparr>Name = ''send_message'', Arguments = [(''channel_id'', GString ''1'')]\<rparr>"
      stdlib0 sampleDiscord freshWorld]
  have b: "Execute (Validating SendMessageTool) stdlib0 sampleDiscord freshWorld
       \<lparr>Name = ''send_message'', Arguments = [(''channel_id'', GString ''1'')]\<rparr>
     = (Return (FormatValidationError (missingParameter ''content'')) None, freshWorld)"
    by simp
  show ?thesis using a b by simp
qed

lemma runTool_no_error:
  "fst (runTool spec lib d w params) = Return res e \<Longrightarrow> e = None"
  by (auto simp: runTool_def remotePhase_def callRemote_def permissionFailed_def
      split: prod.splits option.splits goerr.splits if_splits)

text \<open>
  Where \<^verbatim>\<open>Execute\<close> returns. Let the server be initialized, the parameters of a \<^verbatim>\<open>tools/call\<close>
  decode and name a registered tool that validates. Then
  \<^item> an error of \<^verbatim>\<open>ValidateToolParams\<close>, and a failure of a check of the arguments before or
    after the permission check, is answered by the response that carries
    \<^verbatim>\<open>FormatValidationError\<close> of the error; a panic of \<^verbatim>\<open>ValidateToolParams\<close> is not answered;
  \<^item> a \<^verbatim>\<open>*PermissionError\<close> of the permission check is answered by the response that carries
    \<^verbatim>\<open>FormatPermissionError\<close> of it, and another error of the permission check by the response
    that carries \<^verbatim>\<open>formatError\<close> of it;
  \<^item> no response to the call carries a JSON-RPC error;
  \<^item> these results have \<^verbatim>\<open>isError\<close> set; the data of a validation failure is its type, its
    message and its field under \<^verbatim>\<open>error_type\<close>, \<^verbatim>\<open>message\<close>, \<^verbatim>\<open>field\<close>, and the data of a
    permission failure has the keys \<^verbatim>\<open>error_type\<close>, \<^verbatim>\<open>operation\<close>, \<^verbatim>\<open>permission\<close>, \<^verbatim>\<open>resource\<close>,
    \<^verbatim>\<open>description\<close>.
\<close>

lemma returned_failures:
  assumes "initialized s"
    and "UnmarshalCallToolParams jl (case qParams req of Some raw \<Rightarrow> raw | None \<Rightarrow> []) = Inr params"
    and "map_of (tools s) (Name params) = Some (Validating spec)"
  shows "(\<forall>p cache'.
            ValidateToolParams lib ToolSchemas (pats w) (tsName spec) (Arguments params)
              = (Some (RuntimePanic p), cache') \<longrightarrow>
            handleToolCall jl lib d s w req = (Crash p, w\<lparr>pats := cache'\<rparr>))
    \<and> (\<forall>err cache'.
            ValidateToolParams lib ToolSchemas (pats w) (tsName spec) (Arguments params)
              = (Some err, cache') \<longrightarrow>
            \<not> is_RuntimePanic err \<longrightarrow>
            handleToolCall jl lib d s w req
              = (Respond (answered (qID req) (FormatValidationError err)),
                 w\<lparr>pats := cache'\<rparr>))
    \<and> (\<forall>cache' err.
            ValidateToolParams lib ToolSchemas (pats w) (tsName spec) (Arguments params)
              = (None, cache') \<longrightarrow>
            assertionsHold spec (Arguments params) \<longrightarrow>
            tsBefore spec (Arguments params) = Some err \<longrightarrow>
            handleToolCall jl lib d s w req
              = (Respond (answered (qID req) (FormatValidationError err)),
                 w\<lparr>pats := cache'\<rparr>))
    \<and> (\<forall>cache' operation permission resource description tr.
            ValidateToolParams lib ToolSchemas (pats w) (tsName spec) (Arguments params)
              = (None, cache') \<longrightarrow>
            assertionsHold spec (Arguments params) \<longrightarrow>
            tsBefore spec (Arguments params) = None \<longrightarrow>
            tsPermission spec d (calls w) (Arguments params)
              = (Some (PermissionError operation permission resource description), tr) \<longrightarrow>
            handleToolCall jl lib d s w req
              = (Respond (answered (qID req)
                   (FormatPermissionError operation permission resource description)),
                 w\<lparr>pats := cache', calls := tr\<rparr>))
    \<and> (\<forall>cache' err tr.
            ValidateToolParams lib ToolSchemas (pats w) (tsName spec) (Arguments params)
              = (None, cache') \<longrightarrow>
            assertionsHold spec (Arguments params) \<longrightarrow>
            tsBefore spec (Arguments params) = None \<longrightarrow>
            tsPermission spec d (calls w) (Arguments params) = (Some err, tr) \<longrightarrow>
            \<not> is_PermissionError err \<longrightarrow>
            handleToolCall jl lib d s w req
              = (Respond (answered (qID req)
                   (formatError ''Permission check failed'' err)),
                 w\<lparr>pats := cache', calls := tr\<rparr>))
    \<and> (\<forall>cache' err tr.
            ValidateToolParams lib ToolSchemas (pats w) (tsName spec) (Arguments params)
              = (None, cache') \<longrightarrow>
            assertionsHold spec (Arguments params) \<longrightarrow>
            tsBefore spec (Arguments params) = None \<longrightarrow>
            tsPermission spec d (calls w) (Arguments params) = (None, tr) \<longrightarrow>
            tsAfter spec (Arguments params) = Some err \<longrightarrow>
            handleToolCall jl lib d s w req
              = (Respond (answered (qID req) (FormatValidationError err)),
                 w\<lparr>pats := cache', calls := tr\<rparr>))
    \<and> (\<forall>resp w'. handleToolCall jl lib d s w req = (Respond resp, w') \<longrightarrow> sError resp = None)
    \<and> (\<forall>err. rIsError (FormatValidationError err)
            \<and> dataKeys (FormatValidationError err) = [Some [''error_type'', ''message'', ''field'']])
    \<and> (\<forall>ty message field.
            map cData (rContent (FormatValidationError (ValidationError ty message field)))
              = [Some [(''error_type'', AS ty), (''message'', AT message),
                       (''field'', fieldValue field)]])
    \<and> (\<forall>operation permission resource description.
            rIsError (FormatPermissionError operation permission resource description)
            \<and> dataKeys (FormatPermissionError operation permission resource description)
                = [Some [''error_type'', ''operation'', ''permission'', ''resource'',
                         ''description'']])"
proof -
  note envelope = answered_def resultResponse_def JSONRPCVersion_def
  have p0: "handleToolCall jl lib d s w req = (Crash p, w\<lparr>pats := cache'\<rparr>)"
    if "ValidateToolParams lib ToolSchemas (pats w) (tsName spec) (Arguments params)
          = (Some (RuntimePanic p), cache')" for p cache'
    using that assms by (simp add: handleToolCall_def runTool_def)
  have g: "map cData (rContent (FormatValidationError (ValidationError ty message field)))
              = [Some [(''error_type'', AS ty), (''message'', AT message),
                       (''field'', fieldValue field)]]" for ty message field
    by (simp add: FormatValidationError_def asValidationError_def Let_def)
  have e: "sError resp = None" if "handleToolCall jl lib d s w req = (Respond resp, w')" for resp w'
  proof (cases "runTool spec lib d w params")
    case (Pair x w'')
    show ?thesis
    proof (cases x)
      case (Return res err)
      with Pair runTool_no_error [of spec lib d w params res err] have "err = None"
        by simp
      with that assms Pair Return show ?thesis
        by (auto simp: handleToolCall_def resultResponse_def)
    next
      case (Panicked p)
      with that assms Pair show ?thesis
        by (simp add: handleToolCall_def)
    qed
  qed
  have a: "handleToolCall jl lib d s w req
              = (Respond (answered (qID req) (FormatValidationError err)),
                 w\<lparr>pats := cache'\<rparr>)"
    if "ValidateToolParams lib ToolSchemas (pats w) (tsName spec) (Arguments params)
          = (Some err, cache')"
      and "\<not> is_RuntimePanic err" for err cache'
    using that assms by (cases err) (simp_all add: handleToolCall_def runTool_def envelope)
  have a': "handleToolCall jl lib d s w req
              = (Respond (answered (qID req) (FormatValidationError err)),
                 w\<lparr>pats := cache'\<rparr>)"
    if "ValidateToolParams lib ToolSchemas (pats w) (tsName spec) (Arguments params)
          = (None, cache')"
      and "assertionsHold spec (Arguments params)"
      and "tsBefore spec (Arguments params) = Some err" for err cache'
    using that assms by (simp add: handleToolCall_def runTool_def envelope)
  have b: "handleToolCall jl lib d s w req
              = (Respond (answered (qID req)
                   (FormatPermissionError operation permission resource description)),
                 w\<lparr>pats := cache', calls := tr\<rparr>)"
    if "ValidateToolParams lib ToolSchemas (pats w) (tsName spec) (Arguments params)
          = (None, cache')"
      and "assertionsHold spec (Arguments params)"
      and "tsBefore spec (Arguments params) = None"
      and "tsPermission spec d (calls w) (Arguments params)
              = (Some (PermissionError operation permission resource description), tr)"
    for cache' operation permission resource description tr
    using that assms by (simp add: handleToolCall_def runTool_def permissionFailed_def envelope)
  have b': "handleToolCall jl lib d s w req
              = (Respond (answered (qID req)
                   (formatError ''Permission check failed'' err)),
                 w\<lparr>pats := cache', calls := tr\<rparr>)"
    if "ValidateToolParams lib ToolSchemas (pats w) (tsName spec) (Arguments params)
          = (None, cache')"
      and "assertionsHold spec (Arguments params)"
      and "tsBefore spec (Arguments params) = None"
      and "tsPermission spec d (calls w) (Arguments params) = (Some err, tr)"
      and "\<not> is_PermissionError err"
    for cache' err tr
    using that assms
    by (cases err) (simp_all add: handleToolCall_def runTool_def permissionFailed_def envelope)
  have b'': "handleToolCall jl lib d s w req
              = (Respond (answered (qID req) (FormatValidationError err)),
                 w\<lparr>pats := cache', calls := tr\<rparr>)"
    if "ValidateToolParams lib ToolSchemas (pats w) (tsName spec) (Arguments params)
          = (None, cache')"
      and "assertionsHold spec (Arguments params)"
      and "tsBefore spec (Arguments params) = None"
      and "tsPermission spec d (calls w) (Arguments params) = (None, tr)"
      and "tsAfter spec (Arguments params) = Some err"
    for cache' err tr
    using that assms by (simp add: handleToolCall_def runTool_def envelope)
  have c: "rIsError (FormatValidationError err)
            \<and> dataKeys (FormatValidationError err) = [Some [''error_type'', ''message'', ''field'']]"
    for err
    by (simp add: FormatValidationError_def dataKeys_def Let_def)
  have f: "rIsError (FormatPermissionError operation permission resource description)
            \<and> dataKeys (FormatPermissionError operation permission resource description)
                = [Some [''error_type'', ''operation'', ''permission'', ''resource'',
                         ''description'']]"
    for operation permission resource description
    by (simp add: FormatPermissionError_def dataKeys_def)
  show ?thesis
    using p0 a a' b b' b'' c e f g by blast
qed

lemma returned_failures_witness:
  "fst (handleToolCall sampleJson stdlib0 sampleDiscord (sampleServer\<lparr>initialized := True\<rparr>) freshWorld
          \<lparr>qJSONRPC = ''2.0'', qID = GFloat 3, qMethod = ''tools/call'', qParams = Some emptyCall\<rparr>)
     = Respond (answered (GFloat 3)
                   (FormatValidationError (missingParameter ''guild_id'')))
   \<and> fst (handleToolCall sampleJson stdlib0 sampleDiscord (sampleServer\<lparr>initialized := True\<rparr>) freshWorld
          \<lparr>qJSONRPC = ''2.0'', qID = GFloat 3, qMethod = ''tools/call'', qParams = Some guildCall\<rparr>)
     = Respond (answered (GFloat 3)
                   (FormatPermissionError ''manage_roles'' ''MANAGE_ROLES'' (guildResource ''1'')
            ''Bot cannot manage roles in this guild''))"
proof -
  let ?s = "sampleServer\<lparr>initialized := True\<rparr>"
  let ?empty = "\<lparr>qJSONRPC = ''2.0'', qID = GFloat 3, qMethod = ''tools/call'', qParams = Some emptyCall\<rparr>"
  let ?guild = "\<lparr>qJSONRPC = ''2.0'', qID = GFloat 3, qMethod = ''tools/call'', qParams = Some guildCall\<rparr>"
  let ?pe = "\<lparr>Name = ''list_roles'', Arguments = []\<rparr>"
  let ?pg = "\<lparr>Name = ''list_roles'', Arguments = [(''guild_id'', GString ''1'')]\<rparr>"
  have i: "initialized ?s"
    by simp
  have t: "map_of (tools ?s) ''list_roles'' = Some (Validating ListRolesTool)"
    by (simp add: sampleServer_def RegisterTool_def NewServer_def ListRolesTool_def roleTool_def
        GetToolDefinition_def)
  have n: "tsName ListRolesTool = ''list_roles''"
    by (simp add: ListRolesTool_def roleTool_def)
  have de: "UnmarshalCallToolParams sampleJson (case qParams ?empty of Some raw \<Rightarrow> raw | None \<Rightarrow> []) = Inr ?pe"
    by (simp add: sampleJson_def sampleCalls_def emptyCall_def)
  have dg: "UnmarshalCallToolParams sampleJson (case qParams ?guild of Some raw \<Rightarrow> raw | None \<Rightarrow> []) = Inr ?pg"
    by (simp add: sampleJson_def sampleCalls_def emptyCall_def guildCall_def)
  have ve: "ValidateToolParams stdlib0 ToolSchemas (pats freshWorld) (tsName ListRolesTool) (Arguments ?pe)
      = (Some (missingParameter ''guild_id''), NewValidator)"
    by (simp add: n validator_defs ToolSchemas_def list_roles_schema_def freshWorld_def missingParameter_def)
  have vg: "ValidateToolParams stdlib0 ToolSchemas (pats freshWorld) (tsName ListRolesTool) (Arguments ?pg)
      = (None, NewValidator(''^[0-9]+$'' \<mapsto> snowflake))"
    by (simp add: n validator_defs ToolSchemas_def list_roles_schema_def freshWorld_def stdlib0_def snowflake_def)
  have ah: "assertionsHold ListRolesTool (Arguments ?pg)"
    by (simp add: assertionsHold_def ListRolesTool_def roleTool_def)
  have bf: "tsBefore ListRolesTool (Arguments ?pg) = None"
    by (simp add: ListRolesTool_def roleTool_def noCheck_def)
  have pm: "tsPermission ListRolesTool sampleDiscord (calls freshWorld) (Arguments ?pg)
      = (Some (PermissionError ''manage_roles'' ''MANAGE_ROLES'' (guildResource ''1'')
            ''Bot cannot manage roles in this guild''),
         [CGetBotUser, CGetGuild ''1'', CStateMember ''1'' ''42'', CStateRole ''1'' ''5''])"
    by (simp add: ListRolesTool_def roleTool_def CanManageRoles_def requireBit_def
        getBotGuildPermissions_def callGetBotUser_def callGetGuild_def callStateMember_def
        callStateRole_def sampleDiscord_def freshWorld_def strArg_def NewPermissionError_def
        permission_bits)
  have a: "fst (handleToolCall sampleJson stdlib0 sampleDiscord ?s freshWorld ?empty)
     = Respond (answered (GFloat 3)
                   (FormatValidationError (missingParameter ''guild_id'')))"
    using returned_failures [OF i de, of ListRolesTool stdlib0 freshWorld sampleDiscord,
        THEN conjunct2, THEN conjunct1, rule_format, OF _ ve] t
    by (simp add: missingParameter_def)
  have b: "fst (handleToolCall sampleJson stdlib0 sampleDiscord ?s freshWorld ?guild)
     = Respond (answered (GFloat 3)
                   (FormatPermissionError ''manage_roles'' ''MANAGE_ROLES'' (guildResource ''1'')
            ''Bot cannot manage roles in this guild''))"
    using returned_failures [OF i dg, of ListRolesTool stdlib0 freshWorld sampleDiscord,
        THEN conjunct2, THEN conjunct2, THEN conjunct2, THEN conjunct1, rule_format, OF _ vg ah bf pm] t
    by simp
  show ?thesis using a b by simp
qed

text \<open>
  C5. A failure that is not answered. The schema of \<^verbatim>\<open>list_channels\<close> asks for strings in
  \<^verbatim>\<open>type_filter\<close> and for unique items. A call whose \<^verbatim>\<open>type_filter\<close> holds a list fails the schema:
  the check of the items rejects the element with a type mismatch. But \<^verbatim>\<open>validateArray\<close> runs
  the loop of \<^verbatim>\<open>uniqueItems\<close> before the check of the items, the loop stores the element as a
  key of a map, and a list cannot be a key: the validator panics. Neither \<^verbatim>\<open>Execute\<close>,
  \<^verbatim>\<open>handleToolCall\<close> nor \<^verbatim>\<open>handleCommunication\<close> recovers, so the serving loop ends with the
  panic, the read lock released, and nothing is written to the client: no response with a
  tool result, and no JSON-RPC error either. The order of the arguments does not matter.
\<close>

theorem unhashable_item_unanswered:
  "handleCommunication channelsJson stdlib0 sampleDiscord sampleResponses appending [filterLine] None
       session0
     = (Panics ''runtime error: hash of unhashable type []interface {}'',
        session0\<lparr>theWorld := freshWorld\<lparr>pats := NewValidator(''^[0-9]+$'' \<mapsto> snowflake)\<rparr>,
                  theOutside := \<lparr>sink = [],
                                 logged = [(LDebug, Sprintf ''Received: %s'' [AS filterLine])]\<rparr>,
                  theEffects := [RLock ServerMutex, RUnlock ServerMutex]\<rparr>)
   \<and> fst (handleToolCall channelsJson stdlib0 sampleDiscord channelsServer freshWorld
            \<lparr>qJSONRPC = ''2.0'', qID = GFloat 3, qMethod = ''tools/call'', qParams = Some filterCall\<rparr>)
       = Crash ''runtime error: hash of unhashable type []interface {}''
   \<and> fst (Execute (Validating ListChannelsTool) stdlib0 sampleDiscord freshWorld
            \<lparr>Name = ''list_channels'', Arguments = rev filterArguments\<rparr>)
       = Panicked ''runtime error: hash of unhashable type []interface {}''
   \<and> validateItems stdlib0 NewValidator ''type_filter'' 0 [GSlice [GString ''text'']]
         (GMap [(''type'', GString ''string''),
                (''enum'', GStrings [''text'', ''voice'', ''category'', ''announcement'', ''stage'',
                                     ''forum'', ''media''])])
       = (Some (typeMismatch ''type_filter[0]'' ''a string'' (GSlice [GString ''text''])),
          NewValidator)"
proof -
  note ev = session0_def channelsJson_def channelsServer_def sampleServer_def RegisterTool_def
    NewServer_def processMessage_def dispatch_def handleToolCall_def processLocks_def
    did_def logf_def quiet_def filterLine_def filterCall_def filterArguments_def
    GetToolDefinition_def ListRolesTool_def roleTool_def
    runTool_def ListChannelsTool_def validator_defs ToolSchemas_def
    list_channels_schema_def stdlib0_def snowflake_def freshWorld_def
    minItemsCheck_def maxItemsCheck_def uniqueItemsCheck_def hashable_def
  have a: "handleCommunication channelsJson stdlib0 sampleDiscord sampleResponses appending
       [filterLine] None session0
     = (Panics ''runtime error: hash of unhashable type []interface {}'',
        session0\<lparr>theWorld := freshWorld\<lparr>pats := NewValidator(''^[0-9]+$'' \<mapsto> snowflake)\<rparr>,
                  theOutside := \<lparr>sink = [],
                                 logged = [(LDebug, Sprintf ''Received: %s'' [AS filterLine])]\<rparr>,
                  theEffects := [RLock ServerMutex, RUnlock ServerMutex]\<rparr>)"
    by (simp add: ev)
  have b: "fst (handleToolCall channelsJson stdlib0 sampleDiscord channelsServer freshWorld
            \<lparr>qJSONRPC = ''2.0'', qID = GFloat 3, qMethod = ''tools/call'', qParams = Some filterCall\<rparr>)
       = Crash ''runtime error: hash of unhashable type []interface {}''"
    by (simp add: ev)
  have c: "fst (Execute (Validating ListChannelsTool) stdlib0 sampleDiscord freshWorld
            \<lparr>Name = ''list_channels'', Arguments = rev filterArguments\<rparr>)
       = Panicked ''runtime error: hash of unhashable type []interface {}''"
    by (simp add: ev)
  have d: "validateItems stdlib0 NewValidator ''type_filter'' 0 [GSlice [GString ''text'']]
         (GMap [(''type'', GString ''string''),
                (''enum'', GStrings [''text'', ''voice'', ''category'', ''announcement'', ''stage'',
                                     ''forum'', ''media''])])
       = (Some (typeMismatch ''type_filter[0]'' ''a string'' (GSlice [GString ''text''])),
          NewValidator)"
    by (simp add: ev itemParamName_def itoa.simps [of 0] typeMismatch_def char_of_def
        bit_numeral_simps bit_Suc_0_iff)
  show ?thesis
    by (intro conjI a b c d)
qed

section \<open>Properties of the notification channel\<close>

lemma onEvent_handleEvent:
  "onEvent m d ev st
     = handleEvent m d (eventName ev) (debugLine ev) (eventParams ev) (failureFormat ev) st"
  by (cases ev)
    (simp_all add: HandleMessageCreate_def HandleGuildMemberAdd_def HandleMessageReactionAdd_def)

text \<open>
  C8. For every event that has a handler: unless the flag \<^verbatim>\<open>Enabled\<close> is set and the name of
  the event is in \<^verbatim>\<open>AllowedEvents\<close>, the handler changes nothing, neither the output nor
  the log. If both hold, the handler hands the notification of the event to \<^verbatim>\<open>Send\<close>: with a
  writer configured, the line of the notification is written to the output by one call of
  the writer, whether the call succeeds or fails; when it succeeds nothing is logged as an
  error; when it fails (and when no writer is configured) the error is logged and the
  handler returns, and no further write is attempted.
\<close>

theorem notification_gate:
  "(\<not> (Enabled (config d) \<and> isEventAllowed (config d) (eventName ev)) \<longrightarrow> onEvent m d ev st = st)
   \<and> (Enabled (config d) \<and> isEventAllowed (config d) (eventName ev) \<longrightarrow>
        (\<forall>write line. notificationSvc d = Some write \<longrightarrow>
           MarshalNotification m (emitted m ev) = Inr line \<longrightarrow>
             sink (onEvent m d ev st) = snd (write (line @ [CHR 0x0A]) (sink st))
             \<and> (fst (write (line @ [CHR 0x0A]) (sink st)) = None \<longrightarrow>
                  filter (\<lambda>e. fst e = LError) (logged (onEvent m d ev st))
                    = filter (\<lambda>e. fst e = LError) (logged st))
             \<and> (\<forall>err. fst (write (line @ [CHR 0x0A]) (sink st)) = Some err \<longrightarrow>
                  logged (onEvent m d ev st)
                    = logged st
                      @ [(LDebug, debugLine ev),
                         (LDebug, Sprintf ''Sending notification: %s'' [AS line]),
                         (LError, Sprintf (failureFormat ev)
                            [AT (Sprintf ''failed to write notification: %w'' [AT err])])]))
        \<and> (notificationSvc d = None \<longrightarrow>
             sink (onEvent m d ev st) = sink st
             \<and> logged (onEvent m d ev st)
                = logged st
                  @ [(LDebug, debugLine ev),
                     (LError, Sprintf (failureFormat ev)
                        [AT (Lit ''notification writer not configured'')])]))"
  by (auto simp: onEvent_handleEvent handleEvent_def Send_def createNotification_def emitted_def
      Fprintln_def Let_def split: prod.splits option.splits sum.splits)

theorem notification_gate_witness:
  "onEvent sampleMarshaller
       \<lparr>config = \<lparr>Enabled = False, AllowedEvents = [''discord/messageCreated'']\<rparr>,
        notificationSvc = Some appending\<rparr> sampleEvent quiet = quiet
   \<and> onEvent sampleMarshaller
       \<lparr>config = \<lparr>Enabled = True, AllowedEvents = [''discord/guildMemberAdded'']\<rparr>,
        notificationSvc = Some appending\<rparr> sampleEvent quiet = quiet
   \<and> sink (onEvent sampleMarshaller
       \<lparr>config = \<lparr>Enabled = True, AllowedEvents = [''discord/messageCreated'']\<rparr>,
        notificationSvc = Some appending\<rparr> sampleEvent quiet)
      = [''discord/messageCreated'' @ [CHR 0x0A]]
   \<and> sink (onEvent sampleMarshaller
       \<lparr>config = \<lparr>Enabled = True, AllowedEvents = [''discord/messageCreated'']\<rparr>,
        notificationSvc = Some broken\<rparr> sampleEvent quiet) = []
   \<and> last (logged (onEvent sampleMarshaller
       \<lparr>config = \<lparr>Enabled = True, AllowedEvents = [''discord/messageCreated'']\<rparr>,
        notificationSvc = Some broken\<rparr> sampleEvent quiet))
      = (LError, Sprintf ''Failed to send messageCreated notification: %v''
          [AT (Sprintf ''failed to write notification: %w'' [AT (Lit ''broken pipe'')])])"
proof -
  let ?off = "\<lparr>config = \<lparr>Enabled = False, AllowedEvents = [''discord/messageCreated'']\<rparr>,
       notificationSvc = Some appending\<rparr>"
  let ?other = "\<lparr>config = \<lparr>Enabled = True, AllowedEvents = [''discord/guildMemberAdded'']\<rparr>,
       notificationSvc = Some appending\<rparr>"
  let ?on = "\<lparr>config = \<lparr>Enabled = True, AllowedEvents = [''discord/messageCreated'']\<rparr>,
       notificationSvc = Some appending\<rparr>"
  let ?bad = "\<lparr>config = \<lparr>Enabled = True, AllowedEvents = [''discord/messageCreated'']\<rparr>,
       notificationSvc = Some broken\<rparr>"
  have n: "eventName sampleEvent = ''discord/messageCreated''"
    by (simp add: sampleEvent_def)
  have f: "failureFormat sampleEvent = ''Failed to send messageCreated notification: %v''"
    by (simp add: sampleEvent_def)
  have l: "MarshalNotification sampleMarshaller (emitted sampleMarshaller sampleEvent)
      = Inr ''discord/messageCreated''"
    by (simp add: sampleMarshaller_def emitted_def n)
  have a: "onEvent sampleMarshaller ?off sampleEvent quiet = quiet"
    using notification_gate [of ?off sampleEvent sampleMarshaller quiet]
    by simp
  have b: "onEvent sampleMarshaller ?other sampleEvent quiet = quiet"
    using notification_gate [of ?other sampleEvent sampleMarshaller quiet]
    by (simp add: isEventAllowed_def n)
  have c: "sink (onEvent sampleMarshaller ?on sampleEvent quiet)
      = [''discord/messageCreated'' @ [CHR 0x0A]]"
    using notification_gate [of ?on sampleEvent sampleMarshaller quiet] l
    by (simp add: isEventAllowed_def n appending_def quiet_def)
  have d: "sink (onEvent sampleMarshaller ?bad sampleEvent quiet) = []"
    using notification_gate [of ?bad sampleEvent sampleMarshaller quiet] l
    by (simp add: isEventAllowed_def n broken_def quiet_def)
  have e: "last (logged (onEvent sampleMarshaller ?bad sampleEvent quiet))
      = (LError, Sprintf ''Failed to send messageCreated notification: %v''
          [AT (Sprintf ''failed to write notification: %w'' [AT (Lit ''broken pipe'')])])"
    using notification_gate [of ?bad sampleEvent sampleMarshaller quiet] l
    by (simp add: isEventAllowed_def n f broken_def quiet_def)
  show ?thesis using a b c d e by simp
qed

section \<open>Properties of the two writing paths\<close>

text \<open>
  The writes of \<^verbatim>\<open>Send\<close> and of \<^verbatim>\<open>handleCommunication\<close> to the output are the \<^verbatim>\<open>Write\<close> effects
  of their lists of effects; the lists have few shapes; and \<^verbatim>\<open>handleCommunication\<close> goes
  from \<open>unlocked\<close> to \<open>unlocked\<close>.
\<close>

lemma perform_append: "perform wr (xs @ ys) w = perform wr ys (perform wr xs w)"
  by (induction wr xs w rule: perform.induct) simp_all

lemma Send_performs:
  "sink (snd (Send m (Some wr) n st)) = perform wr (SendEffects m (Some wr) n) (sink st)"
  by (auto simp: Send_def SendEffects_def Fprintln_def Let_def split: sum.splits prod.splits option.splits)

lemma SendEffects_shapes:
  "SendEffects m wr n = [Lock ServiceMutex, Unlock ServiceMutex]
   \<or> SendEffects m wr n = [Lock ServiceMutex, Marshal, Unlock ServiceMutex]
   \<or> (\<exists>bytes. SendEffects m wr n = [Lock ServiceMutex, Marshal, Write bytes, Unlock ServiceMutex])"
  by (auto simp: SendEffects_def split: option.splits sum.splits)

lemma Send_exclusive:
  "set (runs [] (SendEffects m wr a) (SendEffects m' wr' b))
     = {map (Pair False) (SendEffects m wr a) @ map (Pair True) (SendEffects m' wr' b),
        map (Pair True) (SendEffects m' wr' b) @ map (Pair False) (SendEffects m wr a)}"
  using SendEffects_shapes [of m wr a] SendEffects_shapes [of m' wr' b]
  by (elim disjE exE) auto

lemma holding_append:
  "holding held (xs @ ys) = holding held xs @ holding (foldl after held xs) ys"
  by (induction xs arbitrary: held) simp_all

lemma processLocks_shapes:
  "processLocks jl line = [] \<or> processLocks jl line = [Lock ServerMutex, Unlock ServerMutex]
   \<or> processLocks jl line = [RLock ServerMutex, RUnlock ServerMutex]"
  by (auto simp: processLocks_def split: sum.splits)

lemma unlocked_step:
  assumes "unlocked es" "rest = [] \<or> rest = [Marshal] \<or> rest = [Marshal, Write bytes]"
  shows "unlocked (es @ processLocks jl line @ rest)"
  using assms processLocks_shapes [of jl line]
  by (elim disjE) (auto simp: unlocked_def holding_append)

lemma handleCommunication_unlocked:
  "unlocked (theEffects st) \<Longrightarrow>
   unlocked (theEffects (snd (handleCommunication jl lib d marshal output lines scanErr st)))"
proof (induction lines arbitrary: st)
  case Nil
  then show ?case by simp
next
  case (Cons line rest)
  show ?case
  proof (cases "line = []")
    case True
    with Cons show ?thesis by simp
  next
    case False
    obtain r s' w' where p: "processMessage jl lib d (theServer st, theWorld st) line = (r, s', w')"
      by (cases "processMessage jl lib d (theServer st, theWorld st) line") auto
    have u0: "unlocked (theEffects st @ processLocks jl line @ [])"
      using unlocked_step [OF Cons.prems, of "[]"] by simp
    have u1: "unlocked (theEffects st @ processLocks jl line @ [Marshal])"
      using unlocked_step [OF Cons.prems, of "[Marshal]"] by simp
    have u2: "unlocked (theEffects st @ processLocks jl line @ [Marshal, Write bytes])" for bytes
      using unlocked_step [OF Cons.prems, of "[Marshal, Write bytes]" bytes] by simp
    show ?thesis
    proof (cases r)
      case NoResponse
      with p False u0 show ?thesis
        by (auto intro!: Cons.IH simp: did_def logf_def)
    next
      case (Respond response)
      show ?thesis
      proof (cases "marshal response")
        case (Inl err)
        with p False u1 Respond show ?thesis
          by (auto intro!: Cons.IH simp: did_def logf_def)
      next
        case (Inr responseJSON)
        with p False u2 [of "responseJSON @ [CHR 0x0A]"] Respond show ?thesis
          by (auto intro!: Cons.IH simp: did_def logf_def Let_def split: prod.splits option.splits)
      qed
    next
      case (Crash x3)
      with p False u0 show ?thesis
        by (auto simp: did_def logf_def)
    qed
  qed
qed

lemma handleCommunication_performs:
  "\<exists>es. theEffects (snd (handleCommunication jl lib d marshal output lines scanErr st)) = theEffects st @ es
     \<and> sink (theOutside (snd (handleCommunication jl lib d marshal output lines scanErr st)))
         = perform output es (sink (theOutside st))"
proof (induction lines arbitrary: st)
  case Nil
  then show ?case by simp
next
  case (Cons line rest)
  show ?case
  proof (cases "line = []")
    case True
    with Cons show ?thesis by simp
  next
    case False
    obtain r s' w' where p: "processMessage jl lib d (theServer st, theWorld st) line = (r, s', w')"
      by (cases "processMessage jl lib d (theServer st, theWorld st) line") auto
    have pl: "perform output (processLocks jl line @ es) w = perform output es w" for es w
      using processLocks_shapes [of jl line] by (elim disjE) simp_all
    have pl0: "perform output (processLocks jl line) w = w" for w
      using pl [of "[]" w] by simp
    show ?thesis
    proof (cases r)
      case NoResponse
      let ?st1 = "did (processLocks jl line)
                          ((logf LDebug (Sprintf ''Received: %s'' [AS line]) st)
                             \<lparr>theServer := s', theWorld := w'\<rparr>)"
      from Cons.IH [of ?st1] obtain es where
        "theEffects (snd (handleCommunication jl lib d marshal output rest scanErr ?st1)) = theEffects ?st1 @ es
          \<and> sink (theOutside (snd (handleCommunication jl lib d marshal output rest scanErr ?st1)))
         = perform output es (sink (theOutside ?st1))" by blast
      with p False NoResponse show ?thesis
        by (auto simp: did_def logf_def perform_append pl pl0 intro!: exI [of _ "processLocks jl line @ es"])
    next
      case (Respond response)
      show ?thesis
      proof (cases "marshal response")
        case (Inl err)
        let ?st1 = "logf LError (Sprintf ''Failed to marshal response: %v'' [AT err])
                               (did [Marshal] (did (processLocks jl line)
                          ((logf LDebug (Sprintf ''Received: %s'' [AS line]) st)
                             \<lparr>theServer := s', theWorld := w'\<rparr>)))"
        from Cons.IH [of ?st1] obtain es where
          "theEffects (snd (handleCommunication jl lib d marshal output rest scanErr ?st1)) = theEffects ?st1 @ es
          \<and> sink (theOutside (snd (handleCommunication jl lib d marshal output rest scanErr ?st1)))
         = perform output es (sink (theOutside ?st1))" by blast
        with p False Respond Inl show ?thesis
          by (auto simp: did_def logf_def perform_append pl pl0
              intro!: exI [of _ "processLocks jl line @ Marshal # es"])
      next
        case (Inr responseJSON)
        let ?st2 = "did [Marshal, Write (responseJSON @ [CHR 0x0A])]
                                       (logf LDebug (Sprintf ''Sending: %s'' [AS responseJSON]) (did (processLocks jl line)
                          ((logf LDebug (Sprintf ''Received: %s'' [AS line]) st)
                             \<lparr>theServer := s', theWorld := w'\<rparr>)))"
        obtain e sink' where f: "Fprintln output responseJSON (sink (theOutside ?st2)) = (e, sink')"
          by (cases "Fprintln output responseJSON (sink (theOutside ?st2))") auto
        let ?st3 = "?st2\<lparr>theOutside := (theOutside ?st2)\<lparr>sink := sink'\<rparr>\<rparr>"
        from Cons.IH [of ?st3] obtain es where
          i: "theEffects (snd (handleCommunication jl lib d marshal output rest scanErr ?st3)) = theEffects ?st3 @ es
          \<and> sink (theOutside (snd (handleCommunication jl lib d marshal output rest scanErr ?st3)))
         = perform output es (sink (theOutside ?st3))" by blast
        show ?thesis
        proof (cases e)
          case None
          with p False Respond Inr f i show ?thesis
            by (auto simp: did_def logf_def perform_append pl pl0 Fprintln_def Let_def
              intro!: exI [of _ "processLocks jl line @ Marshal # Write (responseJSON @ [CHR 0x0A]) # es"])
        next
          case (Some err)
          with p False Respond Inr f show ?thesis
            by (auto simp: did_def logf_def perform_append pl pl0 Fprintln_def Let_def
              intro!: exI [of _ "processLocks jl line @ [Marshal, Write (responseJSON @ [CHR 0x0A])]"])
        qed
      qed
    next
      case (Crash x3)
      with p False show ?thesis
        by (auto simp: did_def logf_def pl pl0 intro!: exI [of _ "processLocks jl line"])
    qed
  qed
qed

lemma overlap:
  "map (Pair False) (processLocks jl line @ [Marshal]) @ map (Pair True) (SendEffects m wr n)
       @ [(False, Write bytes)]
     \<in> set (runs [] (processLocks jl line @ [Marshal, Write bytes]) (SendEffects m wr n))"
  using processLocks_shapes [of jl line] SendEffects_shapes [of m wr n]
  by (elim disjE exE) auto

lemma Send_holds:
  "list_all (\<lambda>(e, held). isOutput e \<longrightarrow> held = [Excl ServiceMutex]) (holding [] (SendEffects m wr n))
   \<and> foldl after [] (SendEffects m wr n) = []"
  using SendEffects_shapes [of m wr n]
  by (elim disjE exE) auto


lemma single_line:
  assumes "theEffects st = []" "line \<noteq> []"
    and "fst (processMessage jl lib d (theServer st, theWorld st) line) = Respond response"
    and "marshal response = Inr responseJSON"
  shows "theEffects (snd (handleCommunication jl lib d marshal output [line] scanErr st))
           = processLocks jl line @ [Marshal, Write (responseJSON @ [CHR 0x0A])]"
  using assms
  by (cases "processMessage jl lib d (theServer st, theWorld st) line")
     (auto simp: did_def logf_def Let_def split: prod.splits option.splits)

lemma unlocked_Nil: "unlocked []"
  by (simp add: unlocked_def)

text \<open>
  C9, as the claim states it, fails: the two paths do not take one and the same lock around
  marshalling and writing. A ping is answered with no operation on any mutex, so the
  response path does not hold, when it marshals and writes, the mutex that \<^verbatim>\<open>Send\<close> holds;
  and there is a run in which a notification is marshalled and written, under the lock of
  \<^verbatim>\<open>Send\<close>, after the response to the ping is marshalled and before it is written.
\<close>

theorem shared_lock_counterexample:
  "theEffects (snd (handleCommunication channelsJson stdlib0 sampleDiscord sampleResponses appending
                      [pingLine] None session0))
     = [Marshal, Write (pongJSON @ [CHR 0x0A])]
   \<and> \<not> list_all (\<lambda>(e, held). isOutput e \<longrightarrow> List.member held (Excl ServiceMutex))
          (holding [] (theEffects (snd (handleCommunication channelsJson stdlib0 sampleDiscord
                                          sampleResponses appending [pingLine] None session0))))
   \<and> list_all (\<lambda>(e, held). isOutput e \<longrightarrow> List.member held (Excl ServiceMutex))
          (holding [] (SendEffects sampleMarshaller (Some appending) (emitted sampleMarshaller sampleEvent)))
   \<and> List.member
        (runs [] [Marshal, Write (pongJSON @ [CHR 0x0A])]
           (SendEffects sampleMarshaller (Some appending) (emitted sampleMarshaller sampleEvent)))
        [(False, Marshal),
         (True, Lock ServiceMutex), (True, Marshal),
         (True, Write (''discord/messageCreated'' @ [CHR 0x0A])), (True, Unlock ServiceMutex),
         (False, Write (pongJSON @ [CHR 0x0A]))]"
  by (simp add: session0_def channelsJson_def sampleJson_def sampleLines_def pingLine_def
      filterLine_def initializedLine_def toolsListLine_def
      processMessage_def dispatch_def handlePing_def resultResponse_def processLocks_def
      sampleResponses_def did_def logf_def quiet_def appending_def Fprintln_def
      SendEffects_def sampleMarshaller_def emitted_def sampleEvent_def)

text \<open>
  C9, amended. Only the notification path locks around marshalling and writing.
  \<^item> \<^verbatim>\<open>Send\<close> marshals and writes while it holds the mutex of its service and nothing else, and
    has released it when it returns; it hands the marshalled envelope and a line feed to the
    output in one \<^verbatim>\<open>Write\<close>; what \<^verbatim>\<open>Send\<close> does to the output is what its \<^verbatim>\<open>Write\<close> effects do.
  \<^item> \<^verbatim>\<open>handleCommunication\<close>, on every input, is \<open>unlocked\<close>: it holds no lock when it marshals
    or writes (the read lock of the server is released before), and it never locks the
    mutex of the notification service; what it does to the output is what its \<^verbatim>\<open>Write\<close>
    effects do.
  \<^item> Two calls of \<^verbatim>\<open>Send\<close> never overlap: in every run of two of them one is complete before
    the other starts.
  \<^item> A line that is answered has the effects of \<^verbatim>\<open>processMessage\<close>, then one \<^verbatim>\<open>Marshal\<close> and one
    \<^verbatim>\<open>Write\<close> of the marshalled response and a line feed; and a whole \<^verbatim>\<open>Send\<close> can run after
    that \<^verbatim>\<open>Marshal\<close> and before that \<^verbatim>\<open>Write\<close>.
\<close>

theorem writing_paths:
  "list_all (\<lambda>(e, held). isOutput e \<longrightarrow> held = [Excl ServiceMutex]) (holding [] (SendEffects m wr n))
   \<and> foldl after [] (SendEffects m wr n) = []
   \<and> (\<forall>responseJSON.
         MarshalNotification m (n\<lparr>nJSONRPC := JSONRPCVersion\<rparr>) = Inr responseJSON \<longrightarrow>
         SendEffects m (Some output) n
           = [Lock ServiceMutex, Marshal, Write (responseJSON @ [CHR 0x0A]), Unlock ServiceMutex])
   \<and> sink (snd (Send m (Some output) n ost)) = perform output (SendEffects m (Some output) n) (sink ost)
   \<and> (theEffects st = [] \<longrightarrow>
         unlocked (theEffects (snd (handleCommunication jl lib d marshal output lines scanErr st)))
         \<and> sink (theOutside (snd (handleCommunication jl lib d marshal output lines scanErr st)))
             = perform output
                 (theEffects (snd (handleCommunication jl lib d marshal output lines scanErr st)))
                 (sink (theOutside st)))
   \<and> set (runs [] (SendEffects m wr n) (SendEffects m' wr' n'))
       = {map (Pair False) (SendEffects m wr n) @ map (Pair True) (SendEffects m' wr' n'),
          map (Pair True) (SendEffects m' wr' n') @ map (Pair False) (SendEffects m wr n)}
   \<and> (\<forall>line response responseJSON.
         theEffects st = [] \<and> line \<noteq> []
         \<and> fst (processMessage jl lib d (theServer st, theWorld st) line) = Respond response
         \<and> marshal response = Inr responseJSON \<longrightarrow>
         theEffects (snd (handleCommunication jl lib d marshal output [line] scanErr st))
           = processLocks jl line @ [Marshal, Write (responseJSON @ [CHR 0x0A])]
         \<and> List.member
             (runs [] (theEffects (snd (handleCommunication jl lib d marshal output [line] scanErr st)))
                (SendEffects m wr n))
             (map (Pair False) (processLocks jl line @ [Marshal])
                @ map (Pair True) (SendEffects m wr n)
                @ [(False, Write (responseJSON @ [CHR 0x0A]))]))"
proof -
  have a: "MarshalNotification m (n\<lparr>nJSONRPC := JSONRPCVersion\<rparr>) = Inr responseJSON \<Longrightarrow>
         SendEffects m (Some output) n
           = [Lock ServiceMutex, Marshal, Write (responseJSON @ [CHR 0x0A]), Unlock ServiceMutex]"
    for responseJSON
    by (simp add: SendEffects_def)
  have b: "unlocked (theEffects (snd (handleCommunication jl lib d marshal output lines scanErr st)))
         \<and> sink (theOutside (snd (handleCommunication jl lib d marshal output lines scanErr st)))
             = perform output
                 (theEffects (snd (handleCommunication jl lib d marshal output lines scanErr st)))
                 (sink (theOutside st))"
    if "theEffects st = []"
    using that handleCommunication_unlocked [of st jl lib d marshal "output" "lines" scanErr]
      handleCommunication_performs [of jl lib d marshal "output" "lines" scanErr st] unlocked_Nil
    by auto
  have c: "theEffects (snd (handleCommunication jl lib d marshal output [line] scanErr st))
           = processLocks jl line @ [Marshal, Write (responseJSON @ [CHR 0x0A])]
         \<and> List.member
             (runs [] (theEffects (snd (handleCommunication jl lib d marshal output [line] scanErr st)))
                (SendEffects m wr n))
             (map (Pair False) (processLocks jl line @ [Marshal])
                @ map (Pair True) (SendEffects m wr n)
                @ [(False, Write (responseJSON @ [CHR 0x0A]))])"
    if "theEffects st = []" "line \<noteq> []"
      "fst (processMessage jl lib d (theServer st, theWorld st) line) = Respond response"
      "marshal response = Inr responseJSON"
    for line response responseJSON
    using that single_line [of st line jl lib d response marshal responseJSON "output" scanErr]
      overlap [of jl line m wr n "responseJSON @ [CHR 0x0A]"]
    by simp
  show ?thesis
    using Send_holds [of m wr n] a Send_performs [of m "output" n ost] b
      Send_exclusive [of m wr n m' wr' n'] c
    by blast
qed


lemmas session_defs =
  session0_def channelsJson_def sampleJson_def sampleLines_def pingLine_def
  filterLine_def initializedLine_def toolsListLine_def
  processMessage_def dispatch_def handlePing_def handleInitialized_def resultResponse_def
  processLocks_def sampleResponses_def did_def logf_def quiet_def appending_def Fprintln_def

theorem writing_paths_witness:
  "theEffects session0 = []
   \<and> unlocked (theEffects (snd (handleCommunication channelsJson stdlib0 sampleDiscord sampleResponses
                                  appending [initializedLine, pingLine] None session0)))
   \<and> theEffects (snd (handleCommunication channelsJson stdlib0 sampleDiscord sampleResponses
                         appending [initializedLine, pingLine] None session0))
       = [Lock ServerMutex, Unlock ServerMutex, Marshal, Write (pongJSON @ [CHR 0x0A])]
   \<and> sink (theOutside (snd (handleCommunication channelsJson stdlib0 sampleDiscord sampleResponses
                               appending [initializedLine, pingLine] None session0)))
       = [pongJSON @ [CHR 0x0A]]
   \<and> MarshalNotification sampleMarshaller
         ((emitted sampleMarshaller sampleEvent)\<lparr>nJSONRPC := JSONRPCVersion\<rparr>)
       = Inr ''discord/messageCreated''
   \<and> SendEffects sampleMarshaller (Some appending) (emitted sampleMarshaller sampleEvent)
       = [Lock ServiceMutex, Marshal, Write (''discord/messageCreated'' @ [CHR 0x0A]),
          Unlock ServiceMutex]
   \<and> sink (snd (Send sampleMarshaller (Some appending) (emitted sampleMarshaller sampleEvent) quiet))
       = [''discord/messageCreated'' @ [CHR 0x0A]]
   \<and> set (runs [] (SendEffects sampleMarshaller (Some appending) (emitted sampleMarshaller sampleEvent))
                   (SendEffects sampleMarshaller (None :: string list writer option)
                      (emitted sampleMarshaller sampleEvent)))
       = {[(False, Lock ServiceMutex), (False, Marshal),
           (False, Write (''discord/messageCreated'' @ [CHR 0x0A])), (False, Unlock ServiceMutex),
           (True, Lock ServiceMutex), (True, Unlock ServiceMutex)],
          [(True, Lock ServiceMutex), (True, Unlock ServiceMutex),
           (False, Lock ServiceMutex), (False, Marshal),
           (False, Write (''discord/messageCreated'' @ [CHR 0x0A])), (False, Unlock ServiceMutex)]}
   \<and> pingLine \<noteq> []
   \<and> fst (processMessage channelsJson stdlib0 sampleDiscord (theServer session0, theWorld session0)
            pingLine)
       = Respond \<lparr>sJSONRPC = ''2.0'', sID = GFloat 2,
                  sResult = Some (ResStrings [(''status'', ''pong'')]), sError = None\<rparr>
   \<and> sampleResponses \<lparr>sJSONRPC = ''2.0'', sID = GFloat 2,
                        sResult = Some (ResStrings [(''status'', ''pong'')]), sError = None\<rparr>
       = Inr pongJSON
   \<and> theEffects (snd (handleCommunication channelsJson stdlib0 sampleDiscord sampleResponses
                         appending [pingLine] None session0))
       = [Marshal, Write (pongJSON @ [CHR 0x0A])]
   \<and> List.member
        (runs [] (theEffects (snd (handleCommunication channelsJson stdlib0 sampleDiscord
                                     sampleResponses appending [pingLine] None session0)))
           (SendEffects sampleMarshaller (None :: string list writer option)
              (emitted sampleMarshaller sampleEvent)))
        [(False, Marshal), (True, Lock ServiceMutex), (True, Unlock ServiceMutex),
         (False, Write (pongJSON @ [CHR 0x0A]))]"
proof -
  let ?n = "emitted sampleMarshaller sampleEvent"
  let ?pong = "\<lparr>sJSONRPC = ''2.0'', sID = GFloat 2,
                  sResult = Some (ResStrings [(''status'', ''pong'')]), sError = None\<rparr>"
  define hc where "hc = handleCommunication channelsJson stdlib0 sampleDiscord sampleResponses appending
               [initializedLine, pingLine] None session0"
  define hp where "hp = handleCommunication channelsJson stdlib0 sampleDiscord sampleResponses appending
               [pingLine] None session0"
  define some where "some = SendEffects sampleMarshaller (Some appending) ?n"
  define none where "none = SendEffects sampleMarshaller (None :: string list writer option) ?n"
  note w = writing_paths [of sampleMarshaller "Some appending" ?n appending quiet session0
      channelsJson stdlib0 sampleDiscord sampleResponses "[initializedLine, pingLine]" None
      sampleMarshaller None ?n]
  note v = writing_paths [of sampleMarshaller "None :: string list writer option" ?n appending quiet session0
      channelsJson stdlib0 sampleDiscord sampleResponses "[]" None sampleMarshaller None ?n]
  have e: "theEffects session0 = []"
    by (simp add: session0_def)
  have m: "MarshalNotification sampleMarshaller (?n\<lparr>nJSONRPC := JSONRPCVersion\<rparr>)
       = Inr ''discord/messageCreated''"
    by (simp add: sampleMarshaller_def emitted_def sampleEvent_def)
  have none: "none = [Lock ServiceMutex, Unlock ServiceMutex]"
    by (simp add: none_def SendEffects_def)
  have p: "pingLine \<noteq> []"
    by (simp add: pingLine_def)
  have pm: "fst (processMessage channelsJson stdlib0 sampleDiscord (theServer session0, theWorld session0)
            pingLine) = Respond ?pong"
    by (simp add: session_defs JSONRPCVersion_def)
  have sr: "sampleResponses ?pong = Inr pongJSON"
    by (simp add: sampleResponses_def)
  have pl: "processLocks channelsJson pingLine = []"
    by (simp add: session_defs)
  have q: "sink (theOutside session0) = []" "sink quiet = []"
    by (simp_all add: session0_def quiet_def)
  note c = w [THEN conjunct2, THEN conjunct2]
  note some = c [THEN conjunct1, rule_format, OF m, folded some_def]
  note l = c [THEN conjunct2, THEN conjunct1, folded some_def]
  note uk = c [THEN conjunct2, THEN conjunct2, THEN conjunct1, rule_format, OF e, folded hc_def]
  note u = uk [THEN conjunct1]
  note k = uk [THEN conjunct2]
  note r = c [THEN conjunct2, THEN conjunct2, THEN conjunct2, THEN conjunct1,
      folded some_def none_def]
  note o = v [THEN conjunct2, THEN conjunct2, THEN conjunct2, THEN conjunct2, THEN conjunct2,
      THEN conjunct2, rule_format, of pingLine ?pong pongJSON, OF conjI [OF e conjI [OF p conjI [OF pm sr]]],
      folded hp_def none_def, unfolded pl append_Nil]
  have t: "theEffects (snd hc)
       = [Lock ServerMutex, Unlock ServerMutex, Marshal, Write (pongJSON @ [CHR 0x0A])]"
    by (simp add: hc_def session_defs)
  have k': "sink (theOutside (snd hc)) = [pongJSON @ [CHR 0x0A]]"
    using k by (simp add: t q appending_def)
  have l': "sink (snd (Send sampleMarshaller (Some appending) ?n quiet))
       = [''discord/messageCreated'' @ [CHR 0x0A]]"
    using l by (simp add: some q appending_def)
  have r': "set (runs [] some none)
       = {[(False, Lock ServiceMutex), (False, Marshal),
           (False, Write (''discord/messageCreated'' @ [CHR 0x0A])), (False, Unlock ServiceMutex),
           (True, Lock ServiceMutex), (True, Unlock ServiceMutex)],
          [(True, Lock ServiceMutex), (True, Unlock ServiceMutex),
           (False, Lock ServiceMutex), (False, Marshal),
           (False, Write (''discord/messageCreated'' @ [CHR 0x0A])), (False, Unlock ServiceMutex)]}"
    using r unfolding some none by simp
  have o1: "theEffects (snd hp) = [Marshal, Write (pongJSON @ [CHR 0x0A])]"
    by (rule o [THEN conjunct1])
  have o2: "List.member (runs [] (theEffects (snd hp)) none)
        [(False, Marshal), (True, Lock ServiceMutex), (True, Unlock ServiceMutex),
         (False, Write (pongJSON @ [CHR 0x0A]))]"
    using o [THEN conjunct2] unfolding none by simp
  show ?thesis
    unfolding hc_def [symmetric] hp_def [symmetric] some_def [symmetric] none_def [symmetric]
    by (intro conjI e u t k' m some l' r' p pm sr o1 o2)
qed

end
